theory Spec2Isabelle
  imports Main "HOL-Library.Char_ord" "HOL-Library.List_Lexorder" "HOL-Library.Multiset"
begin

section \<open>Data model of \<^verbatim>\<open>pkg/karmadactl/get/get.go\<close>\<close>

text \<open>
  Go errors are values carrying a message. A panic is kept apart from a returned error:
  a function of the model answers with an \<open>outcome\<close>, which is a value, a returned error
  or a panic (the Go runtime's message).
\<close>

datatype error = Error string

fun errorText :: "error \<Rightarrow> string" where
  "errorText (Error m) = m"

datatype 'a outcome = Ok 'a | Failed error | Panicked string

text \<open>The three adoption marks (Go type \<^verbatim>\<open>adoption\<close>, a string type).\<close>

definition managedByKarmada :: string where
  "managedByKarmada = ''Y''"

definition notManagedByKaramda :: string where
  "notManagedByKaramda = ''N''"

definition notApplicable :: string where
  "notApplicable = ''-''"

definition printColumnClusterNum :: nat where
  "printColumnClusterNum = 1"

subsection \<open>Tables\<close>

text \<open>A cell is an \<^verbatim>\<open>interface{}\<close> value: text or a number.\<close>

datatype cell = Str string | Num int

text \<open>
  \<^verbatim>\<open>row.Object.Raw\<close> is only ever passed to \<^verbatim>\<open>UnmarshalJSON\<close> and then asked for
  its labels: it is modelled by what that decoding gives, a failure or the label map
  (an association list with one entry per key).
\<close>

datatype RawExtension = Undecodable | Decoded "(string \<times> string) list"

record TableColumnDefinition =
  Name :: string
  Type :: string
  Format :: string
  Priority :: int

record TableRow =
  Cells :: "cell list"
  RowObject :: RawExtension

record Table =
  ColumnDefinitions :: "TableColumnDefinition list"
  Rows :: "TableRow list"

text \<open>
  What the file takes from other packages and cannot be read here: the constants
  \<^verbatim>\<open>karmadautil.ManagedByKarmadaLabel\<close> and
  \<^verbatim>\<open>karmadautil.ManagedByKarmadaLabelValue\<close>, and \<^verbatim>\<open>helper.ToUnstructured\<close>, of
  which only the returned error matters (the converted object holds the same table). The
  functions that use them take them as a parameter.
\<close>

record externals =
  ManagedByKarmadaLabel :: string
  ManagedByKarmadaLabelValue :: string
  ToUnstructured :: "Table \<Rightarrow> error option"

subsection \<open>Resource types and retrieved objects\<close>

datatype GroupVersionKind = GroupVersionKind (gvkGroup: string) (gvkVersion: string) (gvkKind: string)

datatype GroupVersionResource =
  GroupVersionResource (gvrGroup: string) (gvrVersion: string) (gvrResource: string)

datatype RESTScopeName = RESTScopeNameNamespace | RESTScopeNameRoot

record RESTMapping =
  Resource :: GroupVersionResource
  MappingGVK :: GroupVersionKind
  Scope :: RESTScopeName

text \<open>
  A \<^verbatim>\<open>runtime.Object\<close>. An \<^verbatim>\<open>*unstructured.Unstructured\<close> carries what
  \<^verbatim>\<open>DefaultUnstructuredConverter.FromUnstructured\<close> makes of it when asked for a table
  (the converter overwrites every field of the table it fills). A list object carries
  the answer of the resource-version accessor and its items. Anything else is \<open>Typed\<close>.
\<close>

datatype RuntimeObject =
    Unstructured "error + Table"
  | ListObject "error + string" "RuntimeObject list"
  | Typed

record Info =
  Mapping :: RESTMapping
  Object :: RuntimeObject

record Obj =
  Cluster :: string
  IsControlPlane :: bool
  Info :: Info

text \<open>
  The package variables \<^verbatim>\<open>podColumns\<close> and \<^verbatim>\<open>eventColumn\<close>. The slice
  \<^verbatim>\<open>podColumns\<close> has two elements for the whole life of the process (elements are
  assigned, nothing is appended), so its state is the pair of \<^verbatim>\<open>podColumns[0]\<close> and
  \<^verbatim>\<open>podColumns[1]\<close>. Being a package variable, it is threaded through every
  function that reads or writes it.
\<close>

type_synonym PodColumns = "TableColumnDefinition \<times> TableColumnDefinition"

definition podColumns :: PodColumns where
  "podColumns =
     (\<lparr>Name = ''CLUSTER'', Type = ''string'', Format = '''', Priority = 0\<rparr>,
      \<lparr>Name = ''ADOPTION'', Type = ''string'', Format = '''', Priority = 0\<rparr>)"

definition eventColumn :: TableColumnDefinition where
  "eventColumn = \<lparr>Name = ''EVENT'', Type = ''string'', Format = '''', Priority = 0\<rparr>"

section \<open>Row reconstruction\<close>

text \<open>
  \<^verbatim>\<open>Cells[0]\<close> followed by the cluster name and \<^verbatim>\<open>Cells[1:]\<close>. Indexing an empty
  cell slice is a run-time panic.
\<close>

fun withClusterCell :: "string \<Rightarrow> cell list \<Rightarrow> cell list outcome" where
  "withClusterCell cluster [] = Panicked ''index out of range [0] with length 0''"
| "withClusterCell cluster (c # cs) = Ok (c # Str cluster # cs)"

text \<open>The label test shared by both reconstructions.\<close>

definition hasManagedLabel :: "externals \<Rightarrow> (string \<times> string) list \<Rightarrow> bool" where
  "hasManagedLabel u labels =
     (case map_of labels (ManagedByKarmadaLabel u) of
        None \<Rightarrow> False
      | Some v \<Rightarrow> v = ManagedByKarmadaLabelValue u)"

text \<open>
  Body of the row loop of \<^verbatim>\<open>reconstructionRow\<close>: when the row's object does not
  decode, the loop logs and goes on to the next row, leaving the row without an
  adoption cell.
\<close>

definition reconstructionRow_row :: "externals \<Rightarrow> Obj \<Rightarrow> TableRow \<Rightarrow> TableRow outcome" where
  "reconstructionRow_row u obj row =
     (case withClusterCell (Cluster obj) (Cells row) of
        Panicked p \<Rightarrow> Panicked p
      | Failed e \<Rightarrow> Failed e
      | Ok cells \<Rightarrow>
          (case RowObject row of
             Undecodable \<Rightarrow> Ok (row\<lparr>Cells := cells\<rparr>)
           | Decoded labels \<Rightarrow>
               if IsControlPlane obj then Ok (row\<lparr>Cells := cells @ [Str notApplicable]\<rparr>)
               else if hasManagedLabel u labels
                 then Ok (row\<lparr>Cells := cells @ [Str managedByKarmada]\<rparr>)
                 else Ok (row\<lparr>Cells := cells @ [Str notManagedByKaramda]\<rparr>)))"

text \<open>A loop over the rows that stops at the first panic or error.\<close>

fun eachRow :: "(TableRow \<Rightarrow> TableRow outcome) \<Rightarrow> TableRow list \<Rightarrow> TableRow list outcome" where
  "eachRow f [] = Ok []"
| "eachRow f (r # rs) =
     (case f r of
        Panicked p \<Rightarrow> Panicked p
      | Failed e \<Rightarrow> Failed e
      | Ok r' \<Rightarrow>
          (case eachRow f rs of
             Panicked p \<Rightarrow> Panicked p
           | Failed e \<Rightarrow> Failed e
           | Ok rs' \<Rightarrow> Ok (r' # rs')))"

text \<open>
  \<^verbatim>\<open>reconstructionRow\<close>: the loop over the objects of one kind, with the accumulated
  rows, the last mapping seen (\<open>None\<close> is the nil pointer) and the table being reused.
  The result holds the rows, the mapping and the table as the last object left it.
\<close>

fun reconstructionRow_loop ::
  "externals \<Rightarrow> Obj list \<Rightarrow> Table \<Rightarrow> TableRow list \<Rightarrow> RESTMapping option
     \<Rightarrow> (TableRow list \<times> RESTMapping option \<times> Table) outcome" where
  "reconstructionRow_loop u [] table allTableRows mapping = Ok (allTableRows, mapping, table)"
| "reconstructionRow_loop u (obj # objs) table allTableRows mapping =
     (case Object (Info obj) of
        Unstructured conv \<Rightarrow>
          (case conv of
             Inl e \<Rightarrow> Failed e
           | Inr decoded \<Rightarrow>
               (case eachRow (reconstructionRow_row u obj) (Rows decoded) of
                  Panicked p \<Rightarrow> Panicked p
                | Failed e \<Rightarrow> Failed e
                | Ok rows \<Rightarrow>
                    reconstructionRow_loop u objs (decoded\<lparr>Rows := rows\<rparr>)
                      (allTableRows @ rows) (Some (Mapping (Info obj)))))
      | _ \<Rightarrow> Failed (Error ''attempt to decode non-Unstructured object''))"

definition reconstructionRow ::
  "externals \<Rightarrow> Obj list \<Rightarrow> Table
     \<Rightarrow> (TableRow list \<times> RESTMapping option \<times> Table) outcome" where
  "reconstructionRow u objs table = reconstructionRow_loop u objs table [] None"

section \<open>The command's options\<close>

datatype OperationScope = KarmadaControlPlane | Members | All_scope

text \<open>
  Modelled from the spec: \<^verbatim>\<open>options.ContainKarmadaScope\<close> is declared in another
  package of the repository. The scope is one of control plane only, members only and
  all; the control plane is in scope for the first and the last.
\<close>

definition ContainKarmadaScope :: "OperationScope \<Rightarrow> bool" where
  "ContainKarmadaScope s = (s = KarmadaControlPlane \<or> s = All_scope)"

text \<open>
  A printer answers a \<^verbatim>\<open>PrintObj\<close> call with the bytes it wrote and the error it
  returned, if any. A printer made for watching holds a pointer to a flag that switches
  the output of objects on and off; its answer depends on the value of the flag at the
  time of the call, which is the printer's first argument (a printer made with a nil
  pointer ignores it).
\<close>

type_synonym Printer = "bool \<Rightarrow> Table \<Rightarrow> string \<times> error option"

text \<open>
  The fields of \<^verbatim>\<open>CommandGetOptions\<close> that the modelled functions read. The second
  argument of \<^verbatim>\<open>ToPrinter\<close> is the \<^verbatim>\<open>*bool\<close>: \<open>None\<close> for nil, else the
  value it points to when the printer is made.
\<close>

record CommandGetOptions =
  Clusters :: "string list"
  OperationScope :: OperationScope
  TargetMemberClusters :: "string list"
  ToPrinter :: "RESTMapping option \<Rightarrow> bool option \<Rightarrow> bool \<Rightarrow> bool \<Rightarrow> error + Printer"
  IsHumanReadablePrinter :: bool
  Watch :: bool
  WatchOnly :: bool
  OutputWatchEvents :: bool
  Namespace :: string
  AllNamespaces :: bool
  NoHeaders :: bool
  IgnoreNotFound :: bool

section \<open>Column definitions\<close>

text \<open>
  \<^verbatim>\<open>setNoAdoption\<close> writes \<^verbatim>\<open>podColumns[printColumnClusterNum].Priority\<close>; the
  index \<^term>\<open>printColumnClusterNum\<close> is 1, the second of the two columns.
\<close>

definition setNoAdoption :: "RESTMapping option \<Rightarrow> PodColumns \<Rightarrow> PodColumns" where
  "setNoAdoption mapping pc =
     (case mapping of
        None \<Rightarrow> pc
      | Some m \<Rightarrow>
          if gvrResource (Resource m) = ''pods''
          then (fst pc, (snd pc)\<lparr>Priority := 1\<rparr>)
          else pc)"

definition setColumnDefinition :: "CommandGetOptions \<Rightarrow> PodColumns \<Rightarrow> Table \<Rightarrow> Table" where
  "setColumnDefinition g pc table =
     (case ColumnDefinitions table of
        [] \<Rightarrow> table
      | c # cs \<Rightarrow>
          if OutputWatchEvents g
          then table\<lparr>ColumnDefinitions := [eventColumn, c, fst pc] @ cs @ [snd pc]\<rparr>
          else table\<lparr>ColumnDefinitions := [c, fst pc] @ cs @ [snd pc]\<rparr>)"

text \<open>
  The table printer that the command delegates to (\<^verbatim>\<open>k8s.io/cli-runtime\<close>, not part
  of this repository) leaves a column out of the default view when its priority is not
  0, and prints it only in the wide view.
\<close>

definition shownByDefault :: "TableColumnDefinition \<Rightarrow> bool" where
  "shownByDefault c = (Priority c = 0)"

section \<open>Watch-mode reconstruction\<close>

text \<open>Body of the row loop of \<^verbatim>\<open>reconstructObj\<close>.\<close>

fun withEventAndClusterCell :: "bool \<Rightarrow> string \<Rightarrow> string \<Rightarrow> cell list \<Rightarrow> cell list outcome" where
  "withEventAndClusterCell ev event cluster [] = Panicked ''index out of range [0] with length 0''"
| "withEventAndClusterCell ev event cluster (c # cs) =
     (if ev then Ok (Str event # c # Str cluster # cs) else Ok (c # Str cluster # cs))"

definition reconstructObj_row ::
  "CommandGetOptions \<Rightarrow> externals \<Rightarrow> string \<Rightarrow> string \<Rightarrow> TableRow \<Rightarrow> TableRow outcome" where
  "reconstructObj_row g u cluster event row =
     (case withEventAndClusterCell (OutputWatchEvents g) event cluster (Cells row) of
        Panicked p \<Rightarrow> Panicked p
      | Failed e \<Rightarrow> Failed e
      | Ok cells \<Rightarrow>
          (case RowObject row of
             Undecodable \<Rightarrow> Ok (row\<lparr>Cells := cells\<rparr>)
           | Decoded labels \<Rightarrow>
               if hasManagedLabel u labels
               then Ok (row\<lparr>Cells := cells @ [Str ''Y'']\<rparr>)
               else Ok (row\<lparr>Cells := cells @ [Str ''N'']\<rparr>)))"

text \<open>
  \<^verbatim>\<open>reconstructObj\<close> returns the table and leaves \<^verbatim>\<open>podColumns\<close> as
  \<^verbatim>\<open>setNoAdoption\<close> set it. It has no parameter telling whether the cluster is the
  control plane.
\<close>

definition reconstructObj ::
  "CommandGetOptions \<Rightarrow> externals \<Rightarrow> PodColumns \<Rightarrow> RuntimeObject \<Rightarrow> RESTMapping option
     \<Rightarrow> string \<Rightarrow> string \<Rightarrow> (Table \<times> PodColumns) outcome" where
  "reconstructObj g u pc obj mapping cluster event =
     (case obj of
        Unstructured conv \<Rightarrow>
          (case conv of
             Inl e \<Rightarrow> Failed e
           | Inr table \<Rightarrow>
               (case eachRow (reconstructObj_row g u cluster event) (Rows table) of
                  Panicked p \<Rightarrow> Panicked p
                | Failed e \<Rightarrow> Failed e
                | Ok rows \<Rightarrow>
                    (let pc' = setNoAdoption mapping pc
                     in Ok (setColumnDefinition g pc' (table\<lparr>Rows := rows\<rparr>), pc'))))
      | _ \<Rightarrow> Failed (Error ''attempt to decode non-Unstructured object''))"

section \<open>Writers\<close>

text \<open>
  The writers of \<^verbatim>\<open>printObjs\<close>, outermost first: a tab writer, which holds what is
  printed until it is flushed (\<open>Buffer\<close>; its column alignment is not modelled), the
  \<^verbatim>\<open>separatorWriterWrapper\<close> (\<open>Ready\<close>), the \<^verbatim>\<open>trackingWriterWrapper\<close>
  (\<open>Written\<close>) and the command's output stream (\<open>Delegate\<close>).
\<close>

record Writers =
  Buffer :: string
  Ready :: bool
  Written :: nat
  Delegate :: string

definition trackingWrite :: "string \<Rightarrow> Writers \<Rightarrow> Writers" where
  "trackingWrite p w = w\<lparr>Written := Written w + length p, Delegate := Delegate w @ p\<rparr>"

definition separatorWrite :: "string \<Rightarrow> Writers \<Rightarrow> Writers" where
  "separatorWrite p w =
     (if length p \<noteq> 0 \<and> Ready w
      then trackingWrite p ((trackingWrite [CHR 0x0A] w)\<lparr>Ready := False\<rparr>)
      else trackingWrite p w)"

definition SetReady :: "bool \<Rightarrow> Writers \<Rightarrow> Writers" where
  "SetReady state w = w\<lparr>Ready := state\<rparr>"

definition Flush :: "Writers \<Rightarrow> Writers" where
  "Flush w = (separatorWrite (Buffer w) w)\<lparr>Buffer := []\<rparr>"

definition tabWrite :: "string \<Rightarrow> Writers \<Rightarrow> Writers" where
  "tabWrite p w = w\<lparr>Buffer := Buffer w @ p\<rparr>"

section \<open>List-mode rendering\<close>

definition multipleGVKsRequested :: "Obj list \<Rightarrow> bool" where
  "multipleGVKsRequested objs =
     (if length objs < 2 then False
      else (case objs of
              [] \<Rightarrow> False
            | first # _ \<Rightarrow>
                list_ex (\<lambda>obj. MappingGVK (Mapping (Info obj)) \<noteq> MappingGVK (Mapping (Info first)))
                  objs))"

text \<open>
  The variable \<^verbatim>\<open>printer\<close> of \<^verbatim>\<open>printObjs\<close> has the interface type
  \<^verbatim>\<open>printers.ResourcePrinter\<close>, and \<^verbatim>\<open>ToPrinter\<close> returns a
  \<^verbatim>\<open>printers.ResourcePrinterFunc\<close>. The variable is the nil interface until the first
  assignment. When \<^verbatim>\<open>ToPrinter\<close> fails it returns the nil function with its error
  (\<^verbatim>\<open>getResourcePrinter\<close>), and the variable then holds that function: an interface
  that is not nil. Calling \<^verbatim>\<open>PrintObj\<close> on either of the two is a run-time panic.
\<close>

datatype PrinterVar = NilInterface | NilFunc | Func Printer

definition shouldGetNewPrinterForMapping ::
  "PrinterVar \<Rightarrow> RESTMapping option \<Rightarrow> RESTMapping option \<Rightarrow> bool" where
  "shouldGetNewPrinterForMapping printer lastMapping mapping =
     (if printer = NilInterface then True
      else
        (case lastMapping of
           None \<Rightarrow> True
         | Some lm \<Rightarrow>
             (case mapping of
                None \<Rightarrow> True
              | Some m \<Rightarrow> Resource m \<noteq> Resource lm)))"

definition checkPrintWithNamespace :: "CommandGetOptions \<Rightarrow> RESTMapping option \<Rightarrow> bool" where
  "checkPrintWithNamespace g mapping =
     (case mapping of
        None \<Rightarrow> AllNamespaces g
      | Some m \<Rightarrow> if Scope m = RESTScopeNameRoot then False else AllNamespaces g)"

text \<open>\<^verbatim>\<open>Info.Namespaced\<close>, for an info that has a mapping.\<close>

definition Namespaced :: "Info \<Rightarrow> bool" where
  "Namespaced info = (Scope (Mapping info) = RESTScopeNameNamespace)"

text \<open>
  \<^verbatim>\<open>printIfNotFindResource\<close> writes to the error stream, here the list of the
  messages written, one per call of \<^verbatim>\<open>Fprintln\<close> or \<^verbatim>\<open>Fprintf\<close>. It is given
  the pointer to the error list, so the list is part of what it leaves behind.
\<close>

definition printIfNotFindResource ::
  "CommandGetOptions \<Rightarrow> nat \<Rightarrow> error list \<Rightarrow> bool \<Rightarrow> string list
     \<Rightarrow> string list \<times> error list" where
  "printIfNotFindResource g written allErrs allResourcesNamespaced errOut =
     (if written \<noteq> 0 \<or> IgnoreNotFound g \<or> length allErrs \<noteq> 0 then (errOut, allErrs)
      else if \<not> ContainKarmadaScope (OperationScope g) \<and> length (TargetMemberClusters g) = 0
        then (errOut @ [''No member Clusters found in Karmada control plane'' @ [CHR 0x0A]],
              allErrs)
      else if allResourcesNamespaced
        then (errOut @ [''No resources found in '' @ Namespace g @ '' namespace.'' @ [CHR 0x0A]],
              allErrs)
        else (errOut @ [''No resources found'' @ [CHR 0x0A]], allErrs))"

text \<open>
  The local variables of \<^verbatim>\<open>printObjs\<close>, with the error list and \<^verbatim>\<open>podColumns\<close>.
  \<open>psPrinted\<close> is not a variable of the code: it keeps the tables that were handed to
  \<^verbatim>\<open>PrintObj\<close>, in the order of the calls.
\<close>

record PrintState =
  psPrinter :: PrinterVar
  psLastMapping :: "RESTMapping option"
  psErrs :: "string list"
  psAllErrs :: "error list"
  psSameKind :: "Obj list"
  psWriters :: Writers
  psAllResourcesNamespaced :: bool
  psPodColumns :: PodColumns
  psPrinted :: "Table list"

text \<open>
  How one pass through the loop body ends: it goes on to the next object (also after
  \<^verbatim>\<open>continue\<close>), the function returns, or the process panics.
\<close>

datatype flow = Next PrintState | Return PrintState | Crash string

text \<open>
  Second half of the loop body: when the object is the last of its kind, the rows of
  \<open>sameKind\<close> are merged into one table and printed.
\<close>

definition printObjs_table ::
  "CommandGetOptions \<Rightarrow> externals \<Rightarrow> Obj \<Rightarrow> Obj list \<Rightarrow> PrintState \<Rightarrow> flow" where
  "printObjs_table g u obj rest st =
     (if rest = [] \<or> Resource (Mapping (Info obj)) \<noteq> Resource (Mapping (Info (hd rest)))
      then
        (case reconstructionRow u (psSameKind st) \<lparr>ColumnDefinitions = [], Rows = []\<rparr> of
           Panicked p \<Rightarrow> Crash p
         | Failed err \<Rightarrow> Return (st\<lparr>psAllErrs := psAllErrs st @ [err]\<rparr>)
         | Ok (allTableRows, mapping, table0) \<Rightarrow>
             (let pc = setNoAdoption mapping (psPodColumns st);
                  table = setColumnDefinition g pc (table0\<lparr>Rows := allTableRows\<rparr>);
                  st1 = st\<lparr>psPodColumns := pc\<rparr>
              in case ToUnstructured u table of
                   Some err \<Rightarrow> Return (st1\<lparr>psAllErrs := psAllErrs st1 @ [err]\<rparr>)
                 | None \<Rightarrow>
                     (case psPrinter st1 of
                        Func printer \<Rightarrow>
                          (case printer True table of
                             (bytes, Some err) \<Rightarrow>
                               Return (st1\<lparr>psWriters := tabWrite bytes (psWriters st1),
                                           psPrinted := psPrinted st1 @ [table],
                                           psAllErrs := psAllErrs st1 @ [err]\<rparr>)
                           | (bytes, None) \<Rightarrow>
                               Next (st1\<lparr>psWriters := tabWrite bytes (psWriters st1),
                                         psPrinted := psPrinted st1 @ [table],
                                         psSameKind := []\<rparr>))
                      | _ \<Rightarrow> Crash ''invalid memory address or nil pointer dereference'')))
      else Next st)"

text \<open>
  Start of a new group of the loop body: the tab writer is flushed, and a blank line is
  asked for when this is not the first group, headers are printed and something has been
  written.
\<close>

definition printObjs_separate :: "CommandGetOptions \<Rightarrow> PrintState \<Rightarrow> PrintState" where
  "printObjs_separate g st =
     (let w1 = Flush (psWriters st)
      in if psLastMapping st \<noteq> None \<and> \<not> NoHeaders g \<and> Written w1 > 0
         then st\<lparr>psWriters := SetReady True w1\<rparr>
         else st\<lparr>psWriters := w1\<rparr>)"

text \<open>
  The loop body for \<open>obj\<close>, with the objects after it in \<open>rest\<close>. When no printer can
  be made, the error is recorded once per message and the body ends before the table
  part (\<^verbatim>\<open>continue\<close>); the printer variable then holds the nil function that
  \<^verbatim>\<open>ToPrinter\<close> returned with its error, and the last mapping is as it was.
\<close>

definition printObjs_body ::
  "CommandGetOptions \<Rightarrow> externals \<Rightarrow> bool \<Rightarrow> Obj \<Rightarrow> Obj list \<Rightarrow> PrintState \<Rightarrow> flow" where
  "printObjs_body g u printWithKind obj rest st0 =
     (let mapping = Mapping (Info obj);
          st = st0\<lparr>psSameKind := psSameKind st0 @ [obj],
                   psAllResourcesNamespaced :=
                     (psAllResourcesNamespaced st0 \<and> Namespaced (Info obj))\<rparr>;
          printWithNamespace = checkPrintWithNamespace g (Some mapping)
      in if shouldGetNewPrinterForMapping (psPrinter st) (psLastMapping st) (Some mapping)
         then
           (let st2 = printObjs_separate g st
            in case ToPrinter g (Some mapping) None printWithNamespace printWithKind of
                 Inl err \<Rightarrow>
                   (if errorText err \<in> set (psErrs st2)
                    then Next (st2\<lparr>psPrinter := NilFunc\<rparr>)
                    else Next (st2\<lparr>psPrinter := NilFunc,
                                  psErrs := psErrs st2 @ [errorText err],
                                  psAllErrs := psAllErrs st2 @ [err]\<rparr>))
               | Inr printer \<Rightarrow>
                   printObjs_table g u obj rest
                     (st2\<lparr>psPrinter := Func printer, psLastMapping := Some mapping\<rparr>))
         else printObjs_table g u obj rest st)"

fun printObjs_loop ::
  "CommandGetOptions \<Rightarrow> externals \<Rightarrow> bool \<Rightarrow> Obj list \<Rightarrow> PrintState \<Rightarrow> flow" where
  "printObjs_loop g u printWithKind [] st = Next st"
| "printObjs_loop g u printWithKind (obj # rest) st =
     (case printObjs_body g u printWithKind obj rest st of
        Next st' \<Rightarrow> printObjs_loop g u printWithKind rest st'
      | Return st' \<Rightarrow> Return st'
      | Crash p \<Rightarrow> Crash p)"

text \<open>
  What a rendering leaves behind: the error list, the bytes on the output stream, the
  count of the tracking writer, the messages on the error stream and \<^verbatim>\<open>podColumns\<close>.
\<close>

record Rendered =
  rAllErrs :: "error list"
  rOut :: string
  rWritten :: nat
  rErrOut :: "string list"
  rPodColumns :: PodColumns

definition printObjs ::
  "CommandGetOptions \<Rightarrow> externals \<Rightarrow> PodColumns \<Rightarrow> Obj list \<Rightarrow> error list
     \<Rightarrow> string + Rendered" where
  "printObjs g u pc objs allErrs =
     (let st0 = \<lparr>psPrinter = NilInterface, psLastMapping = None, psErrs = [],
                 psAllErrs = allErrs, psSameKind = [],
                 psWriters = \<lparr>Buffer = [], Ready = False, Written = 0, Delegate = []\<rparr>,
                 psAllResourcesNamespaced = (\<not> AllNamespaces g), psPodColumns = pc,
                 psPrinted = []\<rparr>
      in case printObjs_loop g u (multipleGVKsRequested objs) objs st0 of
           Crash p \<Rightarrow> Inl p
         | Return st \<Rightarrow>
             Inr \<lparr>rAllErrs = psAllErrs st, rOut = Delegate (psWriters st),
                  rWritten = Written (psWriters st), rErrOut = [],
                  rPodColumns = psPodColumns st\<rparr>
         | Next st \<Rightarrow>
             (let w = Flush (psWriters st);
                  (errOut, allErrs') =
                    printIfNotFindResource g (Written w) (psAllErrs st)
                      (psAllResourcesNamespaced st) []
              in Inr \<lparr>rAllErrs = allErrs', rOut = Delegate w, rWritten = Written w,
                      rErrOut = errOut, rPodColumns = psPodColumns st\<rparr>))"

section \<open>Targets and fan-out\<close>

record Event =
  EventType :: string
  EventObject :: RuntimeObject

text \<open>
  A \<^verbatim>\<open>resource.Result\<close>, by the answers of the methods called on it: \<^verbatim>\<open>Err\<close>,
  \<^verbatim>\<open>Infos\<close>, \<^verbatim>\<open>Object\<close>, \<^verbatim>\<open>Watch\<close> for a resource version (the events that the
  watch delivers before its channel closes), and what \<^verbatim>\<open>printGeneric\<close> writes and
  returns for it.
\<close>

record Result =
  Err :: "error option"
  Infos :: "error + Info list"
  ResultObject :: "error + RuntimeObject"
  ResultWatch :: "string \<Rightarrow> error + Event list"
  PrintGeneric :: "string \<times> error option"

record WatchObj =
  WatchCluster :: string
  WatchResult :: Result

text \<open>
  A \<^verbatim>\<open>cmdutil.Factory\<close> for one target: the error of \<^verbatim>\<open>RESTClient\<close>, if any, the
  error of the authorization probe sent through the proxy of a cluster, if any, and the
  result of the builder chain. \<^verbatim>\<open>util.Factory\<close> adds the factories of the members.
\<close>

record Factory =
  RESTClient :: "error option"
  ProxyProbe :: "string \<Rightarrow> error option"
  BuilderDo :: Result

record KarmadaFactory =
  ControlPlane :: Factory
  FactoryForMemberCluster :: "string \<Rightarrow> error + Factory"

text \<open>The variables shared by the tasks of \<^verbatim>\<open>Run\<close>, and the output stream.\<close>

record Collected =
  cObjs :: "Obj list"
  cWatchObjs :: "WatchObj list"
  cAllErrs :: "error list"
  cOut :: string

text \<open>The two error messages that \<^verbatim>\<open>getObjInfo\<close> makes with \<^verbatim>\<open>fmt.Errorf\<close>.\<close>

definition inaccessible :: "string \<Rightarrow> error" where
  "inaccessible cluster =
     Error (''cluster('' @ cluster @
            '') is inaccessible, please check authorization or network'')"

definition clusterError :: "string \<Rightarrow> error \<Rightarrow> error" where
  "clusterError cluster err = Error (''cluster('' @ cluster @ ''): '' @ errorText err)"

text \<open>
  \<^verbatim>\<open>getObjInfo\<close> works on the shared variables through pointers, and the calls for
  the members run concurrently. What a call does to the shared variables is therefore
  kept apart from when it does it: the call is the list of its operations on them, in
  program order. Every path of the function ends after at most one append to the error
  list; the appends to the objects and to the watch handles are made under the mutex
  (the loop over the infos is one critical section), the appends to the error list and
  the output of \<^verbatim>\<open>printGeneric\<close> are not.
\<close>

datatype Op =
    AppendErr error
  | AddWatchObj WatchObj
  | AddObjs "Obj list"
  | WriteOut string

definition getObjInfo_ops ::
  "CommandGetOptions \<Rightarrow> Factory \<Rightarrow> string \<Rightarrow> bool \<Rightarrow> Op list" where
  "getObjInfo_ops g f cluster isControlPlane =
     (case RESTClient f of
        Some err \<Rightarrow> [AppendErr err]
      | None \<Rightarrow>
          if \<not> isControlPlane \<and> ProxyProbe f cluster \<noteq> None
          then [AppendErr (inaccessible cluster)]
          else
            (let r = BuilderDo f
             in case Err r of
                  Some err \<Rightarrow> [AppendErr (clusterError cluster err)]
                | None \<Rightarrow>
                    if Watch g \<or> WatchOnly g
                    then [AddWatchObj \<lparr>WatchCluster = cluster, WatchResult = r\<rparr>]
                    else if \<not> IsHumanReadablePrinter g
                    then
                      (case PrintGeneric r of
                         (bytes, Some err) \<Rightarrow>
                           [WriteOut bytes, AppendErr (clusterError cluster err)]
                       | (bytes, None) \<Rightarrow> [WriteOut bytes])
                    else
                      (case Infos r of
                         Inl err \<Rightarrow> [AppendErr (clusterError cluster err)]
                       | Inr infos \<Rightarrow>
                           [AddObjs (map (\<lambda>info. \<lparr>Cluster = cluster,
                                                  IsControlPlane = isControlPlane,
                                                  Info = info\<rparr>) infos)])))"

text \<open>An operation made in one piece, nothing else touching the variables meanwhile.\<close>

fun perform :: "Op \<Rightarrow> Collected \<Rightarrow> Collected" where
  "perform (AppendErr err) st = st\<lparr>cAllErrs := cAllErrs st @ [err]\<rparr>"
| "perform (AddWatchObj w) st = st\<lparr>cWatchObjs := cWatchObjs st @ [w]\<rparr>"
| "perform (AddObjs objs) st = st\<lparr>cObjs := cObjs st @ objs\<rparr>"
| "perform (WriteOut bytes) st = st\<lparr>cOut := cOut st @ bytes\<rparr>"

text \<open>
  A call of \<^verbatim>\<open>getObjInfo\<close> that runs alone, as the call for the control plane does
  (it is made before any goroutine is started).
\<close>

definition getObjInfo ::
  "CommandGetOptions \<Rightarrow> Factory \<Rightarrow> string \<Rightarrow> bool \<Rightarrow> Collected \<Rightarrow> Collected" where
  "getObjInfo g f cluster isControlPlane st =
     foldl (\<lambda>s op. perform op s) st (getObjInfo_ops g f cluster isControlPlane)"

section \<open>Watching\<close>

text \<open>
  The objects that \<^verbatim>\<open>watch\<close> prints for one target before the subscriptions start:
  the items of a list, or the object itself.
\<close>

definition objsToPrint :: "RuntimeObject \<Rightarrow> RuntimeObject list" where
  "objsToPrint obj = (case obj of ListObject rv items \<Rightarrow> items | _ \<Rightarrow> [obj])"

text \<open>
  Inner loop of the first part of \<^verbatim>\<open>watch\<close>: each object is reconstructed as an
  \<open>ADDED\<close> row and printed; \<open>idx\<close> is the position of the target. The state is the
  bytes given to the tab writer and \<^verbatim>\<open>podColumns\<close>.
\<close>

fun watch_print ::
  "CommandGetOptions \<Rightarrow> externals \<Rightarrow> Printer \<Rightarrow> bool \<Rightarrow> RESTMapping \<Rightarrow> string \<Rightarrow> nat
     \<Rightarrow> RuntimeObject list \<Rightarrow> string \<times> PodColumns \<Rightarrow> (string \<times> PodColumns) outcome" where
  "watch_print g u printer outputObjects mapping cluster idx [] st = Ok st"
| "watch_print g u printer outputObjects mapping cluster idx (objToPrint # later) (out, pc) =
     (case reconstructObj g u pc objToPrint (Some mapping) cluster ''ADDED'' of
        Panicked p \<Rightarrow> Panicked p
      | Failed err \<Rightarrow> Failed err
      | Ok (objrow0, pc') \<Rightarrow>
          (let objrow = (if idx > 0 then objrow0\<lparr>ColumnDefinitions := []\<rparr> else objrow0)
           in case ToUnstructured u objrow of
                Some err \<Rightarrow> Failed err
              | None \<Rightarrow>
                  (case printer outputObjects objrow of
                     (bytes, Some err) \<Rightarrow>
                       Failed (Error (''unable to output the provided object: '' @ errorText err))
                   | (bytes, None) \<Rightarrow>
                       watch_print g u printer outputObjects mapping cluster idx later
                         (out @ bytes, pc'))))"

text \<open>Outer loop of the first part of \<^verbatim>\<open>watch\<close>, over the targets.\<close>

fun watch_current ::
  "CommandGetOptions \<Rightarrow> externals \<Rightarrow> Printer \<Rightarrow> bool \<Rightarrow> RESTMapping \<Rightarrow> nat
     \<Rightarrow> WatchObj list \<Rightarrow> string \<times> PodColumns \<Rightarrow> (string \<times> PodColumns) outcome" where
  "watch_current g u printer outputObjects mapping idx [] st = Ok st"
| "watch_current g u printer outputObjects mapping idx (watchObj # later) st =
     (case ResultObject (WatchResult watchObj) of
        Inl err \<Rightarrow> Failed err
      | Inr obj \<Rightarrow>
          (case watch_print g u printer outputObjects mapping (WatchCluster watchObj) idx
                  (objsToPrint obj) st of
             Panicked p \<Rightarrow> Panicked p
           | Failed err \<Rightarrow> Failed err
           | Ok st' \<Rightarrow> watch_current g u printer outputObjects mapping (Suc idx) later st'))"

text \<open>
  How the goroutine of one target ends when nothing stops it from outside: with a panic,
  which ends the whole process, or with the end of its loop, after the bytes it printed
  and flushed, and with the error that \<^verbatim>\<open>UntilWithoutRetry\<close> returned, which the
  goroutine drops.
\<close>

datatype TargetLoop = TargetPanicked string | LoopEnded string error

text \<open>
  The function passed to \<^verbatim>\<open>UntilWithoutRetry\<close>, run on the events of one target in
  the order of delivery. It never asks to stop, so the loop ends with the first error
  of the function or, when the events are used up, with the error for a closed channel.
  The state is the bytes printed and the output flag. The flag is one variable shared
  by the loops of all targets, without synchronisation; the model follows the
  assignments of this loop only. The assignment that \<^verbatim>\<open>reconstructObj\<close> makes to
  \<^verbatim>\<open>podColumns\<close> is the same in every call for one mapping, and the column
  definitions are dropped before printing.
\<close>

fun watch_events ::
  "CommandGetOptions \<Rightarrow> externals \<Rightarrow> PodColumns \<Rightarrow> Printer \<Rightarrow> RESTMapping \<Rightarrow> string
     \<Rightarrow> Event list \<Rightarrow> string \<times> bool \<Rightarrow> TargetLoop" where
  "watch_events g u pc printer mapping cluster [] (out, outputObjects) =
     LoopEnded out (Error ''watch closed before UntilWithoutRetry timeout'')"
| "watch_events g u pc printer mapping cluster (e # later) (out, outputObjects) =
     (case reconstructObj g u pc (EventObject e) (Some mapping) cluster (EventType e) of
        Panicked p \<Rightarrow> TargetPanicked p
      | Failed err \<Rightarrow> LoopEnded out err
      | Ok (objrow0, pc') \<Rightarrow>
          (let objrow = objrow0\<lparr>ColumnDefinitions := []\<rparr>
           in case ToUnstructured u objrow of
                Some err \<Rightarrow> LoopEnded out err
              | None \<Rightarrow>
                  (case printer outputObjects objrow of
                     (bytes, Some err) \<Rightarrow> LoopEnded out err
                   | (bytes, None) \<Rightarrow>
                       watch_events g u pc' printer mapping cluster later (out @ bytes, True))))"

text \<open>
  Start of the goroutine: the resource version to watch from and the first value of the
  output flag. For a list it is the list's version and the flag is set; for a single
  object it is \<open>0\<close> and the flag is cleared.
\<close>

definition watch_start :: "RuntimeObject \<Rightarrow> error + string \<times> bool" where
  "watch_start obj =
     (case obj of
        ListObject rv items \<Rightarrow> (case rv of Inl err \<Rightarrow> Inl err | Inr v \<Rightarrow> Inr (v, True))
      | _ \<Rightarrow> Inr (''0'', False))"

text \<open>
  First part of the goroutine of one target, up to the call of \<^verbatim>\<open>Watch\<close>: the
  object is read again, the version and the flag are chosen, the watch is opened. The
  result is the first error, or the events of the watch and the flag.
\<close>

definition watch_establish :: "WatchObj \<Rightarrow> error + Event list \<times> bool" where
  "watch_establish watchObj =
     (case ResultObject (WatchResult watchObj) of
        Inl err \<Rightarrow> Inl err
      | Inr obj \<Rightarrow>
          (case watch_start obj of
             Inl err \<Rightarrow> Inl err
           | Inr (rv, outputObjects) \<Rightarrow>
               (case ResultWatch (WatchResult watchObj) rv of
                  Inl err \<Rightarrow> Inl err
                | Inr events \<Rightarrow> Inr (events, outputObjects))))"

text \<open>
  The goroutine of one target. Each error of the first part is answered with
  \<^verbatim>\<open>panic(err)\<close>; after it, the loop runs.
\<close>

definition watch_target ::
  "CommandGetOptions \<Rightarrow> externals \<Rightarrow> PodColumns \<Rightarrow> Printer \<Rightarrow> RESTMapping \<Rightarrow> WatchObj
     \<Rightarrow> TargetLoop" where
  "watch_target g u pc printer mapping watchObj =
     (case watch_establish watchObj of
        Inl err \<Rightarrow> TargetPanicked (errorText err)
      | Inr (events, outputObjects) \<Rightarrow>
          watch_events g u pc printer mapping (WatchCluster watchObj) events
            ([], outputObjects))"

text \<open>
  \<^verbatim>\<open>watchMultiClusterObj\<close> starts one goroutine per target and waits for a wait group
  that no goroutine ever signals: it does not return. Its model is the list of what the
  goroutines do, in the order of the targets. It is given no error list to write to.
\<close>

definition watchMultiClusterObj ::
  "CommandGetOptions \<Rightarrow> externals \<Rightarrow> PodColumns \<Rightarrow> Printer \<Rightarrow> RESTMapping \<Rightarrow> WatchObj list
     \<Rightarrow> TargetLoop list" where
  "watchMultiClusterObj g u pc printer mapping watchObjs =
     map (watch_target g u pc printer mapping) watchObjs"

text \<open>
  What \<^verbatim>\<open>watch\<close> does: it returns an error before any subscription, it panics
  before any subscription, or it has printed the current objects and started the
  subscriptions.
\<close>

datatype WatchOutcome = SetupFailed error | SetupPanicked string | Subscribed string "TargetLoop list"

definition watch ::
  "CommandGetOptions \<Rightarrow> externals \<Rightarrow> PodColumns \<Rightarrow> WatchObj list \<Rightarrow> WatchOutcome" where
  "watch g u pc watchObjs =
     (case watchObjs of
        [] \<Rightarrow> SetupFailed (Error ''not to find obj that is watched'')
      | first # _ \<Rightarrow>
          (case Infos (WatchResult first) of
             Inl err \<Rightarrow> SetupFailed err
           | Inr infos \<Rightarrow>
               if multipleGVKsRequested
                    (map (\<lambda>info. \<lparr>Cluster = WatchCluster first, IsControlPlane = False,
                                  Info = info\<rparr>) infos)
               then SetupFailed (Error (''watch is only supported on individual resources '' @
                      ''and resource collections - more than 1 resource was found''))
               else
                 (case infos of
                    [] \<Rightarrow> SetupPanicked ''index out of range [0] with length 0''
                  | info # _ \<Rightarrow>
                      (let mapping = Mapping info;
                           outputObjects = (\<not> WatchOnly g)
                       in case ToPrinter g (Some mapping) (Some outputObjects)
                                 (AllNamespaces g) False of
                            Inl err \<Rightarrow> SetupFailed err
                          | Inr printer \<Rightarrow>
                              (case watch_current g u printer outputObjects mapping 0
                                      watchObjs ([], pc) of
                                 Panicked p \<Rightarrow> SetupPanicked p
                               | Failed err \<Rightarrow> SetupFailed err
                               | Ok (out, pc') \<Rightarrow>
                                   Subscribed out
                                     (watchMultiClusterObj g u pc' printer mapping
                                        watchObjs))))))"

text \<open>The process ends with a panic when the setup or the goroutine of any target panics.\<close>

definition processPanics :: "WatchOutcome \<Rightarrow> bool" where
  "processPanics w =
     (case w of
        SetupFailed err \<Rightarrow> False
      | SetupPanicked p \<Rightarrow> True
      | Subscribed out loops \<Rightarrow>
          list_ex (\<lambda>l. case l of TargetPanicked p \<Rightarrow> True | LoopEnded b e \<Rightarrow> False) loops)"

section \<open>Run\<close>

text \<open>
  The factories of the members are made one after the other, in the loop that starts
  the goroutines: the goroutine of a member is started as soon as its factory is made.
  The first failure makes \<^verbatim>\<open>Run\<close> return, with the goroutines of the members before
  it already started. The result is the factories of all members, or the error with the
  factories of the goroutines started before it.
\<close>

fun memberFactories ::
  "KarmadaFactory \<Rightarrow> string list \<Rightarrow> (error \<times> Factory list) + Factory list" where
  "memberFactories f [] = Inr []"
| "memberFactories f (cluster # later) =
     (case FactoryForMemberCluster f cluster of
        Inl err \<Rightarrow> Inl (err, [])
      | Inr memberFactory \<Rightarrow>
          (case memberFactories f later of
             Inl (err, started) \<Rightarrow> Inl (err, memberFactory # started)
           | Inr fs \<Rightarrow> Inr (memberFactory # fs)))"

text \<open>
  A goroutine of \<^verbatim>\<open>Run\<close>: the operations that its call of \<^verbatim>\<open>getObjInfo\<close> has
  still to make, and, while it is in the middle of an append to the error list, the
  slice that it read. The statement \<^verbatim>\<open>*allErrs = append(*allErrs, err)\<close> is made
  without the mutex: it reads the slice, and later stores the slice that it read with
  the error added. Between the two, other goroutines may run.
\<close>

record Task =
  tOps :: "Op list"
  tLoaded :: "error list option"

record Fanout =
  fTasks :: "Task list"
  fShared :: Collected

text \<open>
  One step of the goroutine at position \<open>idx\<close>. An append to the error list takes two
  steps, the read and the store; every other operation takes one. A position without a
  goroutine, or whose goroutine has ended, stands for no step.
\<close>

fun runOp :: "Fanout \<Rightarrow> nat \<Rightarrow> Op list \<Rightarrow> error list option \<Rightarrow> Fanout" where
  "runOp s idx [] loaded = s"
| "runOp s idx (AppendErr err # rest) None =
     s\<lparr>fTasks := (fTasks s)[idx := \<lparr>tOps = AppendErr err # rest,
                                    tLoaded = Some (cAllErrs (fShared s))\<rparr>]\<rparr>"
| "runOp s idx (AppendErr err # rest) (Some slice) =
     s\<lparr>fTasks := (fTasks s)[idx := \<lparr>tOps = rest, tLoaded = None\<rparr>],
       fShared := (fShared s)\<lparr>cAllErrs := slice @ [err]\<rparr>\<rparr>"
| "runOp s idx (op # rest) loaded =
     s\<lparr>fTasks := (fTasks s)[idx := \<lparr>tOps = rest, tLoaded = loaded\<rparr>],
       fShared := perform op (fShared s)\<rparr>"

definition taskStep :: "Fanout \<Rightarrow> nat \<Rightarrow> Fanout" where
  "taskStep s idx =
     (if idx < length (fTasks s)
      then runOp s idx (tOps (fTasks s ! idx)) (tLoaded (fTasks s ! idx))
      else s)"

text \<open>
  The goroutines of the members whose factories are \<open>fs\<close>, before their first step, and
  a run of goroutines from given shared variables: \<open>sched\<close> lists the positions of the
  goroutines in the order in which they take their steps.
\<close>

definition memberTaskList :: "CommandGetOptions \<Rightarrow> Factory list \<Rightarrow> Task list" where
  "memberTaskList g fs =
     map (\<lambda>(memberFactory, cluster).
            \<lparr>tOps = getObjInfo_ops g memberFactory cluster False, tLoaded = None\<rparr>)
         (zip fs (TargetMemberClusters g))"

definition fanout :: "Task list \<Rightarrow> nat list \<Rightarrow> Collected \<Rightarrow> Fanout" where
  "fanout tasks sched st = foldl taskStep \<lparr>fTasks = tasks, fShared = st\<rparr> sched"

text \<open>
  \<^verbatim>\<open>wg.Wait\<close> returns when every goroutine has ended. A goroutine takes at most three
  steps (an output, the read and the store). The steps of \<open>sched\<close> are therefore
  followed by three steps of each position in turn: the goroutines that \<open>sched\<close> leaves
  unfinished run to their end one after the other, and these steps are no steps for the
  others. Every run of the program is the run of such a schedule.
\<close>

definition finishing :: "nat \<Rightarrow> nat list" where
  "finishing n = concat (map (\<lambda>idx. [idx, idx, idx]) [0..<n])"

definition memberTasks ::
  "CommandGetOptions \<Rightarrow> Factory list \<Rightarrow> nat list \<Rightarrow> Collected \<Rightarrow> Collected" where
  "memberTasks g fs sched st =
     fShared (fanout (memberTaskList g fs) (sched @ finishing (length fs)) st)"

text \<open>The shared variables after the call for the control plane, when it is in scope.\<close>

definition Run_first :: "CommandGetOptions \<Rightarrow> KarmadaFactory \<Rightarrow> Collected" where
  "Run_first g f =
     (let st0 = \<lparr>cObjs = [], cWatchObjs = [], cAllErrs = [], cOut = []\<rparr>
      in if ContainKarmadaScope (OperationScope g)
         then getObjInfo g (ControlPlane f) ''Karmada'' True st0 else st0)"

text \<open>
  First part of \<^verbatim>\<open>Run\<close>, up to the end of the wait for the goroutines, or up to the
  return for a factory that cannot be made. In that case the goroutines started before
  have taken the steps of \<open>sched\<close> by the time \<^verbatim>\<open>Run\<close> returns, and nothing waits for
  them.
\<close>

definition Run_collect ::
  "CommandGetOptions \<Rightarrow> KarmadaFactory \<Rightarrow> nat list \<Rightarrow> (error \<times> Collected) + Collected" where
  "Run_collect g f sched =
     (let st1 = Run_first g f
      in if length (TargetMemberClusters g) \<noteq> 0
         then (case memberFactories f (TargetMemberClusters g) of
                 Inl (err, started) \<Rightarrow>
                   Inl (err, fShared (fanout (memberTaskList g started) sched st1))
               | Inr fs \<Rightarrow> Inr (memberTasks g fs sched st1))
         else Inr st1)"

text \<open>\<^verbatim>\<open>GroupVersionResource.String\<close>, the sort key of the objects.\<close>

definition gvrString :: "GroupVersionResource \<Rightarrow> string" where
  "gvrString r = gvrGroup r @ ''/'' @ gvrVersion r @ '', Resource='' @ gvrResource r"

text \<open>
  What \<^verbatim>\<open>Run\<close> does. When it returns, \<open>Returned\<close> is the error returned, as the
  list of the errors it aggregates: the empty list is nil, a single error is returned as
  it is. \<open>Out\<close> and \<open>ErrOut\<close> are what was written to the two streams by then. In watch mode
  \<^verbatim>\<open>Run\<close> does what \<^verbatim>\<open>watch\<close> does, whatever the error list holds by then: it returns
  the error of the setup, or panics, or does not return. With the table printer nothing
  is written before the rendering (\<^verbatim>\<open>getObjInfo\<close> writes for the other printers
  only), so the output is that of the rendering. (The sort of the objects is not stable
  in Go; the model sorts stably.)
\<close>

record RunResult =
  Returned :: "error list"
  Out :: string
  ErrOut :: "string list"

datatype RunOutcome = Done RunResult | Watched WatchOutcome | RunPanicked string

definition Run ::
  "CommandGetOptions \<Rightarrow> externals \<Rightarrow> KarmadaFactory \<Rightarrow> PodColumns \<Rightarrow> nat list \<Rightarrow> RunOutcome" where
  "Run g u f pc sched =
     (case Run_collect g f sched of
        Inl (err, st) \<Rightarrow> Done \<lparr>Returned = [err], Out = cOut st, ErrOut = []\<rparr>
      | Inr st \<Rightarrow>
          if Watch g \<or> WatchOnly g
          then Watched (watch g u pc (cWatchObjs st))
          else if \<not> IsHumanReadablePrinter g
          then Done \<lparr>Returned = [], Out = cOut st, ErrOut = []\<rparr>
          else
            (case printObjs g u pc
                    (sort_key (\<lambda>obj. gvrString (Resource (Mapping (Info obj)))) (cObjs st))
                    (cAllErrs st) of
               Inl p \<Rightarrow> RunPanicked p
             | Inr r \<Rightarrow> Done \<lparr>Returned = rAllErrs r, Out = rOut r, ErrOut = rErrOut r\<rparr>))"

section \<open>The words of the specification\<close>

text \<open>
  The rows that an object brings to a reconstruction: the rows of the table it converts
  to. \<open>sourceRows\<close> pairs every such row with the object it comes from, in the order
  of the objects.
\<close>

definition tableRows :: "RuntimeObject \<Rightarrow> TableRow list" where
  "tableRows obj = (case obj of Unstructured (Inr table) \<Rightarrow> Rows table | _ \<Rightarrow> [])"

definition sourceRows :: "Obj list \<Rightarrow> (Obj \<times> TableRow) list" where
  "sourceRows objs = concat (map (\<lambda>obj. map (Pair obj) (tableRows (Object (Info obj)))) objs)"

text \<open>
  The row wire shape of the specification: an event cell when events are annotated,
  the name cell, the cluster cell, the remaining original cells, the adoption cell.
\<close>

definition wireShape :: "string option \<Rightarrow> string \<Rightarrow> cell \<Rightarrow> cell list \<Rightarrow> cell list" where
  "wireShape event cluster adoption originalCells =
     (case event of None \<Rightarrow> [] | Some e \<Rightarrow> [Str e]) @
     [hd originalCells, Str cluster] @ tl originalCells @ [adoption]"

text \<open>
  \<open>rebuilt event cluster row row'\<close>: the original row has a name cell and \<open>row'\<close> is
  \<open>row\<close> rebuilt. When the object of the row decodes, \<open>row'\<close> has the wire shape, with
  some adoption cell at its end, and two cells more than \<open>row\<close> (three with an event
  cell). When it does not decode, \<open>row'\<close> is the wire shape without the adoption cell,
  one cell more than \<open>row\<close> (two with an event cell).
\<close>

definition rebuilt :: "string option \<Rightarrow> string \<Rightarrow> TableRow \<Rightarrow> TableRow \<Rightarrow> bool" where
  "rebuilt event cluster row row' =
     (Cells row \<noteq> [] \<and>
      (case RowObject row of
         Decoded labels \<Rightarrow>
           Cells row' \<noteq> [] \<and>
           Cells row' = wireShape event cluster (last (Cells row')) (Cells row) \<and>
           length (Cells row') = length (Cells row) + (case event of None \<Rightarrow> 2 | Some e \<Rightarrow> 3)
       | Undecodable \<Rightarrow>
           Cells row' = butlast (wireShape event cluster (Str []) (Cells row)) \<and>
           length (Cells row') = length (Cells row) + (case event of None \<Rightarrow> 1 | Some e \<Rightarrow> 2)))"

text \<open>
  The diagnostic of the specification for a rendering that printed nothing: no member
  clusters when the control plane is out of scope and no member is a target, else the
  message for the namespace when all resources are namespaced, else the general one.
\<close>

definition diagnostic :: "CommandGetOptions \<Rightarrow> bool \<Rightarrow> string" where
  "diagnostic g allResourcesNamespaced =
     (if \<not> ContainKarmadaScope (OperationScope g) \<and> TargetMemberClusters g = []
      then ''No member Clusters found in Karmada control plane'' @ [CHR 0x0A]
      else if allResourcesNamespaced
        then ''No resources found in '' @ Namespace g @ '' namespace.'' @ [CHR 0x0A]
        else ''No resources found'' @ [CHR 0x0A])"

text \<open>An error message carries the tag of a target when it starts with \<open>cluster(name)\<close>.\<close>

definition taggedWith :: "string \<Rightarrow> error \<Rightarrow> bool" where
  "taggedWith cluster err =
     (take (length (''cluster('' @ cluster @ '')'')) (errorText err) = ''cluster('' @ cluster @ '')'')"

text \<open>The count of the tracking writer is the number of bytes on the output stream.\<close>

definition writersOk :: "Writers \<Rightarrow> bool" where
  "writersOk w = (Written w = length (Delegate w))"

section \<open>Schedules of the goroutines\<close>

text \<open>
  The next operation of a goroutine is an append to the error list; the next step of the
  goroutine at \<open>idx\<close> is the read of such an append.
\<close>

fun appending :: "Op list \<Rightarrow> bool" where
  "appending (AppendErr err # rest) = True"
| "appending ops = False"

definition reading :: "Fanout \<Rightarrow> nat \<Rightarrow> bool" where
  "reading s idx =
     (idx < length (fTasks s) \<and> tLoaded (fTasks s ! idx) = None \<and>
      appending (tOps (fTasks s ! idx)))"

text \<open>
  The appends to the error list are apart in a run when no goroutine reads the list
  while another one is between its read and its store: the appends do not overlap.
  \<open>membersApart\<close> says so of the run of the members of \<^verbatim>\<open>Run\<close> under a schedule.
\<close>

fun appendsApart :: "Fanout \<Rightarrow> nat list \<Rightarrow> bool" where
  "appendsApart s [] = True"
| "appendsApart s (idx # later) =
     ((reading s idx \<longrightarrow> list_all (\<lambda>t. tLoaded t = None) (fTasks s)) \<and>
      appendsApart (taskStep s idx) later)"

definition membersApart ::
  "CommandGetOptions \<Rightarrow> KarmadaFactory \<Rightarrow> Factory list \<Rightarrow> nat list \<Rightarrow> bool" where
  "membersApart g f fs sched =
     appendsApart \<lparr>fTasks = memberTaskList g fs, fShared = Run_first g f\<rparr>
       (sched @ finishing (length fs))"

text \<open>The errors that a goroutine has still to append, and those of all goroutines.\<close>

fun opErrors :: "Op list \<Rightarrow> error list" where
  "opErrors [] = []"
| "opErrors (AppendErr err # ops) = err # opErrors ops"
| "opErrors (op # ops) = opErrors ops"

definition taskErrors :: "Task list \<Rightarrow> error list" where
  "taskErrors tasks = concat (map (\<lambda>t. opErrors (tOps t)) tasks)"

text \<open>
  The steps that a goroutine has still to take: two for an append, one for any other
  operation, one less when the read of the append has been made.
\<close>

fun weight :: "Op list \<Rightarrow> nat" where
  "weight [] = 0"
| "weight (AppendErr err # ops) = 2 + weight ops"
| "weight (op # ops) = 1 + weight ops"

definition stepsLeft :: "Task \<Rightarrow> nat" where
  "stepsLeft t = weight (tOps t) - (if tLoaded t = None then 0 else 1)"

text \<open>
  A goroutine holds a slice that it read only while its next operation is the append,
  and, when the appends are apart, at most one goroutine holds one, which is the error
  list as it is.
\<close>

definition wellLoaded :: "Task \<Rightarrow> bool" where
  "wellLoaded t = (tLoaded t \<noteq> None \<longrightarrow> appending (tOps t))"

definition oneAppend :: "Fanout \<Rightarrow> bool" where
  "oneAppend s =
     (\<forall>j < length (fTasks s). \<forall>slice. tLoaded (fTasks s ! j) = Some slice \<longrightarrow>
        slice = cAllErrs (fShared s) \<and> appending (tOps (fTasks s ! j)) \<and>
        (\<forall>k < length (fTasks s). k \<noteq> j \<longrightarrow> tLoaded (fTasks s ! k) = None))"

section \<open>Example inputs\<close>

definition exampleExternals :: externals where
  "exampleExternals =
     \<lparr>ManagedByKarmadaLabel = ''karmada.io/managed'', ManagedByKarmadaLabelValue = ''true'',
      ToUnstructured = (\<lambda>table. None)\<rparr>"

definition podsMapping :: RESTMapping where
  "podsMapping =
     \<lparr>Resource = GroupVersionResource [] ''v1'' ''pods'',
      MappingGVK = GroupVersionKind [] ''v1'' ''Pod'', Scope = RESTScopeNameNamespace\<rparr>"

definition servicesMapping :: RESTMapping where
  "servicesMapping =
     \<lparr>Resource = GroupVersionResource [] ''v1'' ''services'',
      MappingGVK = GroupVersionKind [] ''v1'' ''Service'', Scope = RESTScopeNameNamespace\<rparr>"

text \<open>A printer that writes the cells of every row, and never fails.\<close>

definition cellsPrinter :: Printer where
  "cellsPrinter outputObjects table =
     (concat (map (\<lambda>row. concat (map (\<lambda>c. case c of Str s \<Rightarrow> s @ '' '' | Num n \<Rightarrow> ''# '')
                                   (Cells row)) @ ''; '')
                  (Rows table)), None)"

definition exampleOptions :: CommandGetOptions where
  "exampleOptions =
     \<lparr>Clusters = [], OperationScope = KarmadaControlPlane, TargetMemberClusters = [],
      ToPrinter = (\<lambda>mapping outputObjects withNamespace withKind. Inr cellsPrinter),
      IsHumanReadablePrinter = True, Watch = False, WatchOnly = False,
      OutputWatchEvents = False, Namespace = ''default'', AllNamespaces = False,
      NoHeaders = False, IgnoreNotFound = False\<rparr>"

text \<open>A table of one row for a pod or a service, as the server sends it.\<close>

definition oneRowTable :: "string \<Rightarrow> RawExtension \<Rightarrow> Table" where
  "oneRowTable name raw =
     \<lparr>ColumnDefinitions =
        [\<lparr>Name = ''NAME'', Type = ''string'', Format = ''name'', Priority = 0\<rparr>,
         \<lparr>Name = ''READY'', Type = ''string'', Format = [], Priority = 0\<rparr>],
      Rows = [\<lparr>Cells = [Str name, Str ''1/1''], RowObject = raw\<rparr>]\<rparr>"

definition oneRowInfo :: "RESTMapping \<Rightarrow> string \<Rightarrow> RawExtension \<Rightarrow> Info" where
  "oneRowInfo mapping name raw =
     \<lparr>Mapping = mapping, Object = Unstructured (Inr (oneRowTable name raw))\<rparr>"

text \<open>The result of a query that found one object; its watch delivers no event.\<close>

definition oneRowResult :: "RESTMapping \<Rightarrow> string \<Rightarrow> RawExtension \<Rightarrow> Result" where
  "oneRowResult mapping name raw =
     \<lparr>Err = None, Infos = Inr [oneRowInfo mapping name raw],
      ResultObject = Inr (Unstructured (Inr (oneRowTable name raw))),
      ResultWatch = (\<lambda>rv. Inr []), PrintGeneric = ([], None)\<rparr>"

text \<open>The result of a query that found nothing: an empty list.\<close>

definition emptyResult :: Result where
  "emptyResult =
     \<lparr>Err = None, Infos = Inr [], ResultObject = Inr (ListObject (Inr ''1'') []),
      ResultWatch = (\<lambda>rv. Inr []), PrintGeneric = ([], None)\<rparr>"

definition healthy :: "Result \<Rightarrow> Factory" where
  "healthy r = \<lparr>RESTClient = None, ProxyProbe = (\<lambda>cluster. None), BuilderDo = r\<rparr>"

text \<open>Two member clusters as the targets, and the factories of the two.\<close>

definition memberOptions :: CommandGetOptions where
  "memberOptions =
     exampleOptions\<lparr>OperationScope := Members, TargetMemberClusters := [''member1'', ''member2'']\<rparr>"

definition twoMembers :: "Factory \<Rightarrow> error + Factory \<Rightarrow> KarmadaFactory" where
  "twoMembers first second =
     \<lparr>ControlPlane = healthy emptyResult,
      FactoryForMemberCluster =
        (\<lambda>cluster. if cluster = ''member1'' then Inr first else second)\<rparr>"

text \<open>A target whose REST client cannot be built, and one that fails the probe.\<close>

definition noClient :: "Factory \<Rightarrow> Factory" where
  "noClient fac = fac\<lparr>RESTClient := Some (Error ''no configuration has been provided'')\<rparr>"

definition unreachable :: "Factory \<Rightarrow> Factory" where
  "unreachable fac = fac\<lparr>ProxyProbe := (\<lambda>cluster. Some (Error ''forbidden''))\<rparr>"

text \<open>A query that found one pod, with a watch that cannot be opened.\<close>

definition refusedResult :: Result where
  "refusedResult =
     (oneRowResult podsMapping ''web'' (Decoded []))
       \<lparr>ResultWatch := (\<lambda>rv. Inl (Error ''connection refused''))\<rparr>"

text \<open>A query that found a pod and a service.\<close>

definition mixedResult :: Result where
  "mixedResult =
     (oneRowResult podsMapping ''nginx'' (Decoded []))
       \<lparr>Infos := Inr [oneRowInfo podsMapping ''nginx'' (Decoded []),
                      oneRowInfo servicesMapping ''kubernetes'' (Decoded [])]\<rparr>"

definition handle :: "string \<Rightarrow> Result \<Rightarrow> WatchObj" where
  "handle cluster r = \<lparr>WatchCluster = cluster, WatchResult = r\<rparr>"

text \<open>Options whose printers cannot be made.\<close>

definition noPrinterOptions :: CommandGetOptions where
  "noPrinterOptions =
     exampleOptions
       \<lparr>ToPrinter := (\<lambda>mapping outputObjects withNamespace withKind. Inl (Error ''no printer''))\<rparr>"

text \<open>A query whose object cannot be read, and a printer that fails after some output.\<close>

definition unreadableResult :: Result where
  "unreadableResult =
     (oneRowResult podsMapping ''web'' (Decoded []))
       \<lparr>ResultObject := Inl (Error ''the server could not find the requested resource'')\<rparr>"

definition failingPrinter :: Printer where
  "failingPrinter outputObjects table = (''partial'', Some (Error ''broken pipe''))"

text \<open>The result of a query for a type of which there is no object: a table without rows.\<close>

definition noRowInfo :: "RESTMapping \<Rightarrow> Info" where
  "noRowInfo mapping =
     \<lparr>Mapping = mapping,
      Object = Unstructured (Inr ((oneRowTable [] (Decoded []))\<lparr>Rows := []\<rparr>))\<rparr>"

definition noRowResult :: "RESTMapping \<Rightarrow> Result" where
  "noRowResult mapping =
     \<lparr>Err = None, Infos = Inr [noRowInfo mapping],
      ResultObject = Inr (Unstructured (Inr ((oneRowTable [] (Decoded []))\<lparr>Rows := []\<rparr>))),
      ResultWatch = (\<lambda>rv. Inr []), PrintGeneric = ([], None)\<rparr>"

text \<open>
  A printer that writes, before the cells, the names of the columns of the default view.
\<close>

definition headersPrinter :: Printer where
  "headersPrinter outputObjects table =
     (concat (map (\<lambda>c. Name c @ '' '') (filter shownByDefault (ColumnDefinitions table))) @
      ''; '' @ fst (cellsPrinter outputObjects table), None)"

text \<open>
  A pod and a service of \<open>member1\<close>, the variables of \<^verbatim>\<open>printObjs\<close> before the loop,
  and the table that a rendering makes of one of the two objects.
\<close>

definition nginxPod :: Obj where
  "nginxPod = \<lparr>Cluster = ''member1'', IsControlPlane = False,
               Info = oneRowInfo podsMapping ''nginx'' (Decoded [])\<rparr>"

definition kubernetesService :: Obj where
  "kubernetesService = \<lparr>Cluster = ''member1'', IsControlPlane = False,
                        Info = oneRowInfo servicesMapping ''kubernetes'' (Decoded [])\<rparr>"

definition startState :: "PodColumns \<Rightarrow> PrintState" where
  "startState pc =
     \<lparr>psPrinter = NilInterface, psLastMapping = None, psErrs = [], psAllErrs = [],
      psSameKind = [],
      psWriters = \<lparr>Buffer = [], Ready = False, Written = 0, Delegate = []\<rparr>,
      psAllResourcesNamespaced = True, psPodColumns = pc, psPrinted = []\<rparr>"

definition renderedTable :: "string \<Rightarrow> PodColumns \<Rightarrow> Table" where
  "renderedTable name pc =
     \<lparr>ColumnDefinitions =
        [\<lparr>Name = ''NAME'', Type = ''string'', Format = ''name'', Priority = 0\<rparr>,
         fst pc,
         \<lparr>Name = ''READY'', Type = ''string'', Format = [], Priority = 0\<rparr>,
         snd pc],
      Rows = [\<lparr>Cells = [Str name, Str ''member1'', Str ''1/1'', Str ''N''],
               RowObject = Decoded []\<rparr>]\<rparr>"

text \<open>The same member named twice as a target.\<close>

definition sameMemberTwice :: CommandGetOptions where
  "sameMemberTwice = memberOptions\<lparr>TargetMemberClusters := [''member1'', ''member1'']\<rparr>"

section \<open>Properties\<close>

lemmas example_defs =
  exampleExternals_def podsMapping_def servicesMapping_def cellsPrinter_def exampleOptions_def
  oneRowTable_def oneRowInfo_def oneRowResult_def healthy_def

lemmas collect_defs =
  Run_def Run_collect_def Run_first_def getObjInfo_def getObjInfo_ops_def ContainKarmadaScope_def
  memberTasks_def memberTaskList_def fanout_def finishing_def taskStep_def

lemmas table_defs =
  multipleGVKsRequested_def hasManagedLabel_def setNoAdoption_def setColumnDefinition_def
  podColumns_def

lemmas watch_defs =
  watch_def objsToPrint_def reconstructObj_def reconstructObj_row_def watchMultiClusterObj_def
  watch_target_def watch_establish_def watch_start_def

lemmas print_defs =
  printObjs_def printObjs_body_def printObjs_separate_def printObjs_table_def
  reconstructionRow_def
  reconstructionRow_row_def shouldGetNewPrinterForMapping_def checkPrintWithNamespace_def
  Namespaced_def Flush_def separatorWrite_def trackingWrite_def tabWrite_def SetReady_def
  printIfNotFindResource_def notApplicable_def managedByKarmada_def notManagedByKaramda_def

subsection \<open>Adoption cell\<close>

text \<open>
  C1. The claim asks for the adoption cell \<open>-\<close> on every row of the control plane, in
  list mode and in watch mode. Here the control plane holds one pod, \<open>nginx\<close>, without
  the managed label, and the scope is the control plane alone. In list mode the row ends
  with \<open>-\<close>. In watch mode the same row is printed with \<open>N\<close>, the mark of a member's
  resource that is not managed: \<^verbatim>\<open>reconstructObj\<close> is not told that the target is the
  control plane.
\<close>

theorem watch_marks_control_plane_row_N:
  "Run exampleOptions exampleExternals
     \<lparr>ControlPlane = healthy (oneRowResult podsMapping ''nginx'' (Decoded [])),
      FactoryForMemberCluster = (\<lambda>cluster. Inl (Error ''not asked''))\<rparr> podColumns []
   = Done \<lparr>Returned = [], Out = ''nginx Karmada 1/1 - ; '', ErrOut = []\<rparr>
   \<and>
   Run (exampleOptions\<lparr>Watch := True\<rparr>) exampleExternals
     \<lparr>ControlPlane = healthy (oneRowResult podsMapping ''nginx'' (Decoded [])),
      FactoryForMemberCluster = (\<lambda>cluster. Inl (Error ''not asked''))\<rparr> podColumns []
   = Watched (Subscribed ''nginx Karmada 1/1 N ; ''
       [LoopEnded [] (Error ''watch closed before UntilWithoutRetry timeout'')])"
  by (simp add: example_defs collect_defs table_defs watch_defs print_defs)

subsection \<open>Column priority\<close>

lemma setNoAdoption_idem:
  "Priority (snd pc) = 1 \<Longrightarrow> setNoAdoption mapping pc = pc"
  by (cases pc) (simp add: setNoAdoption_def split: option.splits)

lemma setColumnDefinition_last:
  "ColumnDefinitions table \<noteq> [] \<Longrightarrow>
   last (ColumnDefinitions (setColumnDefinition g pc table)) = snd pc"
  by (simp add: setColumnDefinition_def split: list.splits)

lemma setColumnDefinition_empty:
  "ColumnDefinitions (setColumnDefinition g pc table) \<noteq> [] \<Longrightarrow> ColumnDefinitions table \<noteq> []"
  by (auto simp: setColumnDefinition_def split: list.splits)

text \<open>
  C3, as the claim states it: for pods the adoption column is shown by default, for any
  other type it is hidden in the narrow view. The code does the opposite: starting from
  the initial column definitions, a rendering of pods gives the adoption column priority
  1, which the table printer leaves out of the default view, and a rendering of services
  leaves it at priority 0, which is shown.
\<close>

theorem pods_adoption_shown_by_default_counterexample:
  "\<not> shownByDefault (snd (setNoAdoption (Some podsMapping) podColumns)) \<and>
   shownByDefault (snd (setNoAdoption (Some servicesMapping) podColumns))"
  by (simp add: shownByDefault_def setNoAdoption_def podsMapping_def servicesMapping_def
      podColumns_def)

text \<open>
  C3, amended. For the resource type \<open>pods\<close>, \<^verbatim>\<open>setNoAdoption\<close> sets the priority of
  the adoption column to 1 and nothing else, so the column is not shown by default. For
  every other resource type it leaves the column definitions as they are, so from the
  initial definitions the column keeps priority 0 and is shown by default.
\<close>

theorem setNoAdoption_hides_adoption_for_pods:
  "(gvrResource (Resource m) = ''pods'' \<longrightarrow>
      setNoAdoption (Some m) pc = (fst pc, (snd pc)\<lparr>Priority := 1\<rparr>) \<and>
      \<not> shownByDefault (snd (setNoAdoption (Some m) pc))) \<and>
   (gvrResource (Resource m) \<noteq> ''pods'' \<longrightarrow>
      setNoAdoption (Some m) pc = pc \<and>
      Priority (snd (setNoAdoption (Some m) podColumns)) = 0 \<and>
      shownByDefault (snd (setNoAdoption (Some m) podColumns)))"
  by (simp add: setNoAdoption_def shownByDefault_def podColumns_def)

theorem setNoAdoption_hides_adoption_for_pods_witness:
  "gvrResource (Resource podsMapping) = ''pods'' \<and>
   setNoAdoption (Some podsMapping) podColumns =
     (fst podColumns, (snd podColumns)\<lparr>Priority := 1\<rparr>) \<and>
   \<not> shownByDefault (snd (setNoAdoption (Some podsMapping) podColumns)) \<and>
   gvrResource (Resource servicesMapping) \<noteq> ''pods'' \<and>
   setNoAdoption (Some servicesMapping) podColumns = podColumns \<and>
   shownByDefault (snd (setNoAdoption (Some servicesMapping) podColumns))"
  using setNoAdoption_hides_adoption_for_pods[of podsMapping podColumns]
        setNoAdoption_hides_adoption_for_pods[of servicesMapping podColumns]
  by (simp add: podsMapping_def servicesMapping_def setNoAdoption_def shownByDefault_def
      podColumns_def)

subsection \<open>Watch setup\<close>

text \<open>
  C10. Called with no watch handle at all, \<^verbatim>\<open>watch\<close> returns an error; it does not
  succeed silently.
\<close>

theorem watch_without_handles_fails:
  "watch g u pc [] = SetupFailed (Error ''not to find obj that is watched'')"
  by (simp add: watch_def)

subsection \<open>Row shape\<close>

lemma eachRow_Ok:
  "eachRow f rs = Ok rs' \<Longrightarrow> list_all2 (\<lambda>r r'. f r = Ok r') rs rs'"
  by (induction rs arbitrary: rs') (auto split: outcome.splits)

lemma reconstructionRow_row_rebuilt:
  "reconstructionRow_row u obj row = Ok row' \<Longrightarrow> rebuilt None (Cluster obj) row row'"
  by (cases "Cells row"; cases "RowObject row")
     (auto simp: reconstructionRow_row_def rebuilt_def wireShape_def split: if_splits)

lemma reconstructObj_row_rebuilt:
  "reconstructObj_row g u cluster event row = Ok row' \<Longrightarrow>
   rebuilt (if OutputWatchEvents g then Some event else None) cluster row row'"
  by (cases "Cells row"; cases "RowObject row")
     (auto simp: reconstructObj_row_def rebuilt_def wireShape_def split: if_splits)

lemma reconstructionRow_loop_rows:
  "reconstructionRow_loop u objs table acc m = Ok (rows, m', t) \<Longrightarrow>
   \<exists>new. rows = acc @ new \<and>
     list_all2 (\<lambda>(obj, row) row'. rebuilt None (Cluster obj) row row') (sourceRows objs) new"
proof (induction objs arbitrary: table acc m)
  case Nil
  then show ?case by (simp add: sourceRows_def)
next
  case (Cons obj objs)
  from Cons.prems obtain decoded rows1 where
    d: "Object (Info obj) = Unstructured (Inr decoded)" and
    e: "eachRow (reconstructionRow_row u obj) (Rows decoded) = Ok rows1" and
    l: "reconstructionRow_loop u objs (decoded\<lparr>Rows := rows1\<rparr>) (acc @ rows1)
          (Some (Mapping (Info obj))) = Ok (rows, m', t)"
    by (auto split: RuntimeObject.splits sum.splits outcome.splits)
  from Cons.IH[OF l] obtain new where
    n: "rows = (acc @ rows1) @ new"
       "list_all2 (\<lambda>(obj, row) row'. rebuilt None (Cluster obj) row row') (sourceRows objs) new"
    by blast
  have "list_all2 (\<lambda>r r'. reconstructionRow_row u obj r = Ok r') (Rows decoded) rows1"
    using e by (rule eachRow_Ok)
  then have "list_all2 (\<lambda>r r'. rebuilt None (Cluster obj) r r') (Rows decoded) rows1"
    by (rule list_all2_mono) (rule reconstructionRow_row_rebuilt)
  then have h: "list_all2 (\<lambda>(obj, row) row'. rebuilt None (Cluster obj) row row')
               (map (Pair obj) (Rows decoded)) rows1"
    by (simp add: list_all2_map1)
  have s: "sourceRows (obj # objs) = map (Pair obj) (Rows decoded) @ sourceRows objs"
    using d by (simp add: sourceRows_def tableRows_def)
  show ?case
    using n h s by (auto intro: list_all2_appendI)
qed

text \<open>
  C2, as the claim states it: every reconstructed row has two cells more than the
  original row, the last one being the adoption cell. Here a member returns one pod whose
  row carries an object that does not decode. The original row has the two cells
  \<open>nginx\<close> and \<open>1/1\<close>; the reconstructed row has three, and no adoption cell.
\<close>

theorem undecodable_row_has_no_adoption_cell_counterexample:
  "reconstructionRow exampleExternals
     [\<lparr>Cluster = ''member1'', IsControlPlane = False,
       Info = oneRowInfo podsMapping ''nginx'' Undecodable\<rparr>]
     \<lparr>ColumnDefinitions = [], Rows = []\<rparr>
   = Ok ([\<lparr>Cells = [Str ''nginx'', Str ''member1'', Str ''1/1''], RowObject = Undecodable\<rparr>],
         Some podsMapping,
         (oneRowTable ''nginx'' Undecodable)
           \<lparr>Rows := [\<lparr>Cells = [Str ''nginx'', Str ''member1'', Str ''1/1''],
                       RowObject = Undecodable\<rparr>]\<rparr>)
   \<and> Rows (oneRowTable ''nginx'' Undecodable) =
       [\<lparr>Cells = [Str ''nginx'', Str ''1/1''], RowObject = Undecodable\<rparr>]"
  by (simp add: example_defs reconstructionRow_def reconstructionRow_row_def)

text \<open>
  C2, amended. When a reconstruction returns rows, they are the original rows in their
  order, each one rebuilt: every original row has a name cell; a row whose object
  decodes gets exactly two cells more (three in watch mode with event annotation, the
  event cell first), the name cell first, the cluster cell of the owning target next,
  then the remaining original cells, the adoption cell last; a row whose object does not
  decode gets the same cells without the adoption cell. List mode never adds an event
  cell.
\<close>

theorem rows_have_wire_shape:
  "(reconstructionRow u objs table = Ok (rows, m, t) \<longrightarrow>
      list_all2 (\<lambda>(obj, row) row'. rebuilt None (Cluster obj) row row') (sourceRows objs) rows) \<and>
   (reconstructObj g u pc obj mapping cluster event = Ok (t', pc') \<longrightarrow>
      list_all2 (rebuilt (if OutputWatchEvents g then Some event else None) cluster)
        (tableRows obj) (Rows t'))"
proof (intro conjI impI)
  assume "reconstructionRow u objs table = Ok (rows, m, t)"
  from reconstructionRow_loop_rows[OF this[unfolded reconstructionRow_def]]
  show "list_all2 (\<lambda>(obj, row) row'. rebuilt None (Cluster obj) row row') (sourceRows objs) rows"
    by simp
next
  assume a: "reconstructObj g u pc obj mapping cluster event = Ok (t', pc')"
  then obtain table rows1 where
    d: "obj = Unstructured (Inr table)" and
    e: "eachRow (reconstructObj_row g u cluster event) (Rows table) = Ok rows1" and
    r: "Rows t' = rows1"
    by (auto simp: reconstructObj_def Let_def setColumnDefinition_def
        split: RuntimeObject.splits sum.splits outcome.splits list.splits if_splits)
  have "list_all2 (\<lambda>r r'. reconstructObj_row g u cluster event r = Ok r') (Rows table) rows1"
    using e by (rule eachRow_Ok)
  then have "list_all2 (rebuilt (if OutputWatchEvents g then Some event else None) cluster)
       (Rows table) rows1"
    by (rule list_all2_mono) (rule reconstructObj_row_rebuilt)
  then show "list_all2 (rebuilt (if OutputWatchEvents g then Some event else None) cluster)
        (tableRows obj) (Rows t')"
    using d r by (simp add: tableRows_def)
qed

theorem rows_have_wire_shape_witness:
  "reconstructionRow exampleExternals
     [\<lparr>Cluster = ''member1'', IsControlPlane = False,
       Info = oneRowInfo podsMapping ''nginx'' (Decoded [(''karmada.io/managed'', ''true'')])\<rparr>]
     \<lparr>ColumnDefinitions = [], Rows = []\<rparr>
   = Ok ([\<lparr>Cells = [Str ''nginx'', Str ''member1'', Str ''1/1'', Str ''Y''],
           RowObject = Decoded [(''karmada.io/managed'', ''true'')]\<rparr>],
         Some podsMapping,
         (oneRowTable ''nginx'' (Decoded [(''karmada.io/managed'', ''true'')]))
           \<lparr>Rows := [\<lparr>Cells = [Str ''nginx'', Str ''member1'', Str ''1/1'', Str ''Y''],
                       RowObject = Decoded [(''karmada.io/managed'', ''true'')]\<rparr>]\<rparr>) \<and>
   rebuilt None ''member1''
     \<lparr>Cells = [Str ''nginx'', Str ''1/1''],
      RowObject = Decoded [(''karmada.io/managed'', ''true'')]\<rparr>
     \<lparr>Cells = [Str ''nginx'', Str ''member1'', Str ''1/1'', Str ''Y''],
      RowObject = Decoded [(''karmada.io/managed'', ''true'')]\<rparr> \<and>
   reconstructObj (exampleOptions\<lparr>OutputWatchEvents := True\<rparr>) exampleExternals podColumns
     (Unstructured (Inr (oneRowTable ''nginx'' (Decoded [])))) (Some servicesMapping)
     ''member1'' ''MODIFIED''
   = Ok (\<lparr>ColumnDefinitions =
            [eventColumn,
             \<lparr>Name = ''NAME'', Type = ''string'', Format = ''name'', Priority = 0\<rparr>,
             fst podColumns,
             \<lparr>Name = ''READY'', Type = ''string'', Format = [], Priority = 0\<rparr>,
             snd podColumns],
          Rows = [\<lparr>Cells = [Str ''MODIFIED'', Str ''nginx'', Str ''member1'', Str ''1/1'',
                            Str ''N''],
                   RowObject = Decoded []\<rparr>]\<rparr>, podColumns) \<and>
   rebuilt (Some ''MODIFIED'') ''member1''
     \<lparr>Cells = [Str ''nginx'', Str ''1/1''], RowObject = Decoded []\<rparr>
     \<lparr>Cells = [Str ''MODIFIED'', Str ''nginx'', Str ''member1'', Str ''1/1'', Str ''N''],
      RowObject = Decoded []\<rparr>"
  using rows_have_wire_shape[of exampleExternals
      "[\<lparr>Cluster = ''member1'', IsControlPlane = False,
         Info = oneRowInfo podsMapping ''nginx'' (Decoded [(''karmada.io/managed'', ''true'')])\<rparr>]"
      "\<lparr>ColumnDefinitions = [], Rows = []\<rparr>"
      "[\<lparr>Cells = [Str ''nginx'', Str ''member1'', Str ''1/1'', Str ''Y''],
           RowObject = Decoded [(''karmada.io/managed'', ''true'')]\<rparr>]"
      "Some podsMapping"
      "(oneRowTable ''nginx'' (Decoded [(''karmada.io/managed'', ''true'')]))
           \<lparr>Rows := [\<lparr>Cells = [Str ''nginx'', Str ''member1'', Str ''1/1'', Str ''Y''],
                       RowObject = Decoded [(''karmada.io/managed'', ''true'')]\<rparr>]\<rparr>"
      "exampleOptions\<lparr>OutputWatchEvents := True\<rparr>" podColumns
      "Unstructured (Inr (oneRowTable ''nginx'' (Decoded [])))" "Some servicesMapping"
      "''member1''" "''MODIFIED''"
      "\<lparr>ColumnDefinitions =
            [eventColumn,
             \<lparr>Name = ''NAME'', Type = ''string'', Format = ''name'', Priority = 0\<rparr>,
             fst podColumns,
             \<lparr>Name = ''READY'', Type = ''string'', Format = [], Priority = 0\<rparr>,
             snd podColumns],
          Rows = [\<lparr>Cells = [Str ''MODIFIED'', Str ''nginx'', Str ''member1'', Str ''1/1'',
                            Str ''N''],
                   RowObject = Decoded []\<rparr>]\<rparr>" podColumns]
  by (simp add: example_defs reconstructionRow_def reconstructionRow_row_def table_defs
      reconstructObj_def reconstructObj_row_def managedByKarmada_def sourceRows_def tableRows_def)

subsection \<open>The loop of the list-mode rendering\<close>

lemma writersOk_Flush: "writersOk w \<Longrightarrow> writersOk (Flush w)"
  by (simp add: writersOk_def Flush_def separatorWrite_def trackingWrite_def)

lemma writersOk_SetReady: "writersOk w \<Longrightarrow> writersOk (SetReady b w)"
  by (simp add: writersOk_def SetReady_def)

lemma writersOk_tabWrite: "writersOk w \<Longrightarrow> writersOk (tabWrite p w)"
  by (simp add: writersOk_def tabWrite_def)

lemma printObjs_table_Next:
  "printObjs_table g u obj rest st = Next st' \<Longrightarrow>
   psAllErrs st' = psAllErrs st \<and> psErrs st' = psErrs st \<and>
   psAllResourcesNamespaced st' = psAllResourcesNamespaced st \<and>
   (writersOk (psWriters st) \<longrightarrow> writersOk (psWriters st'))"
  unfolding printObjs_table_def Let_def
  by (simp split: if_splits outcome.splits option.splits prod.splits PrinterVar.splits)
     (auto simp: writersOk_tabWrite)

lemma printObjs_table_Return:
  "printObjs_table g u obj rest st = Return st' \<Longrightarrow>
   \<exists>err. psAllErrs st' = psAllErrs st @ [err]"
  unfolding printObjs_table_def Let_def
  by (simp split: if_splits outcome.splits option.splits prod.splits PrinterVar.splits) auto

lemma printObjs_separate_keeps:
  "psAllErrs (printObjs_separate g st) = psAllErrs st"
  "psPodColumns (printObjs_separate g st) = psPodColumns st"
  "psErrs (printObjs_separate g st) = psErrs st"
  "psAllResourcesNamespaced (printObjs_separate g st) = psAllResourcesNamespaced st"
  "psPrinted (printObjs_separate g st) = psPrinted st"
  "writersOk (psWriters st) \<Longrightarrow> writersOk (psWriters (printObjs_separate g st))"
  by (simp_all add: printObjs_separate_def Let_def writersOk_Flush writersOk_SetReady)

text \<open>
  The ways through the loop body: it reaches the table part with the error list as it
  was, or it ends early for an error message met before, or it ends early after
  recording a new message.
\<close>

lemma printObjs_body_cases:
  assumes "printObjs_body g u k obj rest st = fl"
  obtains (table) st1 where "fl = printObjs_table g u obj rest st1"
      "psAllErrs st1 = psAllErrs st" "psErrs st1 = psErrs st"
      "writersOk (psWriters st) \<Longrightarrow> writersOk (psWriters st1)"
      "psAllResourcesNamespaced st1 = (psAllResourcesNamespaced st \<and> Namespaced (Info obj))"
      "psPodColumns st1 = psPodColumns st" "psPrinted st1 = psPrinted st"
  | (known) st1 where "fl = Next st1" "psAllErrs st1 = psAllErrs st" "psErrs st1 = psErrs st"
      "writersOk (psWriters st) \<Longrightarrow> writersOk (psWriters st1)"
      "psAllResourcesNamespaced st1 = (psAllResourcesNamespaced st \<and> Namespaced (Info obj))"
      "psPodColumns st1 = psPodColumns st" "psPrinted st1 = psPrinted st"
  | (new) st1 err where "fl = Next st1" "psAllErrs st1 = psAllErrs st @ [err]"
      "psErrs st1 = psErrs st @ [errorText err]" "errorText err \<notin> set (psErrs st)"
      "writersOk (psWriters st) \<Longrightarrow> writersOk (psWriters st1)"
      "psAllResourcesNamespaced st1 = (psAllResourcesNamespaced st \<and> Namespaced (Info obj))"
      "psPodColumns st1 = psPodColumns st" "psPrinted st1 = psPrinted st"
proof -
  let ?st = "st\<lparr>psSameKind := psSameKind st @ [obj],
                 psAllResourcesNamespaced :=
                   (psAllResourcesNamespaced st \<and> Namespaced (Info obj))\<rparr>"
  let ?st2 = "printObjs_separate g ?st"
  show ?thesis
  proof (cases "shouldGetNewPrinterForMapping (psPrinter ?st) (psLastMapping ?st)
                  (Some (Mapping (Info obj)))")
    case False
    then have "fl = printObjs_table g u obj rest ?st"
      using assms by (simp add: printObjs_body_def Let_def)
    then show ?thesis by (rule table) simp_all
  next
    case True
    show ?thesis
    proof (cases "ToPrinter g (Some (Mapping (Info obj))) None
                    (checkPrintWithNamespace g (Some (Mapping (Info obj)))) k")
      case (Inr printer)
      then have "fl = printObjs_table g u obj rest
          (?st2\<lparr>psPrinter := Func printer, psLastMapping := Some (Mapping (Info obj))\<rparr>)"
        using assms True by (simp add: printObjs_body_def Let_def)
      then show ?thesis by (rule table) (simp_all add: printObjs_separate_keeps)
    next
      case (Inl err)
      show ?thesis
      proof (cases "errorText err \<in> set (psErrs ?st2)")
        case True
        then have "fl = Next (?st2\<lparr>psPrinter := NilFunc\<rparr>)"
          using assms \<open>shouldGetNewPrinterForMapping _ _ _\<close> Inl
          by (simp add: printObjs_body_def Let_def)
        then show ?thesis by (rule known) (simp_all add: printObjs_separate_keeps)
      next
        case False
        then have fl: "fl = Next (?st2\<lparr>psPrinter := NilFunc,
                                  psErrs := psErrs ?st2 @ [errorText err],
                                  psAllErrs := psAllErrs ?st2 @ [err]\<rparr>)"
          using assms True Inl by (simp add: printObjs_body_def Let_def)
        have fresh: "errorText err \<notin> set (psErrs st)"
          using False by (simp add: printObjs_separate_keeps)
        show ?thesis
          by (rule new[where err = err, OF fl]) (simp_all add: printObjs_separate_keeps fresh)
      qed
    qed
  qed
qed

lemma printObjs_body_Return:
  assumes "printObjs_body g u k obj rest st = Return st'"
  shows "\<exists>err. psAllErrs st' = psAllErrs st @ [err]"
  using assms
proof (cases rule: printObjs_body_cases)
  case (table st1)
  then show ?thesis using printObjs_table_Return[of g u obj rest st1 st'] by simp
qed simp_all

lemma printObjs_body_writersOk:
  assumes "printObjs_body g u k obj rest st = Next st'" "writersOk (psWriters st)"
  shows "writersOk (psWriters st')"
  using assms(1)
proof (cases rule: printObjs_body_cases)
  case (table st1)
  then show ?thesis using printObjs_table_Next[of g u obj rest st1 st'] assms(2) by simp
next
  case (known st1)
  then show ?thesis using assms(2) by simp
next
  case (new st1 err)
  then show ?thesis using assms(2) by simp
qed

lemma printObjs_loop_Return:
  "printObjs_loop g u k objs st = Return st' \<Longrightarrow> psAllErrs st' \<noteq> []"
proof (induction objs arbitrary: st)
  case Nil
  then show ?case by simp
next
  case (Cons obj objs)
  show ?case
  proof (cases "printObjs_body g u k obj objs st")
    case (Next st1)
    with Cons show ?thesis by simp
  next
    case (Return st1)
    with Cons.prems have "st' = st1" by simp
    with Return printObjs_body_Return[of g u k obj objs st st'] show ?thesis by auto
  next
    case (Crash p)
    with Cons.prems show ?thesis by simp
  qed
qed

lemma printObjs_loop_writersOk:
  "printObjs_loop g u k objs st = Next st' \<Longrightarrow> writersOk (psWriters st) \<Longrightarrow>
   writersOk (psWriters st')"
proof (induction objs arbitrary: st)
  case Nil
  then show ?case by simp
next
  case (Cons obj objs)
  show ?case
  proof (cases "printObjs_body g u k obj objs st")
    case (Next st1)
    from printObjs_body_writersOk[OF Next Cons.prems(2)] Cons.IH[of st1] Cons.prems(1) Next
    show ?thesis by simp
  next
    case (Return st1)
    with Cons.prems show ?thesis by simp
  next
    case (Crash p)
    with Cons.prems show ?thesis by simp
  qed
qed

lemma printObjs_body_namespaced:
  assumes "printObjs_body g u k obj rest st = Next st'"
  shows "psAllResourcesNamespaced st' = (psAllResourcesNamespaced st \<and> Namespaced (Info obj))"
  using assms
proof (cases rule: printObjs_body_cases)
  case (table st1)
  then show ?thesis using printObjs_table_Next[of g u obj rest st1 st'] by simp
next
  case (known st1)
  then show ?thesis by simp
next
  case (new st1 err)
  then show ?thesis by simp
qed

lemma printObjs_loop_namespaced:
  "printObjs_loop g u k objs st = Next st' \<Longrightarrow>
   psAllResourcesNamespaced st' =
     (psAllResourcesNamespaced st \<and> (\<forall>obj \<in> set objs. Namespaced (Info obj)))"
proof (induction objs arbitrary: st)
  case Nil
  then show ?case by simp
next
  case (Cons obj objs)
  show ?case
  proof (cases "printObjs_body g u k obj objs st")
    case (Next st1)
    from printObjs_body_namespaced[OF Next] Cons.IH[of st1] Cons.prems Next
    show ?thesis by auto
  next
    case (Return st1)
    with Cons.prems show ?thesis by simp
  next
    case (Crash p)
    with Cons.prems show ?thesis by simp
  qed
qed

subsection \<open>Nothing found\<close>

lemma printIfNotFindResource_quiet:
  "written \<noteq> 0 \<or> IgnoreNotFound g \<or> allErrs \<noteq> [] \<Longrightarrow>
   printIfNotFindResource g written allErrs arn errOut = (errOut, allErrs)"
  by (auto simp: printIfNotFindResource_def)

lemma printIfNotFindResource_speaks:
  "\<not> IgnoreNotFound g \<Longrightarrow>
   printIfNotFindResource g 0 [] arn errOut = (errOut @ [diagnostic g arn], [])"
  by (simp add: printIfNotFindResource_def diagnostic_def)

lemma printObjs_diagnostic:
  assumes "printObjs g u pc objs allErrs = Inr r"
  shows "(rErrOut r \<noteq> [] \<longrightarrow>
            rAllErrs r = [] \<and> rOut r = [] \<and>
            rErrOut r =
              [diagnostic g (\<not> AllNamespaces g \<and> (\<forall>obj \<in> set objs. Namespaced (Info obj)))]) \<and>
         (\<not> IgnoreNotFound g \<and> rAllErrs r = [] \<and> rOut r = [] \<longrightarrow>
            rErrOut r =
              [diagnostic g (\<not> AllNamespaces g \<and> (\<forall>obj \<in> set objs. Namespaced (Info obj)))])"
proof -
  let ?st0 = "\<lparr>psPrinter = NilInterface, psLastMapping = None, psErrs = [],
                 psAllErrs = allErrs, psSameKind = [],
                 psWriters = \<lparr>Buffer = [], Ready = False, Written = 0, Delegate = []\<rparr>,
                 psAllResourcesNamespaced = (\<not> AllNamespaces g), psPodColumns = pc,
                 psPrinted = []\<rparr>"
  have ok0: "writersOk (psWriters ?st0)" by (simp add: writersOk_def)
  show ?thesis
  proof (cases "printObjs_loop g u (multipleGVKsRequested objs) objs ?st0")
    case (Next st)
    let ?w = "Flush (psWriters st)"
    have w: "Written ?w = length (Delegate ?w)"
      using printObjs_loop_writersOk[OF Next ok0] writersOk_Flush[of "psWriters st"]
      by (simp add: writersOk_def)
    have n: "psAllResourcesNamespaced st =
               (\<not> AllNamespaces g \<and> (\<forall>obj \<in> set objs. Namespaced (Info obj)))"
      using printObjs_loop_namespaced[OF Next] by simp
    show ?thesis
    proof (cases "Written ?w \<noteq> 0 \<or> IgnoreNotFound g \<or> psAllErrs st \<noteq> []")
      case True
      from printIfNotFindResource_quiet[OF True] assms Next
      have r: "r = \<lparr>rAllErrs = psAllErrs st, rOut = Delegate ?w, rWritten = Written ?w,
                    rErrOut = [], rPodColumns = psPodColumns st\<rparr>"
        by (simp add: printObjs_def Let_def)
      show ?thesis using True w r by auto
    next
      case False
      then have z: "Written ?w = 0" "psAllErrs st = []" "\<not> IgnoreNotFound g" by simp_all
      from printIfNotFindResource_speaks[OF z(3), of "psAllResourcesNamespaced st" "[]"] assms Next z
      have r: "r = \<lparr>rAllErrs = [], rOut = Delegate ?w, rWritten = 0,
                    rErrOut = [diagnostic g (psAllResourcesNamespaced st)],
                    rPodColumns = psPodColumns st\<rparr>"
        by (simp add: printObjs_def Let_def)
      show ?thesis using w z r unfolding n by auto
    qed
  next
    case (Return st)
    from printObjs_loop_Return[OF Return] assms Return show ?thesis
      by (auto simp: printObjs_def Let_def)
  next
    case (Crash p)
    with assms show ?thesis by (simp add: printObjs_def Let_def)
  qed
qed

text \<open>A run in list mode with a table printer returns early or goes through the rendering.\<close>

lemma Run_list_Done:
  assumes "\<not> Watch g" "\<not> WatchOnly g" "IsHumanReadablePrinter g"
      and "Run g u f pc order = Done res"
  shows "(\<exists>err st. Run_collect g f order = Inl (err, st) \<and> Returned res = [err] \<and>
            ErrOut res = []) \<or>
         (\<exists>st r. Run_collect g f order = Inr st \<and>
            printObjs g u pc
              (sort_key (\<lambda>obj. gvrString (Resource (Mapping (Info obj)))) (cObjs st))
              (cAllErrs st) = Inr r \<and>
            Returned res = rAllErrs r \<and> Out res = rOut r \<and> ErrOut res = rErrOut r)"
proof (cases "Run_collect g f order")
  case (Inl failed)
  then obtain err st where "Run_collect g f order = Inl (err, st)" by (cases failed) simp
  with assms show ?thesis by (auto simp: Run_def)
next
  case (Inr st)
  with assms show ?thesis by (auto simp: Run_def split: sum.splits)
qed

lemma printObjs_diagnostic_only:
  assumes "printObjs g u pc objs allErrs = Inr r" "rErrOut r \<noteq> []"
  shows "rAllErrs r = [] \<and> rOut r = [] \<and>
         rErrOut r =
           [diagnostic g (\<not> AllNamespaces g \<and> (\<forall>obj \<in> set objs. Namespaced (Info obj)))]"
  by (rule printObjs_diagnostic[OF assms(1), THEN conjunct1, THEN mp, OF assms(2)])

lemma printObjs_diagnostic_given:
  assumes "printObjs g u pc objs allErrs = Inr r"
      and "\<not> IgnoreNotFound g" "rAllErrs r = []" "rOut r = []"
  shows "rErrOut r =
           [diagnostic g (\<not> AllNamespaces g \<and> (\<forall>obj \<in> set objs. Namespaced (Info obj)))]"
proof -
  from assms(2,3,4) have "\<not> IgnoreNotFound g \<and> rAllErrs r = [] \<and> rOut r = []"
    by (intro conjI)
  then show ?thesis
    by (rule printObjs_diagnostic[OF assms(1), THEN conjunct2, THEN mp])
qed

lemma Run_list_rendered:
  assumes "\<not> Watch g \<and> \<not> WatchOnly g \<and> IsHumanReadablePrinter g \<and>
           Run_collect g f order = Inr st \<and> Run g u f pc order = Done res \<and> rest"
  shows "\<exists>r. printObjs g u pc
                (sort_key (\<lambda>obj. gvrString (Resource (Mapping (Info obj)))) (cObjs st))
                (cAllErrs st) = Inr r \<and>
              Returned res = rAllErrs r \<and> Out res = rOut r \<and> ErrOut res = rErrOut r"
proof -
  from assms have a: "\<not> Watch g" "\<not> WatchOnly g" "IsHumanReadablePrinter g"
    and c: "Run_collect g f order = Inr st" and d: "Run g u f pc order = Done res"
    by simp_all
  from Run_list_Done[OF a d] c
  obtain st' r where "Inr st = (Inr st' :: error + Collected)"
     "printObjs g u pc
        (sort_key (\<lambda>obj. gvrString (Resource (Mapping (Info obj)))) (cObjs st'))
        (cAllErrs st') = Inr r"
     "Returned res = rAllErrs r" "Out res = rOut r" "ErrOut res = rErrOut r"
    by (elim disjE exE conjE) simp_all
  then show ?thesis by simp
qed

text \<open>
  C8, as the claim states it: the message for the namespace is written when all
  requested types are namespace-scoped. Here pods are asked of the control plane, which
  has none: the server answers with a table without rows, and nothing is printed. With
  \<^verbatim>\<open>--all-namespaces\<close> the general message is written, although pods are
  namespace-scoped; without it, the message for the namespace.
\<close>

theorem all_namespaces_gets_general_message_counterexample:
  "Scope (Mapping (noRowInfo podsMapping)) = RESTScopeNameNamespace \<and>
   Run (exampleOptions\<lparr>AllNamespaces := True\<rparr>) exampleExternals
     \<lparr>ControlPlane = healthy (noRowResult podsMapping),
      FactoryForMemberCluster = (\<lambda>cluster. Inl (Error ''not asked''))\<rparr> podColumns []
   = Done \<lparr>Returned = [], Out = [], ErrOut = [''No resources found'' @ [CHR 0x0A]]\<rparr> \<and>
   Run exampleOptions exampleExternals
     \<lparr>ControlPlane = healthy (noRowResult podsMapping),
      FactoryForMemberCluster = (\<lambda>cluster. Inl (Error ''not asked''))\<rparr> podColumns []
   = Done \<lparr>Returned = [], Out = [],
           ErrOut = [''No resources found in default namespace.'' @ [CHR 0x0A]]\<rparr>"
  by (simp add: noRowInfo_def noRowResult_def example_defs collect_defs table_defs print_defs)

text \<open>
  C8, amended. With not-found suppression off, \<^verbatim>\<open>printIfNotFindResource\<close>, called
  with zero bytes written and an empty error list, writes exactly one message to the
  error stream and leaves the error list empty: the message that no member clusters were
  found when the control plane is out of scope and no member is a target, else the
  message for the namespace when its flag is set, else the general message. For a whole
  run in list mode with a table printer the flag is set when \<^verbatim>\<open>--all-namespaces\<close> is
  not given and every collected object is of a namespace-scoped type. In such a run, when
  nothing was written to the output and the returned error is nil, exactly one
  diagnostic was emitted; and whenever a diagnostic was emitted, it is the only one,
  nothing was written to the output and the returned error is nil.
\<close>

theorem nothing_found_diagnostic:
  assumes "\<not> IgnoreNotFound g"
  shows "printIfNotFindResource g 0 [] allResourcesNamespaced errOut =
           (errOut @ [diagnostic g allResourcesNamespaced], []) \<and>
         (\<not> Watch g \<and> \<not> WatchOnly g \<and> IsHumanReadablePrinter g \<and>
          Run_collect g f order = Inr st \<and>
          Run g u f pc order = Done res \<and> Out res = [] \<and> Returned res = [] \<longrightarrow>
            ErrOut res =
              [diagnostic g
                 (\<not> AllNamespaces g \<and> (\<forall>obj \<in> set (cObjs st). Namespaced (Info obj)))]) \<and>
         (\<not> Watch g \<and> \<not> WatchOnly g \<and> IsHumanReadablePrinter g \<and>
          Run_collect g f order = Inr st \<and>
          Run g u f pc order = Done res \<and> ErrOut res \<noteq> [] \<longrightarrow>
            ErrOut res =
              [diagnostic g
                 (\<not> AllNamespaces g \<and> (\<forall>obj \<in> set (cObjs st). Namespaced (Info obj)))] \<and>
            Out res = [] \<and> Returned res = [])"
proof (intro conjI)
  let ?objs = "sort_key (\<lambda>obj. gvrString (Resource (Mapping (Info obj)))) (cObjs st)"
  let ?d = "diagnostic g
              (\<not> AllNamespaces g \<and> (\<forall>obj \<in> set (cObjs st). Namespaced (Info obj)))"
  have s: "set ?objs = set (cObjs st)" by simp
  show "printIfNotFindResource g 0 [] allResourcesNamespaced errOut =
          (errOut @ [diagnostic g allResourcesNamespaced], [])"
    using assms by (rule printIfNotFindResource_speaks)
  show "\<not> Watch g \<and> \<not> WatchOnly g \<and> IsHumanReadablePrinter g \<and>
        Run_collect g f order = Inr st \<and>
        Run g u f pc order = Done res \<and> Out res = [] \<and> Returned res = [] \<longrightarrow>
          ErrOut res = [?d]"
  proof
    assume a: "\<not> Watch g \<and> \<not> WatchOnly g \<and> IsHumanReadablePrinter g \<and>
        Run_collect g f order = Inr st \<and>
        Run g u f pc order = Done res \<and> Out res = [] \<and> Returned res = []"
    from Run_list_rendered[OF a]
    obtain r where p: "printObjs g u pc ?objs (cAllErrs st) = Inr r"
      and e: "Returned res = rAllErrs r" "Out res = rOut r" "ErrOut res = rErrOut r"
      by (elim exE conjE)
    from a e have z: "rAllErrs r = []" "rOut r = []" by simp_all
    from printObjs_diagnostic_given[OF p assms z] e(3) s show "ErrOut res = [?d]" by simp
  qed
  show "\<not> Watch g \<and> \<not> WatchOnly g \<and> IsHumanReadablePrinter g \<and>
        Run_collect g f order = Inr st \<and>
        Run g u f pc order = Done res \<and> ErrOut res \<noteq> [] \<longrightarrow>
          ErrOut res = [?d] \<and> Out res = [] \<and> Returned res = []"
  proof
    assume a: "\<not> Watch g \<and> \<not> WatchOnly g \<and> IsHumanReadablePrinter g \<and>
        Run_collect g f order = Inr st \<and>
        Run g u f pc order = Done res \<and> ErrOut res \<noteq> []"
    from Run_list_rendered[OF a]
    obtain r where p: "printObjs g u pc ?objs (cAllErrs st) = Inr r"
      and e: "Returned res = rAllErrs r" "Out res = rOut r" "ErrOut res = rErrOut r"
      by (elim exE conjE)
    from a e(3) have z: "rErrOut r \<noteq> []" by simp
    from printObjs_diagnostic_only[OF p z] e s
    show "ErrOut res = [?d] \<and> Out res = [] \<and> Returned res = []" by simp
  qed
qed

theorem nothing_found_diagnostic_witness:
  "\<not> IgnoreNotFound exampleOptions \<and>
   printIfNotFindResource exampleOptions 0 [] True [] =
     ([''No resources found in default namespace.'' @ [CHR 0x0A]], []) \<and>
   Run_collect exampleOptions
     \<lparr>ControlPlane = healthy emptyResult,
      FactoryForMemberCluster = (\<lambda>cluster. Inl (Error ''not asked''))\<rparr> []
   = Inr \<lparr>cObjs = [], cWatchObjs = [], cAllErrs = [], cOut = []\<rparr> \<and>
   Run exampleOptions exampleExternals
     \<lparr>ControlPlane = healthy emptyResult,
      FactoryForMemberCluster = (\<lambda>cluster. Inl (Error ''not asked''))\<rparr> podColumns []
   = Done \<lparr>Returned = [], Out = [],
           ErrOut = [''No resources found in default namespace.'' @ [CHR 0x0A]]\<rparr>"
  using nothing_found_diagnostic[where g = exampleOptions and allResourcesNamespaced = True
      and errOut = "[]" and u = exampleExternals
      and f = "\<lparr>ControlPlane = healthy emptyResult,
        FactoryForMemberCluster = (\<lambda>cluster. Inl (Error ''not asked''))\<rparr>"
      and pc = podColumns and order = "[]"
      and st = "\<lparr>cObjs = [], cWatchObjs = [], cAllErrs = [], cOut = []\<rparr>"
      and res = "\<lparr>Returned = [], Out = [],
        ErrOut = [''No resources found in default namespace.'' @ [CHR 0x0A]]\<rparr>"]
  by (simp add: example_defs emptyResult_def collect_defs table_defs print_defs diagnostic_def)

subsection \<open>The package variable of the columns\<close>

text \<open>
  The table part of the loop body, when it renders: the assignment of
  \<^verbatim>\<open>setNoAdoption\<close> is made before anything can fail, and the table that is printed
  has its columns from \<^verbatim>\<open>setColumnDefinition\<close>.
\<close>

lemma printObjs_table_renders:
  assumes "printObjs_table g u obj rest st = fl" "fl = Next st' \<or> fl = Return st'"
      and "rest = [] \<or> Resource (Mapping (Info obj)) \<noteq> Resource (Mapping (Info (hd rest)))"
      and "reconstructionRow u (psSameKind st) \<lparr>ColumnDefinitions = [], Rows = []\<rparr> =
             Ok (rows, mapping, table0)"
  shows "psPodColumns st' = setNoAdoption mapping (psPodColumns st) \<and>
         (psPrinted st' = psPrinted st \<or>
          psPrinted st' = psPrinted st @
            [setColumnDefinition g (setNoAdoption mapping (psPodColumns st))
               (table0\<lparr>Rows := rows\<rparr>)])"
  using assms unfolding printObjs_table_def Let_def
  by (auto split: option.splits PrinterVar.splits prod.splits)

lemma printObjs_table_frame:
  assumes "printObjs_table g u obj rest st = fl" "fl = Next st' \<or> fl = Return st'"
  shows "(psPodColumns st' = psPodColumns st \<and> psPrinted st' = psPrinted st) \<or>
         (\<exists>mapping table.
            psPodColumns st' = setNoAdoption mapping (psPodColumns st) \<and>
            (psPrinted st' = psPrinted st \<or>
             psPrinted st' = psPrinted st @
               [setColumnDefinition g (setNoAdoption mapping (psPodColumns st)) table]))"
proof (cases "rest = [] \<or> Resource (Mapping (Info obj)) \<noteq> Resource (Mapping (Info (hd rest)))")
  case False
  with assms show ?thesis by (auto simp: printObjs_table_def)
next
  case True
  show ?thesis
  proof (cases "reconstructionRow u (psSameKind st) \<lparr>ColumnDefinitions = [], Rows = []\<rparr>")
    case (Ok res)
    obtain rows mapping table0 where "res = (rows, mapping, table0)" by (cases res)
    with Ok printObjs_table_renders[OF assms True] show ?thesis by blast
  next
    case (Failed err)
    with assms True show ?thesis by (auto simp: printObjs_table_def)
  next
    case (Panicked p)
    with assms True show ?thesis by (auto simp: printObjs_table_def)
  qed
qed

lemma after_pods_table:
  assumes "Priority (snd pc) = 1" "ColumnDefinitions t \<noteq> []"
      and "t = setColumnDefinition g (setNoAdoption mapping pc) table"
  shows "last (ColumnDefinitions t) = snd pc"
proof -
  have same: "setNoAdoption mapping pc = pc" using assms(1) by (rule setNoAdoption_idem)
  from assms(2,3) have "ColumnDefinitions table \<noteq> []"
    unfolding same using setColumnDefinition_empty by blast
  then show ?thesis unfolding assms(3) same by (rule setColumnDefinition_last)
qed

lemma printObjs_table_after_pods:
  assumes "Priority (snd (psPodColumns st)) = 1"
      and "printObjs_table g u obj rest st = fl" "fl = Next st' \<or> fl = Return st'"
  shows "psPodColumns st' = psPodColumns st \<and>
         (\<exists>new. psPrinted st' = psPrinted st @ new \<and>
            (\<forall>t \<in> set new. ColumnDefinitions t \<noteq> [] \<longrightarrow>
               last (ColumnDefinitions t) = snd (psPodColumns st)))"
proof -
  from printObjs_table_frame[OF assms(2,3)]
  consider (same) "psPodColumns st' = psPodColumns st" "psPrinted st' = psPrinted st"
    | (silent) mapping where "psPodColumns st' = setNoAdoption mapping (psPodColumns st)"
        "psPrinted st' = psPrinted st"
    | (printed) mapping table where
        "psPodColumns st' = setNoAdoption mapping (psPodColumns st)"
        "psPrinted st' = psPrinted st @
           [setColumnDefinition g (setNoAdoption mapping (psPodColumns st)) table]"
    by blast
  then show ?thesis
  proof cases
    case same
    then show ?thesis by (intro conjI exI[of _ "[]"]) simp_all
  next
    case (silent mapping)
    with setNoAdoption_idem[OF assms(1), of mapping] show ?thesis
      by (intro conjI exI[of _ "[]"]) simp_all
  next
    case (printed mapping table)
    let ?t = "setColumnDefinition g (setNoAdoption mapping (psPodColumns st)) table"
    have "ColumnDefinitions ?t \<noteq> [] \<longrightarrow> last (ColumnDefinitions ?t) = snd (psPodColumns st)"
      using after_pods_table[OF assms(1), of ?t g mapping table] by blast
    with printed setNoAdoption_idem[OF assms(1), of mapping] show ?thesis
      by (intro conjI exI[of _ "[?t]"]) simp_all
  qed
qed

lemma printObjs_body_after_pods:
  assumes "Priority (snd (psPodColumns st)) = 1"
      and "printObjs_body g u k obj rest st = fl" "fl = Next st' \<or> fl = Return st'"
  shows "psPodColumns st' = psPodColumns st \<and>
         (\<exists>new. psPrinted st' = psPrinted st @ new \<and>
            (\<forall>t \<in> set new. ColumnDefinitions t \<noteq> [] \<longrightarrow>
               last (ColumnDefinitions t) = snd (psPodColumns st)))"
  using assms(2)
proof (cases rule: printObjs_body_cases)
  case (table st1)
  from table(6) assms(1) have p: "Priority (snd (psPodColumns st1)) = 1" by simp
  from printObjs_table_after_pods[OF p table(1)[symmetric] assms(3)] table(6,7)
  show ?thesis by simp
next
  case (known st1)
  with assms(3) have "st' = st1" by auto
  with known show ?thesis by (intro conjI exI[of _ "[]"]) simp_all
next
  case (new st1 err)
  with assms(3) have "st' = st1" by auto
  with new show ?thesis by (intro conjI exI[of _ "[]"]) simp_all
qed

lemma printObjs_loop_after_pods:
  assumes "Priority (snd (psPodColumns st)) = 1"
      and "printObjs_loop g u k objs st = fl" "fl = Next st' \<or> fl = Return st'"
  shows "psPodColumns st' = psPodColumns st \<and>
         (\<exists>new. psPrinted st' = psPrinted st @ new \<and>
            (\<forall>t \<in> set new. ColumnDefinitions t \<noteq> [] \<longrightarrow>
               last (ColumnDefinitions t) = snd (psPodColumns st)))"
  using assms
proof (induction objs arbitrary: st)
  case Nil
  then show ?case by (intro conjI exI[of _ "[]"]) auto
next
  case (Cons obj objs)
  show ?case
  proof (cases "printObjs_body g u k obj objs st")
    case (Crash p)
    with Cons.prems show ?thesis by auto
  next
    case (Return st1)
    with Cons.prems have "st' = st1" by auto
    with printObjs_body_after_pods[OF Cons.prems(1) Return, of st1] show ?thesis by simp
  next
    case (Next st1)
    from printObjs_body_after_pods[OF Cons.prems(1) Next, of st1] obtain new1 where
      c1: "psPodColumns st1 = psPodColumns st" and
      n1: "psPrinted st1 = psPrinted st @ new1"
          "\<forall>t \<in> set new1. ColumnDefinitions t \<noteq> [] \<longrightarrow>
             last (ColumnDefinitions t) = snd (psPodColumns st)"
      by auto
    from c1 Cons.prems(1) have p1: "Priority (snd (psPodColumns st1)) = 1" by simp
    from Next Cons.prems(2) have l: "printObjs_loop g u k objs st1 = fl" by simp
    from Cons.IH[OF p1 l Cons.prems(3)] obtain new2 where
      c2: "psPodColumns st' = psPodColumns st1" and
      n2: "psPrinted st' = psPrinted st1 @ new2"
          "\<forall>t \<in> set new2. ColumnDefinitions t \<noteq> [] \<longrightarrow>
             last (ColumnDefinitions t) = snd (psPodColumns st1)"
      by auto
    from c1 c2 n1 n2 show ?thesis by (intro conjI exI[of _ "new1 @ new2"]) auto
  qed
qed

lemma reconstructObj_columns:
  assumes "reconstructObj g u pc obj mapping cluster event = Ok (t, pc')"
  shows "pc' = setNoAdoption mapping pc \<and>
         (\<exists>table. t = setColumnDefinition g (setNoAdoption mapping pc) table)"
  using assms unfolding reconstructObj_def Let_def
  by (auto split: RuntimeObject.splits sum.splits outcome.splits)

text \<open>
  C9. A rendering for the resource type \<open>pods\<close> assigns 1 to the priority of
  \<^verbatim>\<open>podColumns[1]\<close>, a package variable: in list mode the table part of the loop
  of \<^verbatim>\<open>printObjs\<close>, when the group of the object ends and its rows are rebuilt, also
  when the conversion or the printing fails afterwards; in watch mode
  \<^verbatim>\<open>reconstructObj\<close>. Nothing sets it back. Once the priority is 1, the loop of
  \<^verbatim>\<open>printObjs\<close> over any objects, of any resource types, leaves the variable as it
  is, and every table with columns that it hands to the printer has the adoption column
  with priority 1 as its last column; and so has every table with columns that
  \<^verbatim>\<open>reconstructObj\<close> returns.
\<close>

theorem pods_rendering_changes_later_tables:
  "(printObjs_table g u obj rest st = fl \<and> (fl = Next st' \<or> fl = Return st') \<and>
    (rest = [] \<or> Resource (Mapping (Info obj)) \<noteq> Resource (Mapping (Info (hd rest)))) \<and>
    reconstructionRow u (psSameKind st) \<lparr>ColumnDefinitions = [], Rows = []\<rparr> =
      Ok (rows, Some m, table0) \<and>
    gvrResource (Resource m) = ''pods'' \<longrightarrow>
      psPodColumns st' = (fst (psPodColumns st), (snd (psPodColumns st))\<lparr>Priority := 1\<rparr>)) \<and>
   (Priority (snd (psPodColumns st)) = 1 \<and> printObjs_loop g u k objs st = fl \<and>
    (fl = Next st' \<or> fl = Return st') \<longrightarrow>
      psPodColumns st' = psPodColumns st \<and>
      (\<exists>new. psPrinted st' = psPrinted st @ new \<and>
         (\<forall>t \<in> set new. ColumnDefinitions t \<noteq> [] \<longrightarrow>
            last (ColumnDefinitions t) = snd (psPodColumns st) \<and>
            Priority (last (ColumnDefinitions t)) = 1))) \<and>
   (reconstructObj g u pc object (Some m) cluster event = Ok (t, pc') \<and>
    gvrResource (Resource m) = ''pods'' \<longrightarrow>
      pc' = (fst pc, (snd pc)\<lparr>Priority := 1\<rparr>)) \<and>
   (Priority (snd pc) = 1 \<and>
    reconstructObj g u pc object mapping cluster event = Ok (t, pc') \<longrightarrow>
      pc' = pc \<and>
      (ColumnDefinitions t \<noteq> [] \<longrightarrow>
         last (ColumnDefinitions t) = snd pc \<and> Priority (last (ColumnDefinitions t)) = 1))"
proof (intro conjI)
  show "printObjs_table g u obj rest st = fl \<and> (fl = Next st' \<or> fl = Return st') \<and>
    (rest = [] \<or> Resource (Mapping (Info obj)) \<noteq> Resource (Mapping (Info (hd rest)))) \<and>
    reconstructionRow u (psSameKind st) \<lparr>ColumnDefinitions = [], Rows = []\<rparr> =
      Ok (rows, Some m, table0) \<and>
    gvrResource (Resource m) = ''pods'' \<longrightarrow>
      psPodColumns st' = (fst (psPodColumns st), (snd (psPodColumns st))\<lparr>Priority := 1\<rparr>)"
  proof
    assume a: "printObjs_table g u obj rest st = fl \<and> (fl = Next st' \<or> fl = Return st') \<and>
      (rest = [] \<or> Resource (Mapping (Info obj)) \<noteq> Resource (Mapping (Info (hd rest)))) \<and>
      reconstructionRow u (psSameKind st) \<lparr>ColumnDefinitions = [], Rows = []\<rparr> =
        Ok (rows, Some m, table0) \<and>
      gvrResource (Resource m) = ''pods''"
    then have "psPodColumns st' = setNoAdoption (Some m) (psPodColumns st)"
      using printObjs_table_renders[of g u obj rest st fl st' rows "Some m" table0] by blast
    with a show "psPodColumns st' =
        (fst (psPodColumns st), (snd (psPodColumns st))\<lparr>Priority := 1\<rparr>)"
      by (simp add: setNoAdoption_def)
  qed
next
  show "Priority (snd (psPodColumns st)) = 1 \<and> printObjs_loop g u k objs st = fl \<and>
    (fl = Next st' \<or> fl = Return st') \<longrightarrow>
      psPodColumns st' = psPodColumns st \<and>
      (\<exists>new. psPrinted st' = psPrinted st @ new \<and>
         (\<forall>t \<in> set new. ColumnDefinitions t \<noteq> [] \<longrightarrow>
            last (ColumnDefinitions t) = snd (psPodColumns st) \<and>
            Priority (last (ColumnDefinitions t)) = 1))"
  proof
    assume a: "Priority (snd (psPodColumns st)) = 1 \<and> printObjs_loop g u k objs st = fl \<and>
      (fl = Next st' \<or> fl = Return st')"
    then obtain new where c: "psPodColumns st' = psPodColumns st"
      and n: "psPrinted st' = psPrinted st @ new"
        "\<forall>t \<in> set new. ColumnDefinitions t \<noteq> [] \<longrightarrow>
           last (ColumnDefinitions t) = snd (psPodColumns st)"
      using printObjs_loop_after_pods[of st g u k objs fl st'] by blast
    from n(2) a have "\<forall>t \<in> set new. ColumnDefinitions t \<noteq> [] \<longrightarrow>
        last (ColumnDefinitions t) = snd (psPodColumns st) \<and>
        Priority (last (ColumnDefinitions t)) = 1"
      by simp
    with c n(1) show "psPodColumns st' = psPodColumns st \<and>
      (\<exists>new. psPrinted st' = psPrinted st @ new \<and>
         (\<forall>t \<in> set new. ColumnDefinitions t \<noteq> [] \<longrightarrow>
            last (ColumnDefinitions t) = snd (psPodColumns st) \<and>
            Priority (last (ColumnDefinitions t)) = 1))"
      by blast
  qed
next
  show "reconstructObj g u pc object (Some m) cluster event = Ok (t, pc') \<and>
    gvrResource (Resource m) = ''pods'' \<longrightarrow>
      pc' = (fst pc, (snd pc)\<lparr>Priority := 1\<rparr>)"
  proof
    assume a: "reconstructObj g u pc object (Some m) cluster event = Ok (t, pc') \<and>
      gvrResource (Resource m) = ''pods''"
    then have "pc' = setNoAdoption (Some m) pc"
      using reconstructObj_columns[of g u pc object "Some m" cluster event t pc'] by blast
    with a show "pc' = (fst pc, (snd pc)\<lparr>Priority := 1\<rparr>)" by (simp add: setNoAdoption_def)
  qed
next
  show "Priority (snd pc) = 1 \<and>
    reconstructObj g u pc object mapping cluster event = Ok (t, pc') \<longrightarrow>
      pc' = pc \<and>
      (ColumnDefinitions t \<noteq> [] \<longrightarrow>
         last (ColumnDefinitions t) = snd pc \<and> Priority (last (ColumnDefinitions t)) = 1)"
  proof
    assume a: "Priority (snd pc) = 1 \<and>
      reconstructObj g u pc object mapping cluster event = Ok (t, pc')"
    then have p: "Priority (snd pc) = 1" by simp
    from a obtain table where c: "pc' = setNoAdoption mapping pc"
      and tt: "t = setColumnDefinition g (setNoAdoption mapping pc) table"
      using reconstructObj_columns[of g u pc object mapping cluster event t pc'] by blast
    have l: "ColumnDefinitions t \<noteq> [] \<longrightarrow> last (ColumnDefinitions t) = snd pc"
      using after_pods_table[OF p _ tt] by blast
    from c setNoAdoption_idem[OF p, of mapping] have "pc' = pc" by simp
    with l p show "pc' = pc \<and>
      (ColumnDefinitions t \<noteq> [] \<longrightarrow>
         last (ColumnDefinitions t) = snd pc \<and> Priority (last (ColumnDefinitions t)) = 1)"
      by simp
  qed
qed

theorem pods_rendering_changes_later_tables_witness:
  "gvrResource (Resource podsMapping) = ''pods'' \<and> Priority (snd podColumns) = 0 \<and>
   Priority (snd (setNoAdoption (Some podsMapping) podColumns)) = 1 \<and>
   reconstructionRow exampleExternals [nginxPod] \<lparr>ColumnDefinitions = [], Rows = []\<rparr>
   = Ok ([\<lparr>Cells = [Str ''nginx'', Str ''member1'', Str ''1/1'', Str ''N''],
            RowObject = Decoded []\<rparr>],
         Some podsMapping,
         (oneRowTable ''nginx'' (Decoded []))
           \<lparr>Rows := [\<lparr>Cells = [Str ''nginx'', Str ''member1'', Str ''1/1'', Str ''N''],
                       RowObject = Decoded []\<rparr>]\<rparr>) \<and>
   printObjs_table exampleOptions exampleExternals nginxPod []
     ((startState podColumns)\<lparr>psPrinter := Func cellsPrinter, psSameKind := [nginxPod]\<rparr>)
   = Next ((startState (setNoAdoption (Some podsMapping) podColumns))
       \<lparr>psPrinter := Func cellsPrinter,
        psWriters := \<lparr>Buffer = ''nginx member1 1/1 N ; '', Ready = False, Written = 0,
                       Delegate = []\<rparr>,
        psPrinted := [renderedTable ''nginx'' (setNoAdoption (Some podsMapping) podColumns)]\<rparr>) \<and>
   printObjs_loop exampleOptions exampleExternals False [kubernetesService]
     (startState (setNoAdoption (Some podsMapping) podColumns))
   = Next ((startState (setNoAdoption (Some podsMapping) podColumns))
       \<lparr>psPrinter := Func cellsPrinter, psLastMapping := Some servicesMapping,
        psWriters := \<lparr>Buffer = ''kubernetes member1 1/1 N ; '', Ready = False, Written = 0,
                       Delegate = []\<rparr>,
        psPrinted :=
          [renderedTable ''kubernetes'' (setNoAdoption (Some podsMapping) podColumns)]\<rparr>) \<and>
   Priority (last (ColumnDefinitions
     (renderedTable ''kubernetes'' (setNoAdoption (Some podsMapping) podColumns)))) = 1 \<and>
   reconstructObj exampleOptions exampleExternals podColumns
     (Unstructured (Inr (oneRowTable ''nginx'' (Decoded [])))) (Some podsMapping) ''member1''
     ''ADDED''
   = Ok (renderedTable ''nginx'' (setNoAdoption (Some podsMapping) podColumns),
         setNoAdoption (Some podsMapping) podColumns) \<and>
   reconstructObj exampleOptions exampleExternals (setNoAdoption (Some podsMapping) podColumns)
     (Unstructured (Inr (oneRowTable ''kubernetes'' (Decoded [])))) (Some servicesMapping)
     ''member1'' ''ADDED''
   = Ok (renderedTable ''kubernetes'' (setNoAdoption (Some podsMapping) podColumns),
         setNoAdoption (Some podsMapping) podColumns) \<and>
   Run (exampleOptions
          \<lparr>ToPrinter := (\<lambda>mapping outputObjects withNamespace withKind. Inr headersPrinter)\<rparr>)
     exampleExternals
     \<lparr>ControlPlane = healthy mixedResult,
      FactoryForMemberCluster = (\<lambda>cluster. Inl (Error ''not asked''))\<rparr> podColumns []
   = Done \<lparr>Returned = [],
           Out = ''NAME CLUSTER READY ; nginx Karmada 1/1 - ; '' @ [CHR 0x0A] @
                 ''NAME CLUSTER READY ; kubernetes Karmada 1/1 - ; '',
           ErrOut = []\<rparr> \<and>
   Run (exampleOptions
          \<lparr>ToPrinter := (\<lambda>mapping outputObjects withNamespace withKind. Inr headersPrinter)\<rparr>)
     exampleExternals
     \<lparr>ControlPlane = healthy (oneRowResult servicesMapping ''kubernetes'' (Decoded [])),
      FactoryForMemberCluster = (\<lambda>cluster. Inl (Error ''not asked''))\<rparr> podColumns []
   = Done \<lparr>Returned = [], Out = ''NAME CLUSTER READY ADOPTION ; kubernetes Karmada 1/1 - ; '',
           ErrOut = []\<rparr>"
  using pods_rendering_changes_later_tables[where g = exampleOptions and u = exampleExternals
      and obj = nginxPod and rest = "[]"
      and st = "(startState podColumns)\<lparr>psPrinter := Func cellsPrinter, psSameKind := [nginxPod]\<rparr>"
      and fl = "printObjs_table exampleOptions exampleExternals nginxPod []
        ((startState podColumns)\<lparr>psPrinter := Func cellsPrinter, psSameKind := [nginxPod]\<rparr>)"
      and st' = "(startState (setNoAdoption (Some podsMapping) podColumns))
       \<lparr>psPrinter := Func cellsPrinter,
        psWriters := \<lparr>Buffer = ''nginx member1 1/1 N ; '', Ready = False, Written = 0,
                       Delegate = []\<rparr>,
        psPrinted := [renderedTable ''nginx'' (setNoAdoption (Some podsMapping) podColumns)]\<rparr>"
      and rows = "[\<lparr>Cells = [Str ''nginx'', Str ''member1'', Str ''1/1'', Str ''N''],
            RowObject = Decoded []\<rparr>]"
      and m = podsMapping
      and ?table0.0 = "(oneRowTable ''nginx'' (Decoded []))
           \<lparr>Rows := [\<lparr>Cells = [Str ''nginx'', Str ''member1'', Str ''1/1'', Str ''N''],
                       RowObject = Decoded []\<rparr>]\<rparr>"
      and pc = podColumns
      and object = "Unstructured (Inr (oneRowTable ''nginx'' (Decoded [])))"
      and cluster = "''member1''" and event = "''ADDED''"
      and t = "renderedTable ''nginx'' (setNoAdoption (Some podsMapping) podColumns)"
      and pc' = "setNoAdoption (Some podsMapping) podColumns"]
    pods_rendering_changes_later_tables[where g = exampleOptions and u = exampleExternals
      and k = False and objs = "[kubernetesService]"
      and st = "startState (setNoAdoption (Some podsMapping) podColumns)"
      and fl = "printObjs_loop exampleOptions exampleExternals False [kubernetesService]
        (startState (setNoAdoption (Some podsMapping) podColumns))"
      and st' = "(startState (setNoAdoption (Some podsMapping) podColumns))
       \<lparr>psPrinter := Func cellsPrinter, psLastMapping := Some servicesMapping,
        psWriters := \<lparr>Buffer = ''kubernetes member1 1/1 N ; '', Ready = False, Written = 0,
                       Delegate = []\<rparr>,
        psPrinted :=
          [renderedTable ''kubernetes'' (setNoAdoption (Some podsMapping) podColumns)]\<rparr>"
      and pc = "setNoAdoption (Some podsMapping) podColumns"
      and object = "Unstructured (Inr (oneRowTable ''kubernetes'' (Decoded [])))"
      and mapping = "Some servicesMapping"
      and cluster = "''member1''" and event = "''ADDED''"
      and t = "renderedTable ''kubernetes'' (setNoAdoption (Some podsMapping) podColumns)"
      and pc' = "setNoAdoption (Some podsMapping) podColumns"]
  by (simp add: nginxPod_def kubernetesService_def startState_def renderedTable_def
      headersPrinter_def shownByDefault_def mixedResult_def example_defs collect_defs
      table_defs print_defs reconstructObj_def reconstructObj_row_def gvrString_def)

subsection \<open>Watch across targets\<close>

lemma multipleGVKsRequested_same:
  assumes "\<not> multipleGVKsRequested (first # others)" "obj \<in> set (first # others)"
  shows "MappingGVK (Mapping (Info obj)) = MappingGVK (Mapping (Info first))"
proof (cases others)
  case Nil
  with assms(2) show ?thesis by simp
next
  case (Cons second rest)
  with assms(1) have "\<not> list_ex (\<lambda>obj. MappingGVK (Mapping (Info obj)) \<noteq>
      MappingGVK (Mapping (Info first))) (first # others)"
    by (simp add: multipleGVKsRequested_def)
  with assms(2) show ?thesis unfolding list_ex_iff by blast
qed

lemma watch_Cons:
  assumes "Infos (WatchResult first) = Inr infos"
  shows "watch g u pc (first # others) =
     (if multipleGVKsRequested
           (map (\<lambda>info. \<lparr>Cluster = WatchCluster first, IsControlPlane = False, Info = info\<rparr>)
              infos)
      then SetupFailed (Error (''watch is only supported on individual resources '' @
             ''and resource collections - more than 1 resource was found''))
      else
        (case infos of
           [] \<Rightarrow> SetupPanicked ''index out of range [0] with length 0''
         | info # _ \<Rightarrow>
             (case ToPrinter g (Some (Mapping info)) (Some (\<not> WatchOnly g)) (AllNamespaces g)
                     False of
                Inl err \<Rightarrow> SetupFailed err
              | Inr printer \<Rightarrow>
                  (case watch_current g u printer (\<not> WatchOnly g) (Mapping info) 0
                          (first # others) ([], pc) of
                     Panicked p \<Rightarrow> SetupPanicked p
                   | Failed err \<Rightarrow> SetupFailed err
                   | Ok (out, pc') \<Rightarrow>
                       Subscribed out
                         (watchMultiClusterObj g u pc' printer (Mapping info)
                            (first # others))))))"
  using assms unfolding watch_def Let_def by (simp split del: if_split cong: if_cong)


text \<open>
  C5, as the claim states it: records of more than one resource type, across all
  targets, make the watch setup fail before any subscription. Here \<open>member1\<close> returns
  a pod and \<open>member2\<close> returns a service. Only the records of the first handle are
  compared: the setup goes through, both current objects are printed with the printer of
  pods, and both subscriptions are started.
\<close>

theorem watch_two_kinds_across_targets_counterexample:
  "Run (memberOptions\<lparr>Watch := True\<rparr>) exampleExternals
     (twoMembers (healthy (oneRowResult podsMapping ''nginx'' (Decoded [])))
        (Inr (healthy (oneRowResult servicesMapping ''kubernetes'' (Decoded [])))))
     podColumns [0, 1]
   = Watched (Subscribed ''nginx member1 1/1 N ; kubernetes member2 1/1 N ; ''
       [LoopEnded [] (Error ''watch closed before UntilWithoutRetry timeout''),
        LoopEnded [] (Error ''watch closed before UntilWithoutRetry timeout'')])"
  by (simp add: memberOptions_def twoMembers_def example_defs collect_defs table_defs watch_defs)

text \<open>
  C5, amended. The check is made on the records of the first watch handle alone. When
  they span more than one group-version-kind, \<^verbatim>\<open>watch\<close> returns the error that
  watching several kinds is not supported, before anything is printed and before any
  subscription. When \<^verbatim>\<open>watch\<close> gets as far as the subscriptions, the first handle has
  records and they all have one group-version-kind. (The records of the other handles
  are not looked at.)
\<close>

theorem watch_checks_first_target_only:
  assumes "Infos (WatchResult first) = Inr infos"
  shows "(multipleGVKsRequested
            (map (\<lambda>info. \<lparr>Cluster = WatchCluster first, IsControlPlane = False, Info = info\<rparr>)
               infos) \<longrightarrow>
          watch g u pc (first # others) =
            SetupFailed (Error (''watch is only supported on individual resources '' @
              ''and resource collections - more than 1 resource was found''))) \<and>
         (watch g u pc (first # others) = Subscribed out loops \<longrightarrow>
            infos \<noteq> [] \<and>
            (\<forall>info \<in> set infos. MappingGVK (Mapping info) = MappingGVK (Mapping (hd infos))))"
proof -
  let ?mk = "\<lambda>info. \<lparr>Cluster = WatchCluster first, IsControlPlane = False, Info = info\<rparr>"
  have one: "watch g u pc (first # others) =
            SetupFailed (Error (''watch is only supported on individual resources '' @
              ''and resource collections - more than 1 resource was found''))"
    if "multipleGVKsRequested (map ?mk infos)"
    using that by (simp only: watch_Cons[OF assms] if_True)
  have two: "infos \<noteq> [] \<and>
            (\<forall>info \<in> set infos. MappingGVK (Mapping info) = MappingGVK (Mapping (hd infos)))"
    if w: "watch g u pc (first # others) = Subscribed out loops"
  proof -
    have m: "\<not> multipleGVKsRequested (map ?mk infos)"
    proof
      assume "multipleGVKsRequested (map ?mk infos)"
      from one[OF this] w show False by simp
    qed
    have ne: "infos \<noteq> []"
    proof
      assume e: "infos = []"
      have "watch g u pc (first # others) = SetupPanicked ''index out of range [0] with length 0''"
        using m unfolding watch_Cons[OF assms] e by (simp only: if_False list.case)
      with w show False by (simp only: WatchOutcome.distinct)
    qed
    then obtain info rest where i: "infos = info # rest" by (cases infos) auto
    have same: "MappingGVK (Mapping info') = MappingGVK (Mapping info)"
      if "info' \<in> set infos" for info'
    proof -
      from that have "?mk info' \<in> set (?mk info # map ?mk rest)" unfolding i by auto
      from multipleGVKsRequested_same[OF m[unfolded i list.map] this] show ?thesis by simp
    qed
    have first: "hd infos = info" unfolding i by simp
    show ?thesis unfolding first using ne same by blast
  qed
  from one two show ?thesis by blast
qed


theorem watch_checks_first_target_only_witness:
  "Infos (WatchResult (handle ''member1'' mixedResult)) =
     Inr [oneRowInfo podsMapping ''nginx'' (Decoded []),
          oneRowInfo servicesMapping ''kubernetes'' (Decoded [])] \<and>
   watch (exampleOptions\<lparr>Watch := True\<rparr>) exampleExternals podColumns
     [handle ''member1'' mixedResult,
      handle ''member2'' (oneRowResult podsMapping ''web'' (Decoded []))]
   = SetupFailed (Error (''watch is only supported on individual resources '' @
       ''and resource collections - more than 1 resource was found'')) \<and>
   watch (exampleOptions\<lparr>Watch := True\<rparr>) exampleExternals podColumns
     [handle ''member1'' (oneRowResult podsMapping ''nginx'' (Decoded []))]
   = Subscribed ''nginx member1 1/1 N ; ''
       [LoopEnded [] (Error ''watch closed before UntilWithoutRetry timeout'')]"
  using watch_checks_first_target_only[where first = "handle ''member1'' mixedResult"
      and infos = "[oneRowInfo podsMapping ''nginx'' (Decoded []),
        oneRowInfo servicesMapping ''kubernetes'' (Decoded [])]"
      and g = "exampleOptions\<lparr>Watch := True\<rparr>" and u = exampleExternals and pc = podColumns
      and others = "[handle ''member2'' (oneRowResult podsMapping ''web'' (Decoded []))]"]
    watch_checks_first_target_only[where
      first = "handle ''member1'' (oneRowResult podsMapping ''nginx'' (Decoded []))"
      and infos = "[oneRowInfo podsMapping ''nginx'' (Decoded [])]"
      and g = "exampleOptions\<lparr>Watch := True\<rparr>" and u = exampleExternals and pc = podColumns
      and others = "[]" and out = "''nginx member1 1/1 N ; ''"
      and loops = "[LoopEnded [] (Error ''watch closed before UntilWithoutRetry timeout'')]"]
  by (simp add: handle_def mixedResult_def example_defs table_defs watch_defs)

lemma processPanics_Subscribed:
  "TargetPanicked p \<in> set loops \<Longrightarrow> processPanics (Subscribed out loops)"
  unfolding processPanics_def list_ex_iff by (simp, rule bexI[of _ "TargetPanicked p"]) simp_all


text \<open>
  C4, as the claim states it: the failure of one target's stream is recorded in the
  error set and the process does not crash. Here the watch of \<open>member2\<close> cannot be
  opened. Its goroutine panics, which ends the process and with it the loop of
  \<open>member1\<close>; no error is returned or recorded.
\<close>

theorem watch_establishment_failure_counterexample:
  "Run (memberOptions\<lparr>Watch := True\<rparr>) exampleExternals
     (twoMembers (healthy (oneRowResult podsMapping ''nginx'' (Decoded [])))
        (Inr (healthy refusedResult))) podColumns [0, 1]
   = Watched (Subscribed ''nginx member1 1/1 N ; web member2 1/1 N ; ''
       [LoopEnded [] (Error ''watch closed before UntilWithoutRetry timeout''),
        TargetPanicked ''connection refused'']) \<and>
   processPanics (Subscribed ''nginx member1 1/1 N ; web member2 1/1 N ; ''
       [LoopEnded [] (Error ''watch closed before UntilWithoutRetry timeout''),
        TargetPanicked ''connection refused''])"
  by (simp add: memberOptions_def twoMembers_def refusedResult_def example_defs collect_defs
      table_defs watch_defs processPanics_def)

lemma watch_current_objects:
  "watch_current g u printer outputObjects mapping idx watchObjs st = Ok st' \<Longrightarrow>
   \<forall>w \<in> set watchObjs. \<exists>obj. ResultObject (WatchResult w) = Inr obj"
proof (induction watchObjs arbitrary: idx st)
  case Nil
  then show ?case by simp
next
  case (Cons w later)
  from Cons.prems obtain obj st1 where
    o: "ResultObject (WatchResult w) = Inr obj" and
    l: "watch_current g u printer outputObjects mapping (Suc idx) later st1 = Ok st'"
    by (auto split: sum.splits outcome.splits)
  from Cons.IH[OF l] o show ?case by simp
qed

text \<open>When \<^verbatim>\<open>watch\<close> starts the subscriptions, it has read the object of every target.\<close>

lemma watch_Subscribed:
  assumes "watch g u pc watchObjs = Subscribed out loops"
  shows "\<exists>printer mapping pc'.
           watch_current g u printer (\<not> WatchOnly g) mapping 0 watchObjs ([], pc) = Ok (out, pc') \<and>
           loops = watchMultiClusterObj g u pc' printer mapping watchObjs"
proof (cases watchObjs)
  case Nil
  with assms show ?thesis by (simp add: watch_def)
next
  case (Cons first others)
  show ?thesis
  proof (cases "Infos (WatchResult first)")
    case (Inl err)
    with assms Cons show ?thesis by (simp add: watch_def)
  next
    case (Inr infos)
    note w = assms[unfolded Cons watch_Cons[OF Inr]]
    show ?thesis
    proof (cases "multipleGVKsRequested
        (map (\<lambda>info. \<lparr>Cluster = WatchCluster first, IsControlPlane = False, Info = info\<rparr>)
           infos)")
      case True
      with w show ?thesis by simp
    next
      case False
      show ?thesis
      proof (cases infos)
        case Nil
        with w False show ?thesis by simp
      next
        case (Cons info rest)
        show ?thesis
        proof (cases "ToPrinter g (Some (Mapping info)) (Some (\<not> WatchOnly g)) (AllNamespaces g)
                        False")
          case (Inl err)
          with w False Cons show ?thesis by simp
        next
          case (Inr printer)
          show ?thesis
          proof (cases "watch_current g u printer (\<not> WatchOnly g) (Mapping info) 0
                          (first # others) ([], pc)")
            case (Ok res)
            obtain out1 pc1 where res: "res = (out1, pc1)" by (cases res)
            from w False Cons Inr Ok res
            have "out = out1"
              "loops = watchMultiClusterObj g u pc1 printer (Mapping info) (first # others)"
              by simp_all
            with Ok res \<open>watchObjs = first # others\<close> show ?thesis by blast
          next
            case (Failed err)
            with w False Cons Inr show ?thesis by simp
          next
            case (Panicked p)
            with w False Cons Inr show ?thesis by simp
          qed
        qed
      qed
    qed
  qed
qed

text \<open>
  C4, amended. When the object of a target cannot be read, \<^verbatim>\<open>watch\<close> ends before
  any subscription is started. Once the subscriptions are started, when the watch of one
  target cannot be established (reading the resource version of a list or opening the
  watch returns an error), the goroutine of that target panics with the error, and the
  process ends with a panic. When the handling of an event returns an error (the row
  cannot be rebuilt, the table cannot be converted, or the printer fails), the loop of
  that target ends there, with the bytes it printed before, later events are not
  handled, and the error is dropped. In none of these cases is anything written to an
  error list.
\<close>

theorem watch_setup_failure_panics:
  "(watch g u pc watchObjs = Subscribed out loops \<and> i < length watchObjs \<and>
    watch_establish (watchObjs ! i) = Inl err \<longrightarrow>
      loops ! i = TargetPanicked (errorText err) \<and> processPanics (Subscribed out loops)) \<and>
   (watchObj \<in> set watchObjs \<and> ResultObject (WatchResult watchObj) = Inl err \<longrightarrow>
      watch g u pc watchObjs \<noteq> Subscribed out loops) \<and>
   (reconstructObj g u pc (EventObject e) (Some mapping) cluster (EventType e) = Failed err \<or>
    reconstructObj g u pc (EventObject e) (Some mapping) cluster (EventType e) = Ok (objrow, pc') \<and>
      ToUnstructured u (objrow\<lparr>ColumnDefinitions := []\<rparr>) = Some err \<or>
    reconstructObj g u pc (EventObject e) (Some mapping) cluster (EventType e) = Ok (objrow, pc') \<and>
      ToUnstructured u (objrow\<lparr>ColumnDefinitions := []\<rparr>) = None \<and>
      snd (printer outputObjects (objrow\<lparr>ColumnDefinitions := []\<rparr>)) = Some err \<longrightarrow>
      watch_events g u pc printer mapping cluster (e # later) (bytes, outputObjects) =
        LoopEnded bytes err)"
proof (intro conjI impI)
  assume a: "watch g u pc watchObjs = Subscribed out loops \<and> i < length watchObjs \<and>
    watch_establish (watchObjs ! i) = Inl err"
  then obtain printer' mapping' pc1 where
    l: "loops = watchMultiClusterObj g u pc1 printer' mapping' watchObjs"
    using watch_Subscribed[of g u pc watchObjs out loops] by blast
  from a have "watch_target g u pc1 printer' mapping' (watchObjs ! i) =
      TargetPanicked (errorText err)"
    by (simp add: watch_target_def)
  with a l show p: "loops ! i = TargetPanicked (errorText err)"
    by (simp add: watchMultiClusterObj_def)
  from a l have "i < length loops" by (simp add: watchMultiClusterObj_def)
  with p have "TargetPanicked (errorText err) \<in> set loops" by (metis nth_mem)
  then show "processPanics (Subscribed out loops)" by (rule processPanics_Subscribed)
next
  assume b: "watchObj \<in> set watchObjs \<and> ResultObject (WatchResult watchObj) = Inl err"
  show "watch g u pc watchObjs \<noteq> Subscribed out loops"
  proof
    assume "watch g u pc watchObjs = Subscribed out loops"
    from watch_Subscribed[OF this] obtain printer' mapping' pc1 where
      "watch_current g u printer' (\<not> WatchOnly g) mapping' 0 watchObjs ([], pc) = Ok (out, pc1)"
      by blast
    from watch_current_objects[OF this] b show False by auto
  qed
next
  assume c: "reconstructObj g u pc (EventObject e) (Some mapping) cluster (EventType e) = Failed err \<or>
    reconstructObj g u pc (EventObject e) (Some mapping) cluster (EventType e) = Ok (objrow, pc') \<and>
      ToUnstructured u (objrow\<lparr>ColumnDefinitions := []\<rparr>) = Some err \<or>
    reconstructObj g u pc (EventObject e) (Some mapping) cluster (EventType e) = Ok (objrow, pc') \<and>
      ToUnstructured u (objrow\<lparr>ColumnDefinitions := []\<rparr>) = None \<and>
      snd (printer outputObjects (objrow\<lparr>ColumnDefinitions := []\<rparr>)) = Some err"
  then show "watch_events g u pc printer mapping cluster (e # later) (bytes, outputObjects) =
        LoopEnded bytes err"
  proof (elim disjE conjE)
    assume "reconstructObj g u pc (EventObject e) (Some mapping) cluster (EventType e) = Failed err"
    then show ?thesis by simp
  next
    assume "reconstructObj g u pc (EventObject e) (Some mapping) cluster (EventType e) = Ok (objrow, pc')"
      "ToUnstructured u (objrow\<lparr>ColumnDefinitions := []\<rparr>) = Some err"
    then show ?thesis by simp
  next
    assume r: "reconstructObj g u pc (EventObject e) (Some mapping) cluster (EventType e) = Ok (objrow, pc')"
      and t: "ToUnstructured u (objrow\<lparr>ColumnDefinitions := []\<rparr>) = None"
      and p: "snd (printer outputObjects (objrow\<lparr>ColumnDefinitions := []\<rparr>)) = Some err"
    obtain b where "printer outputObjects (objrow\<lparr>ColumnDefinitions := []\<rparr>) = (b, Some err)"
      using p by (cases "printer outputObjects (objrow\<lparr>ColumnDefinitions := []\<rparr>)") simp
    with r t show ?thesis by simp
  qed
qed

theorem watch_setup_failure_panics_witness:
  "watch (exampleOptions\<lparr>Watch := True\<rparr>) exampleExternals podColumns
     [handle ''member1'' (oneRowResult podsMapping ''nginx'' (Decoded [])),
      handle ''member2'' refusedResult]
   = Subscribed ''nginx member1 1/1 N ; web member2 1/1 N ; ''
       [LoopEnded [] (Error ''watch closed before UntilWithoutRetry timeout''),
        TargetPanicked ''connection refused''] \<and>
   watch_establish (handle ''member2'' refusedResult) = Inl (Error ''connection refused'') \<and>
   processPanics
     (Subscribed ''nginx member1 1/1 N ; web member2 1/1 N ; ''
        [LoopEnded [] (Error ''watch closed before UntilWithoutRetry timeout''),
         TargetPanicked ''connection refused'']) \<and>
   ResultObject (WatchResult (handle ''member2'' unreadableResult))
   = Inl (Error ''the server could not find the requested resource'') \<and>
   watch (exampleOptions\<lparr>Watch := True\<rparr>) exampleExternals podColumns
     [handle ''member1'' (oneRowResult podsMapping ''nginx'' (Decoded [])),
      handle ''member2'' unreadableResult]
   = SetupFailed (Error ''the server could not find the requested resource'') \<and>
   reconstructObj exampleOptions exampleExternals podColumns Typed (Some podsMapping) ''member1''
     ''ERROR''
   = Failed (Error ''attempt to decode non-Unstructured object'') \<and>
   watch_events exampleOptions exampleExternals podColumns cellsPrinter podsMapping ''member1''
     [\<lparr>EventType = ''ERROR'', EventObject = Typed\<rparr>,
      \<lparr>EventType = ''ADDED'',
       EventObject = Unstructured (Inr (oneRowTable ''nginx'' (Decoded [])))\<rparr>]
     (''nginx '', True)
   = LoopEnded ''nginx '' (Error ''attempt to decode non-Unstructured object'') \<and>
   watch_events exampleOptions exampleExternals podColumns failingPrinter podsMapping ''member1''
     [\<lparr>EventType = ''MODIFIED'',
       EventObject = Unstructured (Inr (oneRowTable ''nginx'' (Decoded [])))\<rparr>,
      \<lparr>EventType = ''DELETED'',
       EventObject = Unstructured (Inr (oneRowTable ''nginx'' (Decoded [])))\<rparr>]
     (''nginx '', True)
   = LoopEnded ''nginx '' (Error ''broken pipe'') \<and>
   watch_events exampleOptions
     (exampleExternals\<lparr>ToUnstructured := (\<lambda>table. Some (Error ''cannot convert''))\<rparr>)
     podColumns cellsPrinter podsMapping ''member1''
     [\<lparr>EventType = ''MODIFIED'',
       EventObject = Unstructured (Inr (oneRowTable ''nginx'' (Decoded [])))\<rparr>]
     (''nginx '', True)
   = LoopEnded ''nginx '' (Error ''cannot convert'')"
  using watch_setup_failure_panics[where g = "exampleOptions\<lparr>Watch := True\<rparr>"
      and u = exampleExternals and pc = podColumns
      and watchObjs = "[handle ''member1'' (oneRowResult podsMapping ''nginx'' (Decoded [])),
        handle ''member2'' refusedResult]"
      and out = "''nginx member1 1/1 N ; web member2 1/1 N ; ''"
      and loops = "[LoopEnded [] (Error ''watch closed before UntilWithoutRetry timeout''),
        TargetPanicked ''connection refused'']"
      and i = 1 and err = "Error ''connection refused''"]
    watch_setup_failure_panics[where g = "exampleOptions\<lparr>Watch := True\<rparr>"
      and u = exampleExternals and pc = podColumns
      and watchObjs = "[handle ''member1'' (oneRowResult podsMapping ''nginx'' (Decoded [])),
        handle ''member2'' unreadableResult]"
      and watchObj = "handle ''member2'' unreadableResult"
      and err = "Error ''the server could not find the requested resource''"]
    watch_setup_failure_panics[where
      err = "Error ''attempt to decode non-Unstructured object''" and g = exampleOptions
      and u = exampleExternals and pc = podColumns and printer = cellsPrinter
      and mapping = podsMapping
      and e = "\<lparr>EventType = ''ERROR'', EventObject = Typed\<rparr>" and cluster = "''member1''"
      and later = "[\<lparr>EventType = ''ADDED'',
         EventObject = Unstructured (Inr (oneRowTable ''nginx'' (Decoded [])))\<rparr>]"
      and bytes = "''nginx ''" and outputObjects = True]
  by (simp add: handle_def refusedResult_def unreadableResult_def failingPrinter_def
      example_defs table_defs watch_defs processPanics_def)

subsection \<open>Fan-out\<close>

lemma memberFactories_nth:
  "memberFactories f cs = Inr fs \<Longrightarrow>
   length fs = length cs \<and> (\<forall>i < length cs. FactoryForMemberCluster f (cs ! i) = Inr (fs ! i))"
proof (induction cs arbitrary: fs)
  case Nil
  then show ?case by simp
next
  case (Cons c cs)
  from Cons.prems obtain m ms where
    m: "FactoryForMemberCluster f c = Inr m" and ms: "memberFactories f cs = Inr ms"
    and fs: "fs = m # ms"
    by (auto split: sum.splits prod.splits)
  from Cons.IH[OF ms] m fs show ?case
    by (auto simp: nth_Cons split: nat.splits)
qed

lemma memberFactories_failed:
  "memberFactories f cs = Inl (err, started) \<Longrightarrow>
   length started < length cs \<and>
   FactoryForMemberCluster f (cs ! length started) = Inl err \<and>
   (\<forall>i < length started. FactoryForMemberCluster f (cs ! i) = Inr (started ! i))"
proof (induction cs arbitrary: started)
  case Nil
  then show ?case by simp
next
  case (Cons c cs)
  show ?case
  proof (cases "FactoryForMemberCluster f c")
    case (Inl e)
    with Cons.prems show ?thesis by simp
  next
    case (Inr m)
    with Cons.prems obtain ms where
      ms: "memberFactories f cs = Inl (err, ms)" and st: "started = m # ms"
      by (auto split: sum.splits prod.splits)
    from Cons.IH[OF ms] Inr st show ?thesis
      by (auto simp: nth_Cons split: nat.splits)
  qed
qed

lemma take_length_append: "take (length xs) (xs @ ys) = xs"
  by simp

lemma taggedWith_prefix: "taggedWith cluster (Error ((''cluster('' @ cluster @ '')'') @ rest))"
  unfolding taggedWith_def errorText.simps by (rule take_length_append)

lemma taggedWith_inaccessible: "taggedWith cluster (inaccessible cluster)"
proof -
  have "inaccessible cluster =
        Error ((''cluster('' @ cluster @ '')'') @
               '' is inaccessible, please check authorization or network'')"
    by (simp add: inaccessible_def)
  then show ?thesis by (simp only: taggedWith_prefix)
qed

lemma taggedWith_clusterError: "taggedWith cluster (clusterError cluster err)"
proof -
  have "clusterError cluster err =
        Error ((''cluster('' @ cluster @ '')'') @ '': '' @ errorText err)"
    by (simp add: clusterError_def)
  then show ?thesis by (simp only: taggedWith_prefix)
qed

text \<open>The operations of one call of \<^verbatim>\<open>getObjInfo\<close>, path by path.\<close>

lemma getObjInfo_ops_cases:
  obtains (untagged) err where "RESTClient fac = Some err"
      "getObjInfo_ops g fac cluster cp = [AppendErr err]"
  | (tagged) err where "RESTClient fac = None" "taggedWith cluster err"
      "getObjInfo_ops g fac cluster cp = [AppendErr err]"
  | (printed) bytes where "RESTClient fac = None" "\<not> IsHumanReadablePrinter g"
      "\<not> Watch g" "\<not> WatchOnly g"
      "getObjInfo_ops g fac cluster cp = [WriteOut bytes]"
  | (failed) bytes err where "RESTClient fac = None" "\<not> IsHumanReadablePrinter g"
      "\<not> Watch g" "\<not> WatchOnly g" "taggedWith cluster err"
      "getObjInfo_ops g fac cluster cp = [WriteOut bytes, AppendErr err]"
  | (handle) "RESTClient fac = None"
      "getObjInfo_ops g fac cluster cp =
         [AddWatchObj \<lparr>WatchCluster = cluster, WatchResult = BuilderDo fac\<rparr>]"
  | (records) infos where "RESTClient fac = None" "Infos (BuilderDo fac) = Inr infos"
      "getObjInfo_ops g fac cluster cp =
         [AddObjs (map (\<lambda>info. \<lparr>Cluster = cluster, IsControlPlane = cp, Info = info\<rparr>) infos)]"
proof (cases "RESTClient fac")
  case (Some err)
  then show ?thesis by (intro untagged[of err]) (simp_all add: getObjInfo_ops_def)
next
  case None
  show ?thesis
  proof (cases "\<not> cp \<and> ProxyProbe fac cluster \<noteq> None")
    case True
    with None show ?thesis
      by (intro tagged[of "inaccessible cluster"])
         (simp_all add: getObjInfo_ops_def taggedWith_inaccessible)
  next
    case probe: False
    show ?thesis
    proof (cases "Err (BuilderDo fac)")
      case (Some err)
      with None probe show ?thesis
        by (intro tagged[of "clusterError cluster err"])
           (auto simp: getObjInfo_ops_def taggedWith_clusterError)
    next
      case noErr: None
      show ?thesis
      proof (cases "Watch g \<or> WatchOnly g")
        case True
        with None probe noErr show ?thesis
          by (intro handle) (auto simp: getObjInfo_ops_def)
      next
        case noWatch: False
        show ?thesis
        proof (cases "IsHumanReadablePrinter g")
          case False
          obtain bytes eo where pg: "PrintGeneric (BuilderDo fac) = (bytes, eo)"
            by (cases "PrintGeneric (BuilderDo fac)")
          show ?thesis
          proof (cases eo)
            case eoNone: None
            with None probe noErr noWatch False pg show ?thesis
              by (intro printed[of bytes]) (auto simp: getObjInfo_ops_def)
          next
            case (Some err)
            with None probe noErr noWatch False pg show ?thesis
              by (intro failed[of "clusterError cluster err" bytes])
                 (auto simp: getObjInfo_ops_def taggedWith_clusterError)
          qed
        next
          case True
          show ?thesis
          proof (cases "Infos (BuilderDo fac)")
            case (Inl err)
            with None probe noErr noWatch True show ?thesis
              by (intro tagged[of "clusterError cluster err"])
                 (auto simp: getObjInfo_ops_def taggedWith_clusterError)
          next
            case (Inr infos)
            with None probe noErr noWatch True show ?thesis
              by (intro records[of infos]) (auto simp: getObjInfo_ops_def)
          qed
        qed
      qed
    qed
  qed
qed

lemma getObjInfo_adds:
  "\<exists>E B. cAllErrs (getObjInfo g fac cluster cp st) = cAllErrs st @ E \<and>
         cObjs (getObjInfo g fac cluster cp st) = cObjs st @ B \<and> length E \<le> 1 \<and>
         (RESTClient fac = None \<longrightarrow> (\<forall>e \<in> set E. taggedWith cluster e))"
proof (cases rule: getObjInfo_ops_cases[of fac g cluster cp])
  case (untagged err)
  then show ?thesis by (intro exI[of _ "[err]"] exI[of _ "[]"]) (simp add: getObjInfo_def)
next
  case (tagged err)
  then show ?thesis by (intro exI[of _ "[err]"] exI[of _ "[]"]) (simp add: getObjInfo_def)
next
  case (printed bytes)
  then show ?thesis by (intro exI[of _ "[]"]) (simp add: getObjInfo_def)
next
  case (failed bytes err)
  then show ?thesis by (intro exI[of _ "[err]"] exI[of _ "[]"]) (simp add: getObjInfo_def)
next
  case handle
  then show ?thesis by (intro exI[of _ "[]"]) (simp add: getObjInfo_def)
next
  case (records infos)
  then show ?thesis
    by (intro exI[of _ "[]"]
          exI[of _ "map (\<lambda>info. \<lparr>Cluster = cluster, IsControlPlane = cp, Info = info\<rparr>) infos"])
       (simp add: getObjInfo_def)
qed

lemma getObjInfo_ops_weight: "weight (getObjInfo_ops g fac cluster cp) \<le> 3"
  by (cases rule: getObjInfo_ops_cases[of fac g cluster cp]) simp_all

lemma getObjInfo_ops_quiet:
  "IsHumanReadablePrinter g \<or> Watch g \<or> WatchOnly g \<Longrightarrow>
   WriteOut bytes \<notin> set (getObjInfo_ops g fac cluster cp)"
  by (cases rule: getObjInfo_ops_cases[of fac g cluster cp]) auto

text \<open>The four kinds of step.\<close>

lemma taskStep_cases:
  obtains (idle) "taskStep s idx = s"
      "idx < length (fTasks s) \<Longrightarrow> tOps (fTasks s ! idx) = []"
  | (read) err rest where "idx < length (fTasks s)"
      "tOps (fTasks s ! idx) = AppendErr err # rest" "tLoaded (fTasks s ! idx) = None"
      "fTasks (taskStep s idx) =
         (fTasks s)[idx := \<lparr>tOps = AppendErr err # rest,
                             tLoaded = Some (cAllErrs (fShared s))\<rparr>]"
      "fShared (taskStep s idx) = fShared s"
  | (store) err rest slice where "idx < length (fTasks s)"
      "tOps (fTasks s ! idx) = AppendErr err # rest" "tLoaded (fTasks s ! idx) = Some slice"
      "fTasks (taskStep s idx) = (fTasks s)[idx := \<lparr>tOps = rest, tLoaded = None\<rparr>]"
      "fShared (taskStep s idx) = (fShared s)\<lparr>cAllErrs := slice @ [err]\<rparr>"
  | (other) op rest where "idx < length (fTasks s)"
      "tOps (fTasks s ! idx) = op # rest" "\<not> appending (op # rest)"
      "fTasks (taskStep s idx) =
         (fTasks s)[idx := \<lparr>tOps = rest, tLoaded = tLoaded (fTasks s ! idx)\<rparr>]"
      "fShared (taskStep s idx) = perform op (fShared s)"
      "cAllErrs (perform op (fShared s)) = cAllErrs (fShared s)"
proof (cases "idx < length (fTasks s)")
  case False
  then show ?thesis by (intro idle) (simp_all add: taskStep_def)
next
  case True
  show ?thesis
  proof (cases "tOps (fTasks s ! idx)")
    case Nil
    with True show ?thesis by (intro idle) (simp_all add: taskStep_def)
  next
    case (Cons op rest)
    show ?thesis
    proof (cases "appending (op # rest)")
      case False
      with True Cons show ?thesis
        by (intro other[of op rest]; cases op) (simp_all add: taskStep_def)
    next
      case app: True
      then obtain err where op: "op = AppendErr err" by (cases op) simp_all
      show ?thesis
      proof (cases "tLoaded (fTasks s ! idx)")
        case None
        with True Cons op show ?thesis
          by (intro read[of err rest]) (simp_all add: taskStep_def)
      next
        case (Some slice)
        with True Cons op show ?thesis
          by (intro store[of err rest slice]) (simp_all add: taskStep_def)
      qed
    qed
  qed
qed

lemma taskStep_length: "length (fTasks (taskStep s idx)) = length (fTasks s)"
  by (cases rule: taskStep_cases[of s idx]) simp_all

lemma taskStep_other_task: "j \<noteq> idx \<Longrightarrow> fTasks (taskStep s idx) ! j = fTasks s ! j"
  by (cases rule: taskStep_cases[of s idx]) simp_all

text \<open>Every goroutine comes to its end.\<close>

lemma weight_other: "\<not> appending (op # rest) \<Longrightarrow> weight (op # rest) = Suc (weight rest)"
  by (cases op) simp_all

lemma taskStep_wellLoaded:
  assumes "\<forall>t \<in> set (fTasks s). wellLoaded t"
  shows "\<forall>t \<in> set (fTasks (taskStep s idx)). wellLoaded t"
proof (cases rule: taskStep_cases[of s idx])
  case idle
  with assms show ?thesis by simp
next
  case (read err rest)
  have "wellLoaded \<lparr>tOps = AppendErr err # rest, tLoaded = Some (cAllErrs (fShared s))\<rparr>"
    by (simp add: wellLoaded_def)
  with assms read(4) set_update_subset_insert[of "fTasks s" idx] show ?thesis by auto
next
  case (store err rest slice)
  have "wellLoaded \<lparr>tOps = rest, tLoaded = None\<rparr>" by (simp add: wellLoaded_def)
  with assms store(4) set_update_subset_insert[of "fTasks s" idx] show ?thesis by auto
next
  case (other op rest)
  from assms other(1) have "wellLoaded (fTasks s ! idx)" by simp
  with other(2,3) have "tLoaded (fTasks s ! idx) = None" by (simp add: wellLoaded_def)
  then have "wellLoaded \<lparr>tOps = rest, tLoaded = tLoaded (fTasks s ! idx)\<rparr>"
    by (simp add: wellLoaded_def)
  with assms other(4) set_update_subset_insert[of "fTasks s" idx] show ?thesis by auto
qed

lemma taskStep_stepsLeft:
  assumes "j < length (fTasks s)" "wellLoaded (fTasks s ! j)"
  shows "stepsLeft (fTasks (taskStep s idx) ! j) =
           (if idx = j then stepsLeft (fTasks s ! j) - 1 else stepsLeft (fTasks s ! j))"
proof (cases "idx = j")
  case False
  then show ?thesis by (simp add: taskStep_other_task)
next
  case True
  show ?thesis
  proof (cases rule: taskStep_cases[of s idx])
    case idle
    with True assms(1) show ?thesis by (simp add: stepsLeft_def)
  next
    case (read err rest)
    with True show ?thesis by (simp add: stepsLeft_def)
  next
    case (store err rest slice)
    with True show ?thesis by (simp add: stepsLeft_def)
  next
    case (other op rest)
    with True assms(2) have "tLoaded (fTasks s ! j) = None" by (simp add: wellLoaded_def)
    with True other weight_other[OF other(3)] show ?thesis by (simp add: stepsLeft_def)
  qed
qed

lemma run_length: "length (fTasks (foldl taskStep s sched)) = length (fTasks s)"
  by (induction sched arbitrary: s) (simp_all add: taskStep_length)

lemma run_wellLoaded:
  "\<forall>t \<in> set (fTasks s). wellLoaded t \<Longrightarrow>
   \<forall>t \<in> set (fTasks (foldl taskStep s sched)). wellLoaded t"
proof (induction sched arbitrary: s)
  case Nil
  then show ?case by simp
next
  case (Cons idx sched)
  from Cons.IH[OF taskStep_wellLoaded[OF Cons.prems, of idx]] show ?case by simp
qed

lemma run_stepsLeft:
  assumes "j < length (fTasks s)" "\<forall>t \<in> set (fTasks s). wellLoaded t"
  shows "stepsLeft (fTasks (foldl taskStep s sched) ! j) =
           stepsLeft (fTasks s ! j) - count_list sched j"
  using assms
proof (induction sched arbitrary: s)
  case Nil
  then show ?case by simp
next
  case (Cons idx sched)
  let ?s1 = "taskStep s idx"
  have j1: "j < length (fTasks ?s1)" using Cons.prems(1) by (simp add: taskStep_length)
  have w1: "\<forall>t \<in> set (fTasks ?s1). wellLoaded t"
    using Cons.prems(2) by (rule taskStep_wellLoaded)
  have wj: "wellLoaded (fTasks s ! j)" using Cons.prems by simp
  from Cons.IH[OF j1 w1] taskStep_stepsLeft[OF Cons.prems(1) wj, of idx]
  show ?case by simp
qed

lemma stepsLeft_done:
  assumes "wellLoaded t" "stepsLeft t = 0"
  shows "tOps t = []"
proof (cases "tOps t")
  case Nil
  then show ?thesis .
next
  case (Cons op rest)
  show ?thesis
  proof (cases "appending (op # rest)")
    case False
    with assms(1) Cons have "tLoaded t = None" by (simp add: wellLoaded_def)
    with assms(2) Cons weight_other[OF False] show ?thesis by (simp add: stepsLeft_def)
  next
    case True
    then obtain err where "op = AppendErr err" by (cases op) simp_all
    with assms(2) Cons show ?thesis by (simp add: stepsLeft_def split: if_splits)
  qed
qed

lemma finishing_Suc: "finishing (Suc n) = finishing n @ [n, n, n]"
  by (simp add: finishing_def)

lemma count_list_finishing: "count_list (finishing n) idx = (if idx < n then 3 else 0)"
proof (induction n)
  case 0
  then show ?case by (simp add: finishing_def)
next
  case (Suc n)
  then show ?case by (auto simp: finishing_Suc)
qed

text \<open>
  After the steps of a schedule that ends with the finishing steps, every goroutine that
  had at most three steps to take has ended.
\<close>

lemma run_ends:
  assumes "\<forall>t \<in> set tasks. tLoaded t = None \<and> weight (tOps t) \<le> 3"
      and "j < length tasks" "length tasks \<le> n"
  shows "tOps (fTasks (fanout tasks (sched @ finishing n) st) ! j) = []"
proof -
  let ?init = "\<lparr>fTasks = tasks, fShared = st\<rparr>"
  let ?final = "foldl taskStep ?init (sched @ finishing n)"
  have w0: "\<forall>t \<in> set (fTasks ?init). wellLoaded t"
    using assms(1) by (simp add: wellLoaded_def)
  have j0: "j < length (fTasks ?init)" using assms(2) by simp
  have "stepsLeft (tasks ! j) \<le> 3"
    using assms(1,2) by (simp add: stepsLeft_def)
  moreover have "count_list (sched @ finishing n) j \<ge> 3"
    using assms(2,3) by (simp add: count_list_finishing)
  ultimately have z: "stepsLeft (fTasks ?final ! j) = 0"
    using run_stepsLeft[OF j0 w0, of "sched @ finishing n"] by simp
  have "j < length (fTasks ?final)" using assms(2) by (simp add: run_length)
  with run_wellLoaded[OF w0, of "sched @ finishing n"] have "wellLoaded (fTasks ?final ! j)"
    by simp
  from stepsLeft_done[OF this z] show ?thesis by (simp add: fanout_def)
qed

lemma memberTaskList_fresh:
  "\<forall>t \<in> set (memberTaskList g fs). tLoaded t = None \<and> weight (tOps t) \<le> 3"
  by (auto simp: memberTaskList_def getObjInfo_ops_weight)

lemma memberTaskList_length:
  "length (memberTaskList g fs) = min (length fs) (length (TargetMemberClusters g))"
  by (simp add: memberTaskList_def)

lemma memberTaskList_nth:
  "idx < length fs \<Longrightarrow> idx < length (TargetMemberClusters g) \<Longrightarrow>
   memberTaskList g fs ! idx =
     \<lparr>tOps = getObjInfo_ops g (fs ! idx) (TargetMemberClusters g ! idx) False, tLoaded = None\<rparr>"
  by (simp add: memberTaskList_def)

lemma set_update_all:
  assumes "\<forall>t \<in> set xs. P t" "P x"
  shows "\<forall>t \<in> set (xs[i := x]). P t"
  using assms set_update_subset_insert[of xs i x] by fastforce

text \<open>The objects of a goroutine are collected whatever the others do.\<close>

lemma taskStep_objs:
  assumes "j < length (fTasks s)"
      and "AddObjs objs \<in> set (tOps (fTasks s ! j)) \<or> set objs \<subseteq> set (cObjs (fShared s))"
  shows "AddObjs objs \<in> set (tOps (fTasks (taskStep s idx) ! j)) \<or>
         set objs \<subseteq> set (cObjs (fShared (taskStep s idx)))"
proof (cases rule: taskStep_cases[of s idx])
  case idle
  with assms(2) show ?thesis by simp
next
  case (read err rest)
  with assms show ?thesis by (cases "idx = j") auto
next
  case (store err rest slice)
  with assms show ?thesis by (cases "idx = j") auto
next
  case (other op rest)
  have mono: "set (cObjs (fShared s)) \<subseteq> set (cObjs (perform op (fShared s)))"
    by (cases op) auto
  show ?thesis
  proof (cases "idx = j")
    case False
    with other assms mono show ?thesis by auto
  next
    case True
    show ?thesis
    proof (cases "op = AddObjs objs")
      case same: True
      then have "set objs \<subseteq> set (cObjs (perform op (fShared s)))" by simp
      with other(5) show ?thesis by simp
    next
      case False
      with True other assms mono show ?thesis by auto
    qed
  qed
qed

lemma run_objs:
  assumes "j < length (fTasks s)"
      and "AddObjs objs \<in> set (tOps (fTasks s ! j)) \<or> set objs \<subseteq> set (cObjs (fShared s))"
  shows "AddObjs objs \<in> set (tOps (fTasks (foldl taskStep s sched) ! j)) \<or>
         set objs \<subseteq> set (cObjs (fShared (foldl taskStep s sched)))"
  using assms
proof (induction sched arbitrary: s)
  case Nil
  then show ?case by simp
next
  case (Cons idx sched)
  have j1: "j < length (fTasks (taskStep s idx))"
    using Cons.prems(1) by (simp add: taskStep_length)
  from Cons.IH[OF j1 taskStep_objs[OF Cons.prems, of idx]] show ?case by simp
qed

text \<open>Goroutines that have no output to make leave the output stream as it is.\<close>

lemma taskStep_out:
  assumes "\<forall>t \<in> set (fTasks s). \<forall>bytes. WriteOut bytes \<notin> set (tOps t)"
  shows "(\<forall>t \<in> set (fTasks (taskStep s idx)). \<forall>bytes. WriteOut bytes \<notin> set (tOps t)) \<and>
         cOut (fShared (taskStep s idx)) = cOut (fShared s)"
proof (cases rule: taskStep_cases[of s idx])
  case idle
  with assms show ?thesis by simp
next
  case (read err rest)
  from assms read(1) have "\<forall>bytes. WriteOut bytes \<notin> set (tOps (fTasks s ! idx))"
    using nth_mem by blast
  with read(2)
  have "\<forall>bytes. WriteOut bytes \<notin>
          set (tOps \<lparr>tOps = AppendErr err # rest, tLoaded = Some (cAllErrs (fShared s))\<rparr>)"
    by simp
  from set_update_all[OF assms this] read(4,5) show ?thesis by simp
next
  case (store err rest slice)
  from assms store(1) have "\<forall>bytes. WriteOut bytes \<notin> set (tOps (fTasks s ! idx))"
    using nth_mem by blast
  with store(2)
  have "\<forall>bytes. WriteOut bytes \<notin> set (tOps \<lparr>tOps = rest, tLoaded = None\<rparr>)"
    by simp
  from set_update_all[OF assms this] store(4,5) show ?thesis by simp
next
  case (other op rest)
  from assms other(1) have "\<forall>bytes. WriteOut bytes \<notin> set (tOps (fTasks s ! idx))"
    using nth_mem by blast
  with other(2) have n: "\<forall>bytes. WriteOut bytes \<notin> set (op # rest)" by simp
  then have out: "cOut (perform op (fShared s)) = cOut (fShared s)" by (cases op) auto
  from n
  have "\<forall>bytes. WriteOut bytes \<notin>
          set (tOps \<lparr>tOps = rest, tLoaded = tLoaded (fTasks s ! idx)\<rparr>)"
    by simp
  from set_update_all[OF assms this] other(4,5) out show ?thesis by simp
qed

lemma run_out:
  "\<forall>t \<in> set (fTasks s). \<forall>bytes. WriteOut bytes \<notin> set (tOps t) \<Longrightarrow>
   cOut (fShared (foldl taskStep s sched)) = cOut (fShared s)"
proof (induction sched arbitrary: s)
  case Nil
  then show ?case by simp
next
  case (Cons idx sched)
  from taskStep_out[OF Cons.prems, of idx] Cons.IH[of "taskStep s idx"] show ?case by simp
qed

text \<open>
  When the appends are apart, a step adds at most the error of its goroutine at the end
  of the error list, and that error is then no longer among those to append.
\<close>

lemma taskErrors_update:
  assumes "idx < length tasks"
  shows "mset (taskErrors (tasks[idx := t])) + mset (opErrors (tOps (tasks ! idx))) =
         mset (taskErrors tasks) + mset (opErrors (tOps t))"
proof -
  have a: "tasks[idx := t] = take idx tasks @ t # drop (Suc idx) tasks"
    using assms by (rule upd_conv_take_nth_drop)
  have b: "tasks = take idx tasks @ tasks ! idx # drop (Suc idx) tasks"
    using assms by (rule id_take_nth_drop)
  have "mset (taskErrors (take idx tasks @ t # drop (Suc idx) tasks)) +
          mset (opErrors (tOps (tasks ! idx))) =
        mset (taskErrors (take idx tasks @ tasks ! idx # drop (Suc idx) tasks)) +
          mset (opErrors (tOps t))"
    by (simp add: taskErrors_def)
  with a b show ?thesis by metis
qed

lemma opErrors_other: "\<not> appending (op # rest) \<Longrightarrow> opErrors (op # rest) = opErrors rest"
  by (cases op) simp_all

lemma oneAppend_quiet:
  "\<forall>k < length (fTasks s). tLoaded (fTasks s ! k) = None \<Longrightarrow> oneAppend s"
  by (simp add: oneAppend_def)

lemma taskStep_apart:
  assumes "oneAppend s"
      and "reading s idx \<longrightarrow> list_all (\<lambda>t. tLoaded t = None) (fTasks s)"
  shows "oneAppend (taskStep s idx) \<and>
         (\<exists>E. cAllErrs (fShared (taskStep s idx)) = cAllErrs (fShared s) @ E \<and>
              mset E + mset (taskErrors (fTasks (taskStep s idx))) =
                mset (taskErrors (fTasks s)))"
proof (cases rule: taskStep_cases[of s idx])
  case idle
  with assms(1) show ?thesis by simp
next
  case (read err rest)
  let ?t = "\<lparr>tOps = AppendErr err # rest, tLoaded = Some (cAllErrs (fShared s))\<rparr>"
  from read(1,2,3) assms(2) have quiet: "\<forall>k < length (fTasks s). tLoaded (fTasks s ! k) = None"
    by (simp add: reading_def list_all_length)
  have one: "oneAppend (taskStep s idx)"
    unfolding oneAppend_def read(4,5)
  proof (intro allI impI)
    fix j slice
    assume j: "j < length ((fTasks s)[idx := ?t])"
       and l: "tLoaded ((fTasks s)[idx := ?t] ! j) = Some slice"
    have ji: "j = idx"
    proof (rule ccontr)
      assume "j \<noteq> idx"
      with j l quiet show False by simp
    qed
    have others: "\<forall>k < length ((fTasks s)[idx := ?t]). k \<noteq> j \<longrightarrow>
        tLoaded ((fTasks s)[idx := ?t] ! k) = None"
      using quiet ji by simp
    from ji l read(1) have "slice = cAllErrs (fShared s)" by simp
    moreover from ji read(1) have "appending (tOps ((fTasks s)[idx := ?t] ! j))" by simp
    ultimately show "slice = cAllErrs (fShared s) \<and>
        appending (tOps ((fTasks s)[idx := ?t] ! j)) \<and>
        (\<forall>k < length ((fTasks s)[idx := ?t]). k \<noteq> j \<longrightarrow>
           tLoaded ((fTasks s)[idx := ?t] ! k) = None)"
      using others by blast
  qed
  have "mset (taskErrors (fTasks (taskStep s idx))) = mset (taskErrors (fTasks s))"
    using taskErrors_update[OF read(1), of ?t] read(2,4) by simp
  with one read(5) show ?thesis by simp
next
  case (store err rest slice)
  let ?t = "\<lparr>tOps = rest, tLoaded = None\<rparr>"
  from assms(1) store(1,3) have sl: "slice = cAllErrs (fShared s)"
    and alone: "\<forall>k < length (fTasks s). k \<noteq> idx \<longrightarrow> tLoaded (fTasks s ! k) = None"
    unfolding oneAppend_def by blast+
  have "\<forall>k < length ((fTasks s)[idx := ?t]). tLoaded ((fTasks s)[idx := ?t] ! k) = None"
    using alone store(1) by (auto simp: nth_list_update)
  then have "\<forall>k < length (fTasks (taskStep s idx)). tLoaded (fTasks (taskStep s idx) ! k) = None"
    unfolding store(4) .
  then have one: "oneAppend (taskStep s idx)" by (rule oneAppend_quiet)
  have "mset (taskErrors (fTasks (taskStep s idx))) + {#err#} = mset (taskErrors (fTasks s))"
    using taskErrors_update[OF store(1), of ?t] store(2,4) by simp
  with one store(5) sl show ?thesis by (intro conjI exI[of _ "[err]"]) simp_all
next
  case (other op rest)
  let ?t = "\<lparr>tOps = rest, tLoaded = tLoaded (fTasks s ! idx)\<rparr>"
  have un: "tLoaded (fTasks s ! idx) = None"
  proof (cases "tLoaded (fTasks s ! idx)")
    case None
    then show ?thesis .
  next
    case (Some slice)
    with assms(1) other(1) have "appending (tOps (fTasks s ! idx))"
      unfolding oneAppend_def by blast
    with other(2,3) show ?thesis by simp
  qed
  have one: "oneAppend (taskStep s idx)"
    unfolding oneAppend_def other(4,5)
  proof (intro allI impI)
    fix j slice
    assume j: "j < length ((fTasks s)[idx := ?t])"
       and l: "tLoaded ((fTasks s)[idx := ?t] ! j) = Some slice"
    have ji: "j \<noteq> idx"
    proof
      assume "j = idx"
      with j l un show False by simp
    qed
    with j l have old: "j < length (fTasks s)" "tLoaded (fTasks s ! j) = Some slice"
      by simp_all
    from assms(1)[unfolded oneAppend_def] old
    have a: "slice = cAllErrs (fShared s)" and b: "appending (tOps (fTasks s ! j))"
      and c: "\<forall>k < length (fTasks s). k \<noteq> j \<longrightarrow> tLoaded (fTasks s ! k) = None"
      by blast+
    have c': "\<forall>k < length ((fTasks s)[idx := ?t]). k \<noteq> j \<longrightarrow>
        tLoaded ((fTasks s)[idx := ?t] ! k) = None"
      using c un other(1) by (auto simp: nth_list_update)
    from a other(6) have "slice = cAllErrs (perform op (fShared s))" by simp
    moreover from b ji have "appending (tOps ((fTasks s)[idx := ?t] ! j))" by simp
    ultimately show "slice = cAllErrs (perform op (fShared s)) \<and>
        appending (tOps ((fTasks s)[idx := ?t] ! j)) \<and>
        (\<forall>k < length ((fTasks s)[idx := ?t]). k \<noteq> j \<longrightarrow>
           tLoaded ((fTasks s)[idx := ?t] ! k) = None)"
      using c' by blast
  qed
  have "mset (taskErrors (fTasks (taskStep s idx))) = mset (taskErrors (fTasks s))"
    using taskErrors_update[OF other(1), of ?t] other(2,4) opErrors_other[OF other(3)]
    by simp
  with one other(5,6) show ?thesis by simp
qed

lemma run_apart:
  assumes "oneAppend s" "appendsApart s sched"
  shows "\<exists>E. cAllErrs (fShared (foldl taskStep s sched)) = cAllErrs (fShared s) @ E \<and>
             mset E + mset (taskErrors (fTasks (foldl taskStep s sched))) =
               mset (taskErrors (fTasks s))"
  using assms
proof (induction sched arbitrary: s)
  case Nil
  then show ?case by simp
next
  case (Cons idx sched)
  let ?s1 = "taskStep s idx"
  from Cons.prems(2) have r: "reading s idx \<longrightarrow> list_all (\<lambda>t. tLoaded t = None) (fTasks s)"
    and later: "appendsApart ?s1 sched"
    by simp_all
  from taskStep_apart[OF Cons.prems(1) r] obtain E1 where
    one: "oneAppend ?s1" and e1: "cAllErrs (fShared ?s1) = cAllErrs (fShared s) @ E1"
    and m1: "mset E1 + mset (taskErrors (fTasks ?s1)) = mset (taskErrors (fTasks s))"
    by blast
  from Cons.IH[OF one later] obtain E2 where
    e2: "cAllErrs (fShared (foldl taskStep ?s1 sched)) = cAllErrs (fShared ?s1) @ E2"
    and m2: "mset E2 + mset (taskErrors (fTasks (foldl taskStep ?s1 sched))) =
             mset (taskErrors (fTasks ?s1))"
    by blast
  have "mset (E1 @ E2) + mset (taskErrors (fTasks (foldl taskStep ?s1 sched))) =
        mset (taskErrors (fTasks s))"
    using m1 m2 by (simp add: ac_simps)
  with e1 e2 show ?case by (intro exI[of _ "E1 @ E2"]) simp
qed

text \<open>The run of the members of \<^verbatim>\<open>Run\<close>.\<close>

lemma opErrors_mem: "AppendErr err \<in> set ops \<Longrightarrow> err \<in> set (opErrors ops)"
  by (induction ops rule: opErrors.induct) auto

lemma taskErrors_mem:
  assumes "idx < length tasks" "AppendErr err \<in> set (tOps (tasks ! idx))"
  shows "err \<in> set (taskErrors tasks)"
proof -
  from assms(2) have "err \<in> set (opErrors (tOps (tasks ! idx)))" by (rule opErrors_mem)
  moreover from assms(1) have "tasks ! idx \<in> set tasks" by simp
  ultimately show ?thesis unfolding taskErrors_def by auto
qed

lemma taskErrors_done:
  assumes "\<forall>j < length tasks. tOps (tasks ! j) = []"
  shows "taskErrors tasks = []"
proof -
  have "\<forall>t \<in> set tasks. tOps t = []"
    using assms by (auto simp: in_set_conv_nth)
  then show ?thesis by (simp add: taskErrors_def)
qed

lemma members_end:
  assumes "j < length (memberTaskList g fs)"
  shows "tOps (fTasks (fanout (memberTaskList g fs) (sched @ finishing (length fs)) st) ! j) = []"
proof -
  have "length (memberTaskList g fs) \<le> length fs" by (simp add: memberTaskList_length)
  from run_ends[OF memberTaskList_fresh assms this] show ?thesis .
qed

lemma members_objs:
  assumes "idx < length fs" "idx < length (TargetMemberClusters g)"
      and "getObjInfo_ops g (fs ! idx) (TargetMemberClusters g ! idx) False = [AddObjs objs]"
  shows "set objs \<subseteq> set (cObjs (memberTasks g fs sched st))"
proof -
  let ?init = "\<lparr>fTasks = memberTaskList g fs, fShared = st\<rparr>"
  let ?all = "sched @ finishing (length fs)"
  have j: "idx < length (fTasks ?init)" using assms(1,2) by (simp add: memberTaskList_length)
  have "AddObjs objs \<in> set (tOps (fTasks ?init ! idx))"
    using assms by (simp add: memberTaskList_nth)
  then have "AddObjs objs \<in> set (tOps (fTasks ?init ! idx)) \<or>
             set objs \<subseteq> set (cObjs (fShared ?init))" ..
  from run_objs[OF j this, of ?all]
  have "AddObjs objs \<in> set (tOps (fTasks (fanout (memberTaskList g fs) ?all st) ! idx)) \<or>
        set objs \<subseteq> set (cObjs (fShared (fanout (memberTaskList g fs) ?all st)))"
    by (simp add: fanout_def)
  moreover have "tOps (fTasks (fanout (memberTaskList g fs) ?all st) ! idx) = []"
    using j by (intro members_end) simp
  ultimately show ?thesis by (simp add: memberTasks_def)
qed

lemma members_errs:
  assumes "appendsApart \<lparr>fTasks = memberTaskList g fs, fShared = st\<rparr>
             (sched @ finishing (length fs))"
  shows "\<exists>E. cAllErrs (memberTasks g fs sched st) = cAllErrs st @ E \<and>
             mset E = mset (taskErrors (memberTaskList g fs))"
proof -
  let ?init = "\<lparr>fTasks = memberTaskList g fs, fShared = st\<rparr>"
  let ?all = "sched @ finishing (length fs)"
  let ?last = "fanout (memberTaskList g fs) ?all st"
  have "\<forall>k < length (fTasks ?init). tLoaded (fTasks ?init ! k) = None"
    using memberTaskList_fresh[of g fs] by simp
  then have one: "oneAppend ?init" by (rule oneAppend_quiet)
  from run_apart[OF one assms] obtain E where
    e: "cAllErrs (fShared ?last) = cAllErrs st @ E" and
    m: "mset E + mset (taskErrors (fTasks ?last)) = mset (taskErrors (memberTaskList g fs))"
    by (auto simp: fanout_def)
  have len: "length (fTasks ?last) = length (memberTaskList g fs)"
    by (simp add: fanout_def run_length)
  have "\<forall>j < length (fTasks ?last). tOps (fTasks ?last ! j) = []"
    unfolding len using members_end by blast
  then have "taskErrors (fTasks ?last) = []" by (rule taskErrors_done)
  with m have "mset E = mset (taskErrors (memberTaskList g fs))" by simp
  with e show ?thesis by (auto simp: memberTasks_def)
qed

lemma members_quiet:
  assumes "IsHumanReadablePrinter g \<or> Watch g \<or> WatchOnly g"
  shows "cOut (fShared (fanout (memberTaskList g fs) sched st)) = cOut st"
proof -
  have "\<forall>t \<in> set (memberTaskList g fs). \<forall>bytes. WriteOut bytes \<notin> set (tOps t)"
    using getObjInfo_ops_quiet[OF assms] by (auto simp: memberTaskList_def)
  then have "\<forall>t \<in> set (fTasks \<lparr>fTasks = memberTaskList g fs, fShared = st\<rparr>).
      \<forall>bytes. WriteOut bytes \<notin> set (tOps t)"
    by simp
  from run_out[OF this, of sched] show ?thesis by (simp add: fanout_def)
qed

lemma Run_first_quiet:
  assumes "IsHumanReadablePrinter g \<or> Watch g \<or> WatchOnly g"
  shows "cOut (Run_first g f) = []"
proof -
  have "cOut (getObjInfo g fac cluster cp st) = cOut st" for fac cluster cp st
    using assms
    by (cases rule: getObjInfo_ops_cases[of fac g cluster cp]) (auto simp: getObjInfo_def)
  then show ?thesis by (simp add: Run_first_def Let_def)
qed

lemma getObjInfo_ops_tagged:
  "RESTClient fac = None \<Longrightarrow> AppendErr err \<in> set (getObjInfo_ops g fac cluster cp) \<Longrightarrow>
   taggedWith cluster err"
  by (cases rule: getObjInfo_ops_cases[of fac g cluster cp]) auto

lemma Run_collect_members:
  assumes "memberFactories f (TargetMemberClusters g) = Inr fs" "TargetMemberClusters g \<noteq> []"
  shows "Run_collect g f sched = Inr (memberTasks g fs sched (Run_first g f))"
  using assms by (simp add: Run_collect_def Let_def)

lemma Run_collect_failed:
  assumes "memberFactories f (TargetMemberClusters g) = Inl (err, started)"
      and "TargetMemberClusters g \<noteq> []"
  shows "Run_collect g f sched =
           Inl (err, fShared (fanout (memberTaskList g started) sched (Run_first g f)))"
  using assms by (simp add: Run_collect_def Let_def)

text \<open>What the run of the members leaves of the target at one position.\<close>

lemma members_target:
  assumes mf: "memberFactories f (TargetMemberClusters g) = Inr fs"
      and idx: "idx < length (TargetMemberClusters g)"
  shows "FactoryForMemberCluster f (TargetMemberClusters g ! idx) = Inr (fs ! idx)"
    and "membersApart g f fs sched \<Longrightarrow>
         AppendErr e \<in> set (getObjInfo_ops g (fs ! idx) (TargetMemberClusters g ! idx) False) \<Longrightarrow>
         e \<in> set (cAllErrs (memberTasks g fs sched (Run_first g f)))"
    and "getObjInfo_ops g (fs ! idx) (TargetMemberClusters g ! idx) False = [AddObjs objs] \<Longrightarrow>
         set objs \<subseteq> set (cObjs (memberTasks g fs sched (Run_first g f)))"
proof -
  let ?c = "TargetMemberClusters g ! idx"
  show "FactoryForMemberCluster f ?c = Inr (fs ! idx)"
    using memberFactories_nth[OF mf] idx by blast
  have len: "idx < length fs" using memberFactories_nth[OF mf] idx by simp
  show "e \<in> set (cAllErrs (memberTasks g fs sched (Run_first g f)))"
    if apart: "membersApart g f fs sched"
      and op: "AppendErr e \<in> set (getObjInfo_ops g (fs ! idx) ?c False)"
  proof -
    from members_errs[OF apart[unfolded membersApart_def]] obtain E where
      e: "cAllErrs (memberTasks g fs sched (Run_first g f)) = cAllErrs (Run_first g f) @ E"
      and m: "mset E = mset (taskErrors (memberTaskList g fs))"
      by blast
    have "idx < length (memberTaskList g fs)" using len idx by (simp add: memberTaskList_length)
    moreover have "AppendErr e \<in> set (tOps (memberTaskList g fs ! idx))"
      using op len idx by (simp add: memberTaskList_nth)
    ultimately have "e \<in> set (taskErrors (memberTaskList g fs))" by (rule taskErrors_mem)
    then have "e \<in># mset E" unfolding m by simp
    then have "e \<in> set E" by simp
    with e show ?thesis by simp
  qed
  show "set objs \<subseteq> set (cObjs (memberTasks g fs sched (Run_first g f)))"
    if "getObjInfo_ops g (fs ! idx) ?c False = [AddObjs objs]"
    using len idx that by (rule members_objs)
qed

text \<open>
  Two goroutines whose appends overlap: both read the error list before either stores,
  and the store of the second drops the error of the first. When the appends are made
  one after the other, both errors are kept.
\<close>

lemma overlapping_appends_lose_an_error:
  "\<not> membersApart memberOptions
       (twoMembers (unreachable (healthy emptyResult)) (Inr (unreachable (healthy emptyResult))))
       [unreachable (healthy emptyResult), unreachable (healthy emptyResult)] [0, 1, 0, 1] \<and>
   Run_collect memberOptions
     (twoMembers (unreachable (healthy emptyResult)) (Inr (unreachable (healthy emptyResult))))
     [0, 1, 0, 1]
   = Inr \<lparr>cObjs = [], cWatchObjs = [], cAllErrs = [inaccessible ''member2''], cOut = []\<rparr> \<and>
   Run_collect memberOptions
     (twoMembers (unreachable (healthy emptyResult)) (Inr (unreachable (healthy emptyResult))))
     [0, 0, 1, 1]
   = Inr \<lparr>cObjs = [], cWatchObjs = [],
          cAllErrs = [inaccessible ''member1'', inaccessible ''member2''], cOut = []\<rparr>"
  by (simp add: memberOptions_def twoMembers_def unreachable_def emptyResult_def example_defs
      collect_defs membersApart_def reading_def)

text \<open>
  C6, as the claim states it: no failure of one target aborts the tasks of the others,
  and the run returns what the healthy targets gave. Here two members are targets and
  \<open>member1\<close> holds a pod. In the first run the factory of \<open>member2\<close> cannot be made:
  \<^verbatim>\<open>Run\<close> returns that error at once, after the goroutine of \<open>member1\<close> has
  collected its pod, and the pod is not printed. In the second run the factory can be
  made, and the pod is printed.
\<close>

theorem factory_failure_aborts_run_counterexample:
  "Run memberOptions exampleExternals
     (twoMembers (healthy (oneRowResult podsMapping ''nginx'' (Decoded [])))
        (Inl (Error ''no such cluster''))) podColumns [0, 1]
   = Done \<lparr>Returned = [Error ''no such cluster''], Out = [], ErrOut = []\<rparr> \<and>
   Run memberOptions exampleExternals
     (twoMembers (healthy (oneRowResult podsMapping ''nginx'' (Decoded [])))
        (Inr (healthy emptyResult))) podColumns [0, 1]
   = Done \<lparr>Returned = [], Out = ''nginx member1 1/1 N ; '', ErrOut = []\<rparr>"
  by (simp add: memberOptions_def twoMembers_def emptyResult_def example_defs
      collect_defs table_defs print_defs)

text \<open>
  C6, amended. When the factory of every member can be made, the goroutines of all
  targets run to their end, in whatever order they take their steps. For the target at
  any position of the member list whose REST client can be made: in list mode with a
  table printer the records of a healthy target are all collected, under every schedule;
  and, when the appends to the error list are apart, every error of the target is in the
  error list and starts with \<open>cluster(name)\<close>, a failed probe giving
  \<open>cluster(name) is inaccessible\<close> and a failed query \<open>cluster(name): \<close> followed by
  the query's error. When the factory of a member cannot be made, it is that of the
  first such member of the list, and \<^verbatim>\<open>Run\<close> returns its error alone, at once:
  nothing is rendered, and the output holds only what the calls of \<^verbatim>\<open>getObjInfo\<close>
  wrote themselves, which is nothing with the table printer and in watch mode.
\<close>

theorem fanout_keeps_other_targets:
  "(memberFactories f (TargetMemberClusters g) = Inr fs \<and>
    idx < length (TargetMemberClusters g) \<longrightarrow>
      (\<exists>st. Run_collect g f sched = Inr st \<and>
         FactoryForMemberCluster f (TargetMemberClusters g ! idx) = Inr (fs ! idx) \<and>
         (membersApart g f fs sched \<and> RESTClient (fs ! idx) = None \<and>
          AppendErr e \<in> set (getObjInfo_ops g (fs ! idx) (TargetMemberClusters g ! idx) False) \<longrightarrow>
            e \<in> set (cAllErrs st) \<and> taggedWith (TargetMemberClusters g ! idx) e) \<and>
         (membersApart g f fs sched \<and> RESTClient (fs ! idx) = None \<and>
          ProxyProbe (fs ! idx) (TargetMemberClusters g ! idx) \<noteq> None \<longrightarrow>
            inaccessible (TargetMemberClusters g ! idx) \<in> set (cAllErrs st)) \<and>
         (membersApart g f fs sched \<and> RESTClient (fs ! idx) = None \<and>
          ProxyProbe (fs ! idx) (TargetMemberClusters g ! idx) = None \<and>
          Err (BuilderDo (fs ! idx)) = Some err \<longrightarrow>
            clusterError (TargetMemberClusters g ! idx) err \<in> set (cAllErrs st)) \<and>
         (\<not> Watch g \<and> \<not> WatchOnly g \<and> IsHumanReadablePrinter g \<and>
          RESTClient (fs ! idx) = None \<and>
          ProxyProbe (fs ! idx) (TargetMemberClusters g ! idx) = None \<and>
          Err (BuilderDo (fs ! idx)) = None \<and> Infos (BuilderDo (fs ! idx)) = Inr infos \<longrightarrow>
            (\<forall>info \<in> set infos.
               \<lparr>Cluster = TargetMemberClusters g ! idx, IsControlPlane = False, Info = info\<rparr>
                 \<in> set (cObjs st))))) \<and>
   (TargetMemberClusters g \<noteq> [] \<and>
    memberFactories f (TargetMemberClusters g) = Inl (failure, started) \<longrightarrow>
      FactoryForMemberCluster f (TargetMemberClusters g ! length started) = Inl failure \<and>
      (\<exists>st. Run_collect g f sched = Inl (failure, st) \<and>
         Run g u f pc sched = Done \<lparr>Returned = [failure], Out = cOut st, ErrOut = []\<rparr> \<and>
         (IsHumanReadablePrinter g \<or> Watch g \<or> WatchOnly g \<longrightarrow> cOut st = [])))"
proof (intro conjI impI)
  let ?c = "TargetMemberClusters g ! idx"
  let ?st = "memberTasks g fs sched (Run_first g f)"
  assume a: "memberFactories f (TargetMemberClusters g) = Inr fs \<and>
             idx < length (TargetMemberClusters g)"
  then have mf: "memberFactories f (TargetMemberClusters g) = Inr fs"
    and idx: "idx < length (TargetMemberClusters g)"
    by simp_all
  note target = members_target[OF mf idx]
  from idx have ne: "TargetMemberClusters g \<noteq> []" by auto
  have run: "Run_collect g f sched = Inr ?st"
    using mf ne by (rule Run_collect_members)
  have any: "e \<in> set (cAllErrs ?st) \<and> taggedWith ?c e"
    if "membersApart g f fs sched \<and> RESTClient (fs ! idx) = None \<and>
        AppendErr e \<in> set (getObjInfo_ops g (fs ! idx) ?c False)"
    using that target(2)[of sched e] getObjInfo_ops_tagged[of "fs ! idx" e g ?c False]
    by blast
  have probe: "inaccessible ?c \<in> set (cAllErrs ?st)"
    if p: "membersApart g f fs sched \<and> RESTClient (fs ! idx) = None \<and>
        ProxyProbe (fs ! idx) ?c \<noteq> None"
  proof -
    from p have "getObjInfo_ops g (fs ! idx) ?c False = [AppendErr (inaccessible ?c)]"
      by (simp add: getObjInfo_ops_def)
    then have "AppendErr (inaccessible ?c) \<in> set (getObjInfo_ops g (fs ! idx) ?c False)"
      by simp
    with p target(2) show ?thesis by blast
  qed
  have query: "clusterError ?c err \<in> set (cAllErrs ?st)"
    if p: "membersApart g f fs sched \<and> RESTClient (fs ! idx) = None \<and>
        ProxyProbe (fs ! idx) ?c = None \<and> Err (BuilderDo (fs ! idx)) = Some err"
  proof -
    from p have "getObjInfo_ops g (fs ! idx) ?c False = [AppendErr (clusterError ?c err)]"
      by (simp add: getObjInfo_ops_def)
    then have "AppendErr (clusterError ?c err) \<in> set (getObjInfo_ops g (fs ! idx) ?c False)"
      by simp
    with p target(2) show ?thesis by blast
  qed
  have ok: "\<forall>info \<in> set infos.
              \<lparr>Cluster = ?c, IsControlPlane = False, Info = info\<rparr> \<in> set (cObjs ?st)"
    if p: "\<not> Watch g \<and> \<not> WatchOnly g \<and> IsHumanReadablePrinter g \<and>
        RESTClient (fs ! idx) = None \<and> ProxyProbe (fs ! idx) ?c = None \<and>
        Err (BuilderDo (fs ! idx)) = None \<and> Infos (BuilderDo (fs ! idx)) = Inr infos"
  proof -
    from p have "getObjInfo_ops g (fs ! idx) ?c False =
        [AddObjs (map (\<lambda>info. \<lparr>Cluster = ?c, IsControlPlane = False, Info = info\<rparr>) infos)]"
      by (simp add: getObjInfo_ops_def)
    from target(3)[OF this, of sched] show ?thesis by auto
  qed
  show "\<exists>st. Run_collect g f sched = Inr st \<and>
         FactoryForMemberCluster f ?c = Inr (fs ! idx) \<and>
         (membersApart g f fs sched \<and> RESTClient (fs ! idx) = None \<and>
          AppendErr e \<in> set (getObjInfo_ops g (fs ! idx) ?c False) \<longrightarrow>
            e \<in> set (cAllErrs st) \<and> taggedWith ?c e) \<and>
         (membersApart g f fs sched \<and> RESTClient (fs ! idx) = None \<and>
          ProxyProbe (fs ! idx) ?c \<noteq> None \<longrightarrow>
            inaccessible ?c \<in> set (cAllErrs st)) \<and>
         (membersApart g f fs sched \<and> RESTClient (fs ! idx) = None \<and>
          ProxyProbe (fs ! idx) ?c = None \<and>
          Err (BuilderDo (fs ! idx)) = Some err \<longrightarrow>
            clusterError ?c err \<in> set (cAllErrs st)) \<and>
         (\<not> Watch g \<and> \<not> WatchOnly g \<and> IsHumanReadablePrinter g \<and>
          RESTClient (fs ! idx) = None \<and>
          ProxyProbe (fs ! idx) ?c = None \<and>
          Err (BuilderDo (fs ! idx)) = None \<and> Infos (BuilderDo (fs ! idx)) = Inr infos \<longrightarrow>
            (\<forall>info \<in> set infos.
               \<lparr>Cluster = ?c, IsControlPlane = False, Info = info\<rparr> \<in> set (cObjs st)))"
  proof (intro exI[of _ ?st] conjI)
    show "Run_collect g f sched = Inr ?st" by (rule run)
    show "FactoryForMemberCluster f ?c = Inr (fs ! idx)" by (rule target(1))
    show "membersApart g f fs sched \<and> RESTClient (fs ! idx) = None \<and>
          AppendErr e \<in> set (getObjInfo_ops g (fs ! idx) ?c False) \<longrightarrow>
            e \<in> set (cAllErrs ?st) \<and> taggedWith ?c e"
      by (rule impI) (rule any)
    show "membersApart g f fs sched \<and> RESTClient (fs ! idx) = None \<and>
          ProxyProbe (fs ! idx) ?c \<noteq> None \<longrightarrow>
            inaccessible ?c \<in> set (cAllErrs ?st)"
      by (rule impI) (rule probe)
    show "membersApart g f fs sched \<and> RESTClient (fs ! idx) = None \<and>
          ProxyProbe (fs ! idx) ?c = None \<and>
          Err (BuilderDo (fs ! idx)) = Some err \<longrightarrow>
            clusterError ?c err \<in> set (cAllErrs ?st)"
      by (rule impI) (rule query)
    show "\<not> Watch g \<and> \<not> WatchOnly g \<and> IsHumanReadablePrinter g \<and>
          RESTClient (fs ! idx) = None \<and>
          ProxyProbe (fs ! idx) ?c = None \<and>
          Err (BuilderDo (fs ! idx)) = None \<and> Infos (BuilderDo (fs ! idx)) = Inr infos \<longrightarrow>
            (\<forall>info \<in> set infos.
               \<lparr>Cluster = ?c, IsControlPlane = False, Info = info\<rparr> \<in> set (cObjs ?st))"
      by (rule impI) (rule ok)
  qed
next
  assume b: "TargetMemberClusters g \<noteq> [] \<and>
             memberFactories f (TargetMemberClusters g) = Inl (failure, started)"
  then show "FactoryForMemberCluster f (TargetMemberClusters g ! length started) = Inl failure"
    using memberFactories_failed[of f "TargetMemberClusters g" failure started] by blast
next
  let ?st = "fShared (fanout (memberTaskList g started) sched (Run_first g f))"
  assume b: "TargetMemberClusters g \<noteq> [] \<and>
             memberFactories f (TargetMemberClusters g) = Inl (failure, started)"
  then have c: "Run_collect g f sched = Inl (failure, ?st)"
    using Run_collect_failed[of f g failure started sched] by blast
  then have r: "Run g u f pc sched = Done \<lparr>Returned = [failure], Out = cOut ?st, ErrOut = []\<rparr>"
    by (simp add: Run_def)
  have q: "cOut ?st = []" if "IsHumanReadablePrinter g \<or> Watch g \<or> WatchOnly g"
    using members_quiet[OF that, of started sched "Run_first g f"] Run_first_quiet[OF that, of f]
    by simp
  show "\<exists>st. Run_collect g f sched = Inl (failure, st) \<and>
         Run g u f pc sched = Done \<lparr>Returned = [failure], Out = cOut st, ErrOut = []\<rparr> \<and>
         (IsHumanReadablePrinter g \<or> Watch g \<or> WatchOnly g \<longrightarrow> cOut st = [])"
  proof (intro exI[of _ ?st] conjI)
    show "Run_collect g f sched = Inl (failure, ?st)" by (rule c)
    show "Run g u f pc sched = Done \<lparr>Returned = [failure], Out = cOut ?st, ErrOut = []\<rparr>"
      by (rule r)
    show "IsHumanReadablePrinter g \<or> Watch g \<or> WatchOnly g \<longrightarrow> cOut ?st = []"
      by (rule impI) (rule q)
  qed
qed

theorem fanout_keeps_other_targets_witness:
  "memberFactories
     (twoMembers (healthy (oneRowResult podsMapping ''nginx'' (Decoded [])))
        (Inr (unreachable (healthy emptyResult))))
     (TargetMemberClusters memberOptions)
   = Inr [healthy (oneRowResult podsMapping ''nginx'' (Decoded [])),
          unreachable (healthy emptyResult)] \<and>
   (1::nat) < length (TargetMemberClusters memberOptions) \<and>
   membersApart memberOptions
     (twoMembers (healthy (oneRowResult podsMapping ''nginx'' (Decoded [])))
        (Inr (unreachable (healthy emptyResult))))
     [healthy (oneRowResult podsMapping ''nginx'' (Decoded [])),
      unreachable (healthy emptyResult)] [1, 0, 1] \<and>
   ProxyProbe (unreachable (healthy emptyResult)) ''member2'' \<noteq> None \<and>
   Run_collect memberOptions
     (twoMembers (healthy (oneRowResult podsMapping ''nginx'' (Decoded [])))
        (Inr (unreachable (healthy emptyResult)))) [1, 0, 1]
   = Inr \<lparr>cObjs = [\<lparr>Cluster = ''member1'', IsControlPlane = False,
                      Info = oneRowInfo podsMapping ''nginx'' (Decoded [])\<rparr>],
          cWatchObjs = [], cAllErrs = [inaccessible ''member2''], cOut = []\<rparr> \<and>
   taggedWith ''member2'' (inaccessible ''member2'') \<and>
   memberFactories
     (twoMembers (healthy (oneRowResult podsMapping ''nginx'' (Decoded [])))
        (Inl (Error ''no such cluster'')))
     (TargetMemberClusters memberOptions)
   = Inl (Error ''no such cluster'', [healthy (oneRowResult podsMapping ''nginx'' (Decoded []))]) \<and>
   Run memberOptions exampleExternals
     (twoMembers (healthy (oneRowResult podsMapping ''nginx'' (Decoded [])))
        (Inl (Error ''no such cluster''))) podColumns [0]
   = Done \<lparr>Returned = [Error ''no such cluster''], Out = [], ErrOut = []\<rparr>"
  using fanout_keeps_other_targets[where
      f = "twoMembers (healthy (oneRowResult podsMapping ''nginx'' (Decoded [])))
         (Inr (unreachable (healthy emptyResult)))"
      and g = memberOptions
      and fs = "[healthy (oneRowResult podsMapping ''nginx'' (Decoded [])),
        unreachable (healthy emptyResult)]"
      and idx = 1 and sched = "[1, 0, 1]" and e = "inaccessible ''member2''"]
    fanout_keeps_other_targets[where
      f = "twoMembers (healthy (oneRowResult podsMapping ''nginx'' (Decoded [])))
         (Inr (unreachable (healthy emptyResult)))"
      and g = memberOptions
      and fs = "[healthy (oneRowResult podsMapping ''nginx'' (Decoded [])),
        unreachable (healthy emptyResult)]"
      and idx = 0 and sched = "[1, 0, 1]"
      and infos = "[oneRowInfo podsMapping ''nginx'' (Decoded [])]"]
    fanout_keeps_other_targets[where
      f = "twoMembers (healthy (oneRowResult podsMapping ''nginx'' (Decoded [])))
         (Inl (Error ''no such cluster''))"
      and g = memberOptions and u = exampleExternals and pc = podColumns and sched = "[0]"
      and failure = "Error ''no such cluster''"
      and started = "[healthy (oneRowResult podsMapping ''nginx'' (Decoded []))]"]
  by (simp add: memberOptions_def twoMembers_def unreachable_def emptyResult_def example_defs
      collect_defs membersApart_def reading_def taggedWith_def inaccessible_def)

subsection \<open>The error list\<close>

text \<open>
  In the loop of \<^verbatim>\<open>printObjs\<close>, the errors added so far are those of the printers
  that could not be made, one per message, the messages being those of the local set.
\<close>

lemma printObjs_loop_errs:
  assumes "psAllErrs st = base @ P" "map errorText P = psErrs st" "distinct (psErrs st)"
      and "printObjs_loop g u k objs st = fl"
  shows "(\<forall>st'. fl = Next st' \<longrightarrow>
            (\<exists>P'. psAllErrs st' = base @ P' \<and> map errorText P' = psErrs st' \<and>
                  distinct (psErrs st'))) \<and>
         (\<forall>st'. fl = Return st' \<longrightarrow>
            (\<exists>P' err. psAllErrs st' = base @ P' @ [err] \<and> distinct (map errorText P')))"
  using assms
proof (induction objs arbitrary: st P)
  case Nil
  then show ?case by auto
next
  case (Cons obj objs)
  show ?case
  proof (cases "printObjs_body g u k obj objs st")
    case (Crash p)
    with Cons.prems(4) have "fl = Crash p" by simp
    then show ?thesis by simp
  next
    case (Return st1)
    from Return have r: "fl = Return st1" using Cons.prems(4) by simp
    from printObjs_body_Return[OF Return] obtain err where
      e: "psAllErrs st1 = psAllErrs st @ [err]" by blast
    have d: "distinct (map errorText P)" using Cons.prems(2,3) by simp
    have "psAllErrs st1 = base @ P @ [err]" using e Cons.prems(1) by simp
    with d have "\<exists>P' err. psAllErrs st1 = base @ P' @ [err] \<and> distinct (map errorText P')"
      by blast
    with r show ?thesis by simp
  next
    case (Next st1)
    from Next have l: "printObjs_loop g u k objs st1 = fl" using Cons.prems(4) by simp
    from Next show ?thesis
    proof (cases rule: printObjs_body_cases)
      case (table st0)
      from table(1) printObjs_table_Next[of g u obj objs st0 st1]
      have "psAllErrs st1 = psAllErrs st0" "psErrs st1 = psErrs st0" by simp_all
      with table Cons.prems(1,2,3)
      have "psAllErrs st1 = base @ P" "map errorText P = psErrs st1" "distinct (psErrs st1)"
        by simp_all
      from Cons.IH[OF this l] show ?thesis .
    next
      case (known st0)
      then have "st0 = st1" by simp
      with known Cons.prems(1,2,3)
      have "psAllErrs st1 = base @ P" "map errorText P = psErrs st1" "distinct (psErrs st1)"
        by simp_all
      from Cons.IH[OF this l] show ?thesis .
    next
      case (new st0 err)
      then have "st0 = st1" by simp
      with new Cons.prems(1,2,3)
      have "psAllErrs st1 = base @ (P @ [err])" "map errorText (P @ [err]) = psErrs st1"
           "distinct (psErrs st1)"
        by simp_all
      from Cons.IH[OF this l] show ?thesis .
    qed
  qed
qed

lemma printObjs_errs:
  assumes "printObjs g u pc objs allErrs = Inr r"
  shows "\<exists>P F. rAllErrs r = allErrs @ P @ F \<and> distinct (map errorText P) \<and> length F \<le> 1"
proof -
  let ?st0 = "\<lparr>psPrinter = NilInterface, psLastMapping = None, psErrs = [],
                 psAllErrs = allErrs, psSameKind = [],
                 psWriters = \<lparr>Buffer = [], Ready = False, Written = 0, Delegate = []\<rparr>,
                 psAllResourcesNamespaced = (\<not> AllNamespaces g), psPodColumns = pc,
                 psPrinted = []\<rparr>"
  have inv: "psAllErrs ?st0 = allErrs @ []" "map errorText [] = psErrs ?st0"
    "distinct (psErrs ?st0)"
    by simp_all
  note loop = printObjs_loop_errs[OF inv, of g u "multipleGVKsRequested objs" objs]
  show ?thesis
  proof (cases "printObjs_loop g u (multipleGVKsRequested objs) objs ?st0")
    case (Crash p)
    with assms show ?thesis by (simp add: printObjs_def Let_def)
  next
    case (Return st)
    from loop[OF Return] obtain P err where
      p: "psAllErrs st = allErrs @ P @ [err]" "distinct (map errorText P)" by blast
    from assms Return have "rAllErrs r = psAllErrs st" by (auto simp: printObjs_def Let_def)
    with p show ?thesis by (intro exI[of _ P] exI[of _ "[err]"]) simp
  next
    case (Next st)
    from loop[OF Next] obtain P where
      p: "psAllErrs st = allErrs @ P" "map errorText P = psErrs st" "distinct (psErrs st)"
      by blast
    obtain errOut allErrs' where q: "printIfNotFindResource g (Written (Flush (psWriters st)))
        (psAllErrs st) (psAllResourcesNamespaced st) [] = (errOut, allErrs')"
      by (cases "printIfNotFindResource g (Written (Flush (psWriters st)))
        (psAllErrs st) (psAllResourcesNamespaced st) []")
    then have "allErrs' = psAllErrs st"
      by (auto simp: printIfNotFindResource_def split: if_splits)
    with assms Next q have "rAllErrs r = psAllErrs st" by (auto simp: printObjs_def Let_def)
    moreover have "distinct (map errorText P)" using p(2,3) by simp
    ultimately show ?thesis using p(1) by (intro exI[of _ P] exI[of _ "[]"]) simp
  qed
qed


text \<open>
  C7, as the claim states it: the returned errors are de-duplicated by message and each
  one is tagged with its target. In the first run the same member is named twice as a
  target and cannot be reached: the run returns the same message twice. In the second
  run no printer can be made for the pods of two healthy members: the error is returned
  once, without the name of a target.
\<close>

theorem returned_errors_repeat_untagged_counterexample:
  "Run sameMemberTwice exampleExternals
     (twoMembers (unreachable (healthy emptyResult)) (Inr (healthy emptyResult)))
     podColumns [0, 0, 1, 1]
   = Done \<lparr>Returned =
             [Error ''cluster(member1) is inaccessible, please check authorization or network'',
              Error ''cluster(member1) is inaccessible, please check authorization or network''],
           Out = [], ErrOut = []\<rparr> \<and>
   \<not> distinct (map errorText
       [Error ''cluster(member1) is inaccessible, please check authorization or network'',
        Error ''cluster(member1) is inaccessible, please check authorization or network'']) \<and>
   Run (memberOptions\<lparr>ToPrinter := ToPrinter noPrinterOptions\<rparr>) exampleExternals
     (twoMembers (healthy (oneRowResult podsMapping ''nginx'' (Decoded [])))
        (Inr (healthy (oneRowResult podsMapping ''web'' (Decoded [])))))
     podColumns [0, 1]
   = Done \<lparr>Returned = [Error ''no printer''], Out = [], ErrOut = []\<rparr> \<and>
   \<not> taggedWith ''member1'' (Error ''no printer'') \<and>
   \<not> taggedWith ''member2'' (Error ''no printer'')"
  by (simp add: sameMemberTwice_def memberOptions_def noPrinterOptions_def twoMembers_def
      unreachable_def emptyResult_def example_defs collect_defs table_defs print_defs
      taggedWith_def inaccessible_def)

text \<open>
  C7, amended. The error list keeps the order of insertion and nothing is de-duplicated
  during collection. A call of \<^verbatim>\<open>getObjInfo\<close> that runs alone adds at most one error
  at the end of the list; the goroutines of the members, when their appends are apart,
  add at the end of the list exactly the errors of all targets, one entry for each error
  of each target, also when messages are equal. An error of a target whose REST client
  could be made starts with \<open>cluster(name)\<close>. The rendering adds at the end of the list
  the errors of the printers that could not be made, one per distinct message, and after
  them at most one further error.
\<close>

theorem error_list_is_appended_in_order:
  "(\<exists>E. cAllErrs (getObjInfo g fac cluster cp st) = cAllErrs st @ E \<and> length E \<le> 1 \<and>
        (RESTClient fac = None \<longrightarrow> (\<forall>e \<in> set E. taggedWith cluster e))) \<and>
   (RESTClient fac = None \<longrightarrow>
      (\<forall>e \<in> set (opErrors (getObjInfo_ops g fac cluster cp)). taggedWith cluster e)) \<and>
   (appendsApart \<lparr>fTasks = memberTaskList g fs, fShared = st\<rparr> (sched @ finishing (length fs)) \<longrightarrow>
      (\<exists>E. cAllErrs (memberTasks g fs sched st) = cAllErrs st @ E \<and>
           mset E = mset (taskErrors (memberTaskList g fs)))) \<and>
   (printObjs g u pc objs allErrs = Inr r \<longrightarrow>
      (\<exists>P F. rAllErrs r = allErrs @ P @ F \<and> distinct (map errorText P) \<and> length F \<le> 1))"
proof (intro conjI)
  from getObjInfo_adds[of g fac cluster cp st] obtain E B where
    "cAllErrs (getObjInfo g fac cluster cp st) = cAllErrs st @ E \<and>
     cObjs (getObjInfo g fac cluster cp st) = cObjs st @ B \<and> length E \<le> 1 \<and>
     (RESTClient fac = None \<longrightarrow> (\<forall>e \<in> set E. taggedWith cluster e))"
    by (elim exE)
  then have "cAllErrs (getObjInfo g fac cluster cp st) = cAllErrs st @ E \<and> length E \<le> 1 \<and>
        (RESTClient fac = None \<longrightarrow> (\<forall>e \<in> set E. taggedWith cluster e))"
    by (elim conjE) (intro conjI)
  then show "\<exists>E. cAllErrs (getObjInfo g fac cluster cp st) = cAllErrs st @ E \<and> length E \<le> 1 \<and>
        (RESTClient fac = None \<longrightarrow> (\<forall>e \<in> set E. taggedWith cluster e))"
    by (rule exI)
next
  show "RESTClient fac = None \<longrightarrow>
      (\<forall>e \<in> set (opErrors (getObjInfo_ops g fac cluster cp)). taggedWith cluster e)"
    by (cases rule: getObjInfo_ops_cases[of fac g cluster cp]) simp_all
next
  show "appendsApart \<lparr>fTasks = memberTaskList g fs, fShared = st\<rparr>
          (sched @ finishing (length fs)) \<longrightarrow>
      (\<exists>E. cAllErrs (memberTasks g fs sched st) = cAllErrs st @ E \<and>
           mset E = mset (taskErrors (memberTaskList g fs)))"
    by (rule impI) (rule members_errs)
next
  show "printObjs g u pc objs allErrs = Inr r \<longrightarrow>
      (\<exists>P F. rAllErrs r = allErrs @ P @ F \<and> distinct (map errorText P) \<and> length F \<le> 1)"
    by (rule impI) (rule printObjs_errs)
qed

theorem error_list_is_appended_in_order_witness:
  "RESTClient (unreachable (healthy emptyResult)) = None \<and>
   cAllErrs (getObjInfo memberOptions (unreachable (healthy emptyResult)) ''member2'' False
      \<lparr>cObjs = [], cWatchObjs = [], cAllErrs = [Error ''earlier''], cOut = []\<rparr>)
   = [Error ''earlier''] @ [inaccessible ''member2''] \<and>
   taggedWith ''member2'' (inaccessible ''member2'') \<and>
   appendsApart
     \<lparr>fTasks = memberTaskList sameMemberTwice
                 [unreachable (healthy emptyResult), unreachable (healthy emptyResult)],
      fShared = \<lparr>cObjs = [], cWatchObjs = [], cAllErrs = [Error ''earlier''], cOut = []\<rparr>\<rparr>
     ([1, 1, 0] @ finishing 2) \<and>
   taskErrors (memberTaskList sameMemberTwice
                 [unreachable (healthy emptyResult), unreachable (healthy emptyResult)])
   = [inaccessible ''member1'', inaccessible ''member1''] \<and>
   cAllErrs (memberTasks sameMemberTwice
      [unreachable (healthy emptyResult), unreachable (healthy emptyResult)] [1, 1, 0]
      \<lparr>cObjs = [], cWatchObjs = [], cAllErrs = [Error ''earlier''], cOut = []\<rparr>)
   = [Error ''earlier''] @ [inaccessible ''member1'', inaccessible ''member1''] \<and>
   printObjs noPrinterOptions exampleExternals podColumns
     [\<lparr>Cluster = ''member1'', IsControlPlane = False,
       Info = oneRowInfo podsMapping ''nginx'' (Decoded [])\<rparr>,
      \<lparr>Cluster = ''member2'', IsControlPlane = False,
       Info = oneRowInfo podsMapping ''web'' (Decoded [])\<rparr>]
     [Error ''earlier'']
   = Inr \<lparr>rAllErrs = [Error ''earlier''] @ [Error ''no printer''] @ [], rOut = [],
          rWritten = 0, rErrOut = [], rPodColumns = podColumns\<rparr>"
  using error_list_is_appended_in_order[where g = memberOptions
      and fac = "unreachable (healthy emptyResult)" and cluster = "''member2''" and cp = False
      and st = "\<lparr>cObjs = [], cWatchObjs = [], cAllErrs = [Error ''earlier''], cOut = []\<rparr>"
      and fs = "[]" and sched = "[]"]
    error_list_is_appended_in_order[where g = sameMemberTwice
      and fac = "unreachable (healthy emptyResult)" and cluster = "''member1''" and cp = False
      and st = "\<lparr>cObjs = [], cWatchObjs = [], cAllErrs = [Error ''earlier''], cOut = []\<rparr>"
      and fs = "[unreachable (healthy emptyResult), unreachable (healthy emptyResult)]"
      and sched = "[1, 1, 0]"]
    error_list_is_appended_in_order[where g = noPrinterOptions and u = exampleExternals
      and pc = podColumns
      and objs = "[\<lparr>Cluster = ''member1'', IsControlPlane = False,
         Info = oneRowInfo podsMapping ''nginx'' (Decoded [])\<rparr>,
        \<lparr>Cluster = ''member2'', IsControlPlane = False,
         Info = oneRowInfo podsMapping ''web'' (Decoded [])\<rparr>]"
      and allErrs = "[Error ''earlier'']"
      and r = "\<lparr>rAllErrs = [Error ''earlier''] @ [Error ''no printer''] @ [], rOut = [],
        rWritten = 0, rErrOut = [], rPodColumns = podColumns\<rparr>"]
  by (simp add: noPrinterOptions_def sameMemberTwice_def memberOptions_def unreachable_def
      emptyResult_def example_defs getObjInfo_def getObjInfo_ops_def memberTasks_def
      memberTaskList_def fanout_def finishing_def taskStep_def reading_def taskErrors_def
      table_defs print_defs taggedWith_def inaccessible_def numeral_2_eq_2)


end
